theory Spec2Isabelle
  imports Complex_Main "HOL-Library.Sublist"
begin

section \<open>JavaScript values and strings\<close>

text \<open>
  Strings are lists of characters. The source's non-ASCII literals (emoji, bullets,
  arrows) are written as their UTF-8 bytes; \<open>length\<close> therefore agrees with
  JavaScript's \<open>.length\<close> on ASCII text only. A number is a rational: every number a JSON
  document carries, and tool arguments arrive as JSON.
\<close>

datatype json =
    JUndefined
  | JNull
  | JBool bool
  | JNum rat
  | JStr string
  | JArr "json list"
  | JObj "(string \<times> json) list"

text \<open>A thrown value: an \<open>Error\<close> object with its message, or anything else.\<close>

datatype thrown = ErrorObj string | OtherThrown

text \<open>\<open>error instanceof Error ? error.message : 'Unknown error'\<close>\<close>

definition error_message :: "thrown \<Rightarrow> string" where
  "error_message e = (case e of ErrorObj m \<Rightarrow> m | OtherThrown \<Rightarrow> ''Unknown error'')"

definition NL :: string where "NL = [CHR 0x0A]"

definition e_check :: string where "e_check = [CHR 0xE2, CHR 0x9C, CHR 0x85]"
definition e_cross :: string where "e_cross = [CHR 0xE2, CHR 0x9D, CHR 0x8C]"
definition e_bullet :: string where "e_bullet = [CHR 0xE2, CHR 0x80, CHR 0xA2]"
definition e_arrow :: string where "e_arrow = [CHR 0xE2, CHR 0x86, CHR 0x92]"
definition e_star :: string where "e_star = [CHR 0xE2, CHR 0xAD, CHR 0x90]"
definition e_clipboard :: string where "e_clipboard = [CHR 0xF0, CHR 0x9F, CHR 0x93, CHR 0x8B]"
definition e_folder :: string where "e_folder = [CHR 0xF0, CHR 0x9F, CHR 0x93, CHR 0x81]"
definition e_shuffle :: string where "e_shuffle = [CHR 0xF0, CHR 0x9F, CHR 0x94, CHR 0x80]"
definition e_glass :: string where "e_glass = [CHR 0xF0, CHR 0x9F, CHR 0x94, CHR 0x8D]"
definition e_calendar :: string where "e_calendar = [CHR 0xF0, CHR 0x9F, CHR 0x93, CHR 0x85]"
definition e_page :: string where "e_page = [CHR 0xF0, CHR 0x9F, CHR 0x93, CHR 0x84]"
definition e_microscope :: string where "e_microscope = [CHR 0xF0, CHR 0x9F, CHR 0x94, CHR 0xAC]"

text \<open>Decimal rendering of a number inside a template string.\<close>

fun digits :: "nat \<Rightarrow> string" where
  "digits n =
     (if n < 10 then [char_of (48 + n)]
      else digits (n div 10) @ [char_of (48 + n mod 10)])"

definition show_int :: "int \<Rightarrow> string" where
  "show_int i = (if i < 0 then CHR ''-'' # digits (nat (- i)) else digits (nat i))"

text \<open>\<open>Array.prototype.join\<close>\<close>

fun join :: "string \<Rightarrow> string list \<Rightarrow> string" where
  "join sep [] = []"
| "join sep [x] = x"
| "join sep (x # y # ys) = x @ sep @ join sep (y # ys)"

text \<open>\<open>s.startsWith(p)\<close> and \<open>s.includes(p)\<close>\<close>

fun starts_with :: "string \<Rightarrow> string \<Rightarrow> bool" where
  "starts_with s [] = True"
| "starts_with [] (p # ps) = False"
| "starts_with (c # cs) (p # ps) = (c = p \<and> starts_with cs ps)"

fun str_includes :: "string \<Rightarrow> string \<Rightarrow> bool" where
  "str_includes [] p = (p = [])"
| "str_includes (c # cs) p = (starts_with (c # cs) p \<or> str_includes cs p)"

text \<open>\<open>s.split(c)\<close> for a one-character separator: never the empty list.\<close>

fun split_char :: "char \<Rightarrow> string \<Rightarrow> string list" where
  "split_char sep [] = [[]]"
| "split_char sep (c # cs) =
     (if c = sep then [] # split_char sep cs
      else (case split_char sep cs of
              [] \<Rightarrow> [[c]]
            | l # ls \<Rightarrow> (c # l) # ls))"

text \<open>\<open>s.split(sep)[0]\<close> for a non-empty separator: the text before its first occurrence.\<close>

fun before_sep :: "string \<Rightarrow> string \<Rightarrow> string" where
  "before_sep sep [] = []"
| "before_sep sep (c # cs) = (if starts_with (c # cs) sep then [] else c # before_sep sep cs)"

text \<open>
  \<open>xs.slice(0, k)\<close>: the end is made an integer by dropping its fraction (towards zero); a
  negative end counts from the end of the array.
\<close>

definition to_integer :: "rat \<Rightarrow> int" where
  "to_integer k = (if 0 \<le> k then \<lfloor>k\<rfloor> else \<lceil>k\<rceil>)"

definition slice0 :: "rat \<Rightarrow> 'a list \<Rightarrow> 'a list" where
  "slice0 k xs =
     (let i = to_integer k
      in if 0 \<le> i then take (nat i) xs else take (length xs - nat (- i)) xs)"

text \<open>\<open>String.prototype.trim\<close> on ASCII white space.\<close>

definition is_space :: "char \<Rightarrow> bool" where
  "is_space c = (c \<in> set [CHR 0x09, CHR 0x0A, CHR 0x0B, CHR 0x0C, CHR 0x0D, CHR 0x20])"

definition trim :: "string \<Rightarrow> string" where
  "trim s = rev (dropWhile is_space (rev (dropWhile is_space s)))"

text \<open>\<open>encodeURIComponent\<close> over the UTF-8 bytes of the string.\<close>

definition hex_digit :: "nat \<Rightarrow> char" where
  "hex_digit n = (if n < 10 then char_of (48 + n) else char_of (55 + n))"

definition unreserved :: "char \<Rightarrow> bool" where
  "unreserved c =
     (let n = (of_char c :: nat)
      in (65 \<le> n \<and> n \<le> 90) \<or> (97 \<le> n \<and> n \<le> 122) \<or> (48 \<le> n \<and> n \<le> 57)
         \<or> c \<in> set ''-_.!~*()'' \<or> n = 39)"

definition encodeURIComponent :: "string \<Rightarrow> string" where
  "encodeURIComponent s =
     concat (map (\<lambda>c. if unreserved c then [c]
                       else [CHR ''%'', hex_digit ((of_char c :: nat) div 16), hex_digit ((of_char c :: nat) mod 16)]) s)"

section \<open>Argument bags and their declared shapes (zod)\<close>

text \<open>
  Every operation takes a loosely typed argument bag and parses it with
  \<open>z.object({...}).parse(args)\<close>. A shape lists the declared fields in order; a field
  is required, \<open>.optional()\<close> or \<open>.default(v)\<close>. Parsing collects one issue per
  offending field and throws a \<open>ZodError\<close> when there is any; unknown keys are stripped.
  A bag is an object when it lists keys with values (each key once); anything else is
  refused whole.
\<close>

datatype ztype =
    ZString
  | ZStringThat "string \<Rightarrow> bool"
  | ZNumber
  | ZEnum "string list"
  | ZArrayOfString

datatype zfield = Required ztype | Optional ztype | Default ztype json

type_synonym zshape = "(string \<times> zfield) list"

datatype issue_code = invalid_type | invalid_enum_value | invalid_string

datatype zod_issue = Issue string issue_code

text \<open>What an operation throws: the validator's error, or an \<open>Error\<close> with a message.\<close>

datatype exn = ZodError "zod_issue list" | JsError string

text \<open>The uniform result \<open>{content: [{type: 'text', text}]}\<close>.\<close>

datatype ToolCallResult = Content string

fun is_JStr :: "json \<Rightarrow> bool" where
  "is_JStr (JStr s) = True"
| "is_JStr v = False"

fun check_type :: "ztype \<Rightarrow> json \<Rightarrow> issue_code option" where
  "check_type ZString (JStr s) = None"
| "check_type ZString v = Some invalid_type"
| "check_type (ZStringThat ok) (JStr s) = (if ok s then None else Some invalid_string)"
| "check_type (ZStringThat ok) v = Some invalid_type"
| "check_type ZNumber (JNum n) = None"
| "check_type ZNumber v = Some invalid_type"
| "check_type (ZEnum vs) (JStr s) = (if s \<in> set vs then None else Some invalid_enum_value)"
| "check_type (ZEnum vs) v = Some invalid_type"
| "check_type ZArrayOfString (JArr xs) = (if list_all is_JStr xs then None else Some invalid_type)"
| "check_type ZArrayOfString v = Some invalid_type"

fun parse_field :: "zfield \<Rightarrow> json \<Rightarrow> issue_code + json" where
  "parse_field (Required t) v = (case check_type t v of None \<Rightarrow> Inr v | Some c \<Rightarrow> Inl c)"
| "parse_field (Optional t) v =
     (if v = JUndefined then Inr JUndefined
      else case check_type t v of None \<Rightarrow> Inr v | Some c \<Rightarrow> Inl c)"
| "parse_field (Default t d) v =
     (if v = JUndefined then Inr d
      else case check_type t v of None \<Rightarrow> Inr v | Some c \<Rightarrow> Inl c)"

text \<open>Property lookup: a missing key reads as \<open>undefined\<close>.\<close>

definition lookup :: "(string \<times> json) list \<Rightarrow> string \<Rightarrow> json" where
  "lookup kvs k = (case map_of kvs k of None \<Rightarrow> JUndefined | Some v \<Rightarrow> v)"

fun parse_fields :: "zshape \<Rightarrow> (string \<times> json) list \<Rightarrow> zod_issue list \<times> (string \<times> json) list" where
  "parse_fields [] kvs = ([], [])"
| "parse_fields ((k, f) # rest) kvs =
     (case parse_fields rest kvs of
        (issues, out) \<Rightarrow>
          (case parse_field f (lookup kvs k) of
             Inl c \<Rightarrow> (Issue k c # issues, out)
           | Inr v \<Rightarrow> (issues, (k, v) # out)))"

definition zparse :: "zshape \<Rightarrow> json \<Rightarrow> exn + (string \<times> json) list" where
  "zparse shape args =
     (case args of
        JObj kvs \<Rightarrow>
          (case parse_fields shape kvs of
             ([], out) \<Rightarrow> Inr out
           | (i # issues, out) \<Rightarrow> Inl (ZodError (i # issues)))
      | _ \<Rightarrow> Inl (ZodError [Issue [] invalid_type]))"

text \<open>Reading the parsed fields back at their declared types.\<close>

definition str_field :: "(string \<times> json) list \<Rightarrow> string \<Rightarrow> string" where
  "str_field p k = (case lookup p k of JStr s \<Rightarrow> s | _ \<Rightarrow> [])"

definition opt_field :: "(string \<times> json) list \<Rightarrow> string \<Rightarrow> string option" where
  "opt_field p k = (case lookup p k of JStr s \<Rightarrow> Some s | _ \<Rightarrow> None)"

definition num_field :: "(string \<times> json) list \<Rightarrow> string \<Rightarrow> rat" where
  "num_field p k = (case lookup p k of JNum n \<Rightarrow> n | _ \<Rightarrow> 0)"

text \<open>An optional array of strings, destructured with the default \<open>[]\<close>.\<close>

definition strs_field :: "(string \<times> json) list \<Rightarrow> string \<Rightarrow> string list" where
  "strs_field p k =
     (case lookup p k of
        JArr xs \<Rightarrow> map (\<lambda>v. case v of JStr s \<Rightarrow> s | _ \<Rightarrow> []) xs
      | _ \<Rightarrow> [])"

text \<open>JavaScript truthiness of an optional string: \<open>undefined\<close> and \<open>''\<close> are falsy.\<close>

definition truthy :: "string option \<Rightarrow> bool" where
  "truthy v = (case v of None \<Rightarrow> False | Some s \<Rightarrow> s \<noteq> [])"

text \<open>\<open>a || b\<close> on strings.\<close>

definition or_else :: "string \<Rightarrow> string \<Rightarrow> string" where
  "or_else a b = (if a = [] then b else a)"

text \<open>
  The three ways the claim about validation names for a bag not to match its shape,
  stated on the shape and the bag and not through the parser.
\<close>

fun is_required :: "zfield \<Rightarrow> bool" where
  "is_required (Required t) = True"
| "is_required f = False"

fun field_type :: "zfield \<Rightarrow> ztype" where
  "field_type (Required t) = t"
| "field_type (Optional t) = t"
| "field_type (Default t d) = t"

fun has_js_type :: "ztype \<Rightarrow> json \<Rightarrow> bool" where
  "has_js_type ZString v = is_JStr v"
| "has_js_type (ZStringThat ok) v = is_JStr v"
| "has_js_type (ZEnum vs) v = is_JStr v"
| "has_js_type ZNumber (JNum n) = True"
| "has_js_type ZNumber v = False"
| "has_js_type ZArrayOfString (JArr xs) = list_all is_JStr xs"
| "has_js_type ZArrayOfString v = False"

fun outside_enum :: "ztype \<Rightarrow> json \<Rightarrow> bool" where
  "outside_enum (ZEnum vs) (JStr s) = (s \<notin> set vs)"
| "outside_enum t v = False"

definition required_field_missing :: "zshape \<Rightarrow> json \<Rightarrow> bool" where
  "required_field_missing shape args =
     (case args of
        JObj kvs \<Rightarrow> list_ex (\<lambda>(k, f). is_required f \<and> lookup kvs k = JUndefined) shape
      | _ \<Rightarrow> False)"

definition field_of_wrong_type :: "zshape \<Rightarrow> json \<Rightarrow> bool" where
  "field_of_wrong_type shape args =
     (case args of
        JObj kvs \<Rightarrow>
          list_ex (\<lambda>(k, f). lookup kvs k \<noteq> JUndefined \<and> \<not> has_js_type (field_type f) (lookup kvs k)) shape
      | _ \<Rightarrow> False)"

definition value_outside_enum :: "zshape \<Rightarrow> json \<Rightarrow> bool" where
  "value_outside_enum shape args =
     (case args of
        JObj kvs \<Rightarrow> list_ex (\<lambda>(k, f). outside_enum (field_type f) (lookup kvs k)) shape
      | _ \<Rightarrow> False)"

definition shape_mismatch :: "zshape \<Rightarrow> json \<Rightarrow> bool" where
  "shape_mismatch shape args =
     (required_field_missing shape args \<or> field_of_wrong_type shape args
      \<or> value_outside_enum shape args)"

section \<open>Vendor calls\<close>

text \<open>
  Every call an operation makes to a vendor client, with the arguments it passes. An
  operation returns, next to its result, the log of the calls it issued, each with whether
  the vendor answered (\<open>True\<close>) or threw.
\<close>

datatype block = Paragraph "string list" | OtherBlock

datatype vendor_call =
    issues_create string string string string "string list"
  | git_getRef string string string
  | git_createRef string string string string
  | pulls_create string string string string string string
  | issues_listForRepo string string string "string option" rat
  | repos_get string string
  | pages_create string string "string list" string string
  | notion_search string
  | pages_update string "(string \<times> string) list"
  | blocks_children_append string "block list"
  | pages_retrieve string
  | blocks_children_list string
  | databases_query string "string option" rat
  | refreshAccessToken
  | events_insert string string string string "string list"
  | events_list string string rat
  | events_update string "(string \<times> string) list"
  | events_delete string
  | axios_get string "(string \<times> string) list" int

type_synonym call_log = "(vendor_call \<times> bool) list"

fun answered :: "'e + 'a \<Rightarrow> bool" where
  "answered (Inr r) = True"
| "answered (Inl e) = False"

text \<open>\<open>throw new Error(`<prefix>: ${error instanceof Error ? error.message : 'Unknown error'}`)\<close>\<close>

definition wrapped :: "string \<Rightarrow> thrown \<Rightarrow> exn" where
  "wrapped what e = JsError (what @ '': '' @ error_message e)"

section \<open>Configuration\<close>

text \<open>\<open>process.env\<close>: a variable is unset, or set to a string (possibly empty).\<close>

type_synonym env = "string \<Rightarrow> string option"

definition env_str :: "string option \<Rightarrow> string" where
  "env_str v = (case v of None \<Rightarrow> [] | Some s \<Rightarrow> s)"

section \<open>GitHubService (src/services/github.ts, lines 1 to 197)\<close>

record GitHubService =
  gh_token :: string
  gh_owner :: string
  gh_repo :: string

definition new_GitHubService :: "env \<Rightarrow> exn + GitHubService" where
  "new_GitHubService env =
     (let token = env ''GITHUB_TOKEN''; owner = env ''GITHUB_OWNER''; repo = env ''GITHUB_REPO''
      in if \<not> truthy token \<or> \<not> truthy owner \<or> \<not> truthy repo
         then Inl (JsError ''GitHub configuration missing. Please set GITHUB_TOKEN, GITHUB_OWNER, and GITHUB_REPO environment variables.'')
         else Inr \<lparr>gh_token = env_str token, gh_owner = env_str owner, gh_repo = env_str repo\<rparr>)"

text \<open>What the GitHub client answers: an issue or pull request, a listed issue, a repository.\<close>

record gh_item =
  number :: int
  title :: string
  html_url :: string
  state :: string

datatype gh_label = LabelStr string | LabelObj "string option"

record gh_issue = gh_item +
  labels :: "gh_label list"
  created_at :: string

record gh_repository =
  full_name :: string
  description :: "string option"
  stargazers_count :: int
  forks_count :: int
  language :: "string option"
  repo_html_url :: string

definition createIssue_shape :: zshape where
  "createIssue_shape =
     [(''title'', Required ZString), (''body'', Required ZString),
      (''labels'', Optional ZArrayOfString)]"

definition createIssue ::
  "GitHubService \<Rightarrow> thrown + gh_item \<Rightarrow> json \<Rightarrow> (exn + ToolCallResult) \<times> call_log" where
  "createIssue svc vendor args =
     (case zparse createIssue_shape args of
        Inl e \<Rightarrow> (Inl e, [])
      | Inr p \<Rightarrow>
          (let title = str_field p ''title''; body = str_field p ''body'';
               labels = strs_field p ''labels'';
               call = issues_create (gh_owner svc) (gh_repo svc) title body (''content'' # labels)
           in case vendor of
                Inl error \<Rightarrow> (Inl (wrapped ''Failed to create GitHub issue'' error), [(call, False)])
              | Inr d \<Rightarrow>
                  (Inr (Content (e_check @ '' GitHub issue created successfully!'' @ NL @ NL
                     @ ''**Issue #'' @ show_int (number d) @ ''**: '' @ gh_item.title d @ NL @ NL
                     @ ''URL: '' @ html_url d @ NL @ NL @ ''Status: '' @ state d)),
                   [(call, True)])))"

definition createBranch_shape :: zshape where
  "createBranch_shape =
     [(''branchName'', Required ZString), (''baseBranch'', Default ZString (JStr ''main''))]"

text \<open>Two dependent calls: the base branch's head commit, then the new ref at that commit.\<close>

definition createBranch ::
  "GitHubService \<Rightarrow> thrown + string \<Rightarrow> thrown + unit \<Rightarrow> json \<Rightarrow> (exn + ToolCallResult) \<times> call_log" where
  "createBranch svc vendor_getRef vendor_createRef args =
     (case zparse createBranch_shape args of
        Inl e \<Rightarrow> (Inl e, [])
      | Inr p \<Rightarrow>
          (let branchName = str_field p ''branchName''; baseBranch = str_field p ''baseBranch'';
               call1 = git_getRef (gh_owner svc) (gh_repo svc) (''heads/'' @ baseBranch)
           in case vendor_getRef of
                Inl error \<Rightarrow> (Inl (wrapped ''Failed to create GitHub branch'' error), [(call1, False)])
              | Inr sha \<Rightarrow>
                  (let call2 = git_createRef (gh_owner svc) (gh_repo svc) (''refs/heads/'' @ branchName) sha
                   in case vendor_createRef of
                        Inl error \<Rightarrow>
                          (Inl (wrapped ''Failed to create GitHub branch'' error),
                           [(call1, True), (call2, False)])
                      | Inr u \<Rightarrow>
                          (Inr (Content (e_check @ '' Branch '' @ [CHR 0x27] @ branchName @ [CHR 0x27]
                             @ '' created successfully from '' @ [CHR 0x27] @ baseBranch @ [CHR 0x27] @ ''!''
                             @ NL @ NL @ ''Branch URL: https://github.com/'' @ gh_owner svc @ ''/''
                             @ gh_repo svc @ ''/tree/'' @ branchName)),
                           [(call1, True), (call2, True)]))))"

definition createPullRequest_shape :: zshape where
  "createPullRequest_shape =
     [(''title'', Required ZString), (''body'', Required ZString), (''head'', Required ZString),
      (''base'', Default ZString (JStr ''main''))]"

definition createPullRequest ::
  "GitHubService \<Rightarrow> thrown + gh_item \<Rightarrow> json \<Rightarrow> (exn + ToolCallResult) \<times> call_log" where
  "createPullRequest svc vendor args =
     (case zparse createPullRequest_shape args of
        Inl e \<Rightarrow> (Inl e, [])
      | Inr p \<Rightarrow>
          (let title = str_field p ''title''; body = str_field p ''body'';
               head = str_field p ''head''; base = str_field p ''base'';
               call = pulls_create (gh_owner svc) (gh_repo svc) title body head base
           in case vendor of
                Inl error \<Rightarrow>
                  (Inl (wrapped ''Failed to create GitHub pull request'' error), [(call, False)])
              | Inr d \<Rightarrow>
                  (Inr (Content (e_check @ '' Pull request created successfully!'' @ NL @ NL
                     @ ''**PR #'' @ show_int (number d) @ ''**: '' @ gh_item.title d @ NL @ NL
                     @ ''URL: '' @ html_url d @ NL @ NL @ ''Status: '' @ state d @ NL @ NL
                     @ ''From: '' @ head @ '' '' @ e_arrow @ '' To: '' @ base)),
                   [(call, True)])))"

definition listIssues_shape :: zshape where
  "listIssues_shape =
     [(''state'', Default (ZEnum [''open'', ''closed'', ''all'']) (JStr ''open'')),
      (''labels'', Optional ZString), (''limit'', Default ZNumber (JNum 10))]"

text \<open>A parameter declared \<open>args: any = {}\<close>: \<open>undefined\<close> reads as the empty bag.\<close>

definition or_empty :: "json \<Rightarrow> json" where
  "or_empty args = (if args = JUndefined then JObj [] else args)"

definition label_name :: "gh_label \<Rightarrow> string" where
  "label_name l = (case l of LabelStr s \<Rightarrow> s | LabelObj n \<Rightarrow> env_str n)"

definition listIssues ::
  "GitHubService \<Rightarrow> thrown + gh_issue list \<Rightarrow> json \<Rightarrow> (exn + ToolCallResult) \<times> call_log" where
  "listIssues svc vendor args =
     (case zparse listIssues_shape (or_empty args) of
        Inl e \<Rightarrow> (Inl e, [])
      | Inr p \<Rightarrow>
          (let st = str_field p ''state''; labels = opt_field p ''labels'';
               limit = num_field p ''limit'';
               call = issues_listForRepo (gh_owner svc) (gh_repo svc) st
                        (if truthy labels then labels else None) limit
           in case vendor of
                Inl error \<Rightarrow> (Inl (wrapped ''Failed to list GitHub issues'' error), [(call, False)])
              | Inr issues \<Rightarrow>
                  (Inr (Content (e_clipboard @ '' Found '' @ show_int (int (length issues))
                     @ '' issues:'' @ NL @ NL
                     @ join (NL @ NL)
                         (map (\<lambda>issue. e_bullet @ '' #'' @ show_int (number issue) @ '': ''
                                 @ gh_item.title issue @ '' ('' @ state issue @ '')'' @ NL
                                 @ ''  Labels: ''
                                 @ or_else (join '', '' (map label_name (gh_issue.labels issue))) ''none''
                                 @ NL @ ''  URL: '' @ html_url issue) issues))),
                   [(call, True)])))"

text \<open>\<open>getRepositoryInfo()\<close> takes no arguments and declares no shape.\<close>

definition getRepositoryInfo ::
  "GitHubService \<Rightarrow> thrown + gh_repository \<Rightarrow> (exn + ToolCallResult) \<times> call_log" where
  "getRepositoryInfo svc vendor =
     (let call = repos_get (gh_owner svc) (gh_repo svc)
      in case vendor of
           Inl error \<Rightarrow> (Inl (wrapped ''Failed to get repository info'' error), [(call, False)])
         | Inr d \<Rightarrow>
             (Inr (Content (e_folder @ '' Repository: '' @ full_name d @ NL @ NL
                @ ''Description: '' @ or_else (env_str (description d)) ''No description'' @ NL @ NL
                @ ''Stars: '' @ e_star @ '' '' @ show_int (stargazers_count d) @ NL
                @ ''Forks: '' @ e_shuffle @ '' '' @ show_int (forks_count d) @ NL
                @ ''Language: '' @ or_else (env_str (language d)) ''Not specified'' @ NL @ NL
                @ ''URL: '' @ repo_html_url d)),
              [(call, True)]))"

section \<open>The runtime's clock and date formatting\<close>

text \<open>
  \<open>Date.now()\<close> and the locale-dependent renderings of a date are taken from the
  runtime: the time in milliseconds, \<open>new Date(ms).toISOString()\<close>,
  \<open>new Date(ms).toLocaleString()\<close>, and the same two locale renderings of a date given as
  a string.
\<close>

record runtime =
  rt_now :: int
  rt_toISOString :: "int \<Rightarrow> string"
  rt_toLocaleString :: "int \<Rightarrow> string"
  rt_strToLocaleString :: "string \<Rightarrow> string"
  rt_strToLocaleDateString :: "string \<Rightarrow> string"

definition DQ :: string where "DQ = [CHR 0x22]"

section \<open>NotionService (unnamed/part_001, imported as services/notion)\<close>

record NotionService =
  n_token :: string
  n_databaseId :: string

definition new_NotionService :: "env \<Rightarrow> exn + NotionService" where
  "new_NotionService env =
     (let token = env ''NOTION_TOKEN''; databaseId = env ''NOTION_DATABASE_ID''
      in if \<not> truthy token \<or> \<not> truthy databaseId
         then Inl (JsError ''Notion configuration missing. Please set NOTION_TOKEN and NOTION_DATABASE_ID environment variables.'')
         else Inr \<lparr>n_token = env_str token, n_databaseId = env_str databaseId\<rparr>)"

text \<open>
  A page object as the Notion client returns it. The source reads every property through
  optional chaining, so each is optional here.
\<close>

record notion_page_obj =
  page_id :: string
  parent_database_id :: "string option"
  prop_Title :: "string option"
  prop_Status :: "string option"
  prop_Tags :: "string list option"
  page_url :: string
  last_edited_time :: string
  prop_Created_Date :: "string option"

text \<open>\<open>id.replace(/-/g, '')\<close>\<close>

definition without_dashes :: "string \<Rightarrow> string" where
  "without_dashes s = filter (\<lambda>c. c \<noteq> CHR ''-'') s"

definition paragraph_block :: "string \<Rightarrow> block" where
  "paragraph_block content = Paragraph [content]"

definition createPage_shape :: zshape where
  "createPage_shape =
     [(''title'', Required ZString), (''content'', Required ZString),
      (''tags'', Optional ZArrayOfString)]"

definition createPage ::
  "NotionService \<Rightarrow> runtime \<Rightarrow> thrown + string \<Rightarrow> json \<Rightarrow> (exn + ToolCallResult) \<times> call_log" where
  "createPage svc rt vendor args =
     (case zparse createPage_shape args of
        Inl e \<Rightarrow> (Inl e, [])
      | Inr p \<Rightarrow>
          (let title = str_field p ''title''; content = str_field p ''content'';
               tags = strs_field p ''tags'';
               call = pages_create (n_databaseId svc) title tags
                        (rt_toISOString rt (rt_now rt)) content
           in case vendor of
                Inl error \<Rightarrow> (Inl (wrapped ''Failed to create Notion page'' error), [(call, False)])
              | Inr response_id \<Rightarrow>
                  (Inr (Content (e_check @ '' Notion page created successfully!'' @ NL @ NL
                     @ ''**Title**: '' @ title @ NL @ NL
                     @ ''**Page ID**: '' @ response_id @ NL @ NL
                     @ ''**URL**: https://notion.so/'' @ without_dashes response_id @ NL @ NL
                     @ ''**Status**: Draft'' @ NL @ NL
                     @ ''**Tags**: '' @ or_else (join '', '' tags) ''None'')),
                   [(call, True)])))"

definition searchPages_shape :: zshape where
  "searchPages_shape = [(''query'', Required ZString), (''filter'', Optional ZString)]"

definition page_tags :: "notion_page_obj \<Rightarrow> string list" where
  "page_tags page = (case prop_Tags page of None \<Rightarrow> [] | Some ts \<Rightarrow> ts)"

definition searchPages ::
  "NotionService \<Rightarrow> runtime \<Rightarrow> thrown + notion_page_obj list \<Rightarrow> json
     \<Rightarrow> (exn + ToolCallResult) \<times> call_log" where
  "searchPages svc rt vendor args =
     (case zparse searchPages_shape args of
        Inl e \<Rightarrow> (Inl e, [])
      | Inr p \<Rightarrow>
          (let query = str_field p ''query''; call = notion_search query
           in case vendor of
                Inl error \<Rightarrow> (Inl (wrapped ''Failed to search Notion pages'' error), [(call, False)])
              | Inr results \<Rightarrow>
                  (let pages = filter (\<lambda>page. parent_database_id page = Some (n_databaseId svc)) results
                   in (Inr (Content (e_glass @ '' Found '' @ show_int (int (length pages))
                         @ '' pages matching '' @ DQ @ query @ DQ @ '':'' @ NL @ NL
                         @ join (NL @ NL)
                             (map (\<lambda>page. e_bullet @ '' **''
                                     @ or_else (env_str (prop_Title page)) ''Untitled'' @ ''**'' @ NL
                                     @ ''  Status: '' @ or_else (env_str (prop_Status page)) ''Unknown'' @ NL
                                     @ ''  Tags: '' @ or_else (join '', '' (page_tags page)) ''None'' @ NL
                                     @ ''  URL: '' @ page_url page @ NL
                                     @ ''  Last edited: ''
                                     @ rt_strToLocaleDateString rt (last_edited_time page)) pages))),
                       [(call, True)]))))"

definition updatePage_shape :: zshape where
  "updatePage_shape =
     [(''pageId'', Required ZString), (''title'', Optional ZString), (''content'', Optional ZString),
      (''status'', Optional (ZEnum [''Draft'', ''Review'', ''Published'']))]"

text \<open>
  \<open>updateData.properties\<close>: the title when it is truthy, then the status when it is
  truthy; the page update is issued with whatever was collected, then the content, when
  truthy, is appended as one paragraph block.
\<close>

definition updateData :: "string option \<Rightarrow> string option \<Rightarrow> (string \<times> string) list" where
  "updateData new_title new_status =
     (if truthy new_title then [(''Title'', env_str new_title)] else [])
     @ (if truthy new_status then [(''Status'', env_str new_status)] else [])"

definition updatePage ::
  "NotionService \<Rightarrow> thrown + unit \<Rightarrow> thrown + unit \<Rightarrow> json \<Rightarrow> (exn + ToolCallResult) \<times> call_log" where
  "updatePage svc vendor_update vendor_append args =
     (case zparse updatePage_shape args of
        Inl e \<Rightarrow> (Inl e, [])
      | Inr p \<Rightarrow>
          (let pageId = str_field p ''pageId''; title = opt_field p ''title'';
               content = opt_field p ''content''; status = opt_field p ''status'';
               call1 = pages_update pageId (updateData title status)
           in case vendor_update of
                Inl error \<Rightarrow> (Inl (wrapped ''Failed to update Notion page'' error), [(call1, False)])
              | Inr response \<Rightarrow>
                  (let call2 = blocks_children_append pageId [paragraph_block (env_str content)];
                       text = e_check @ '' Notion page updated successfully!'' @ NL @ NL
                         @ ''**Page ID**: '' @ pageId @ NL @ NL
                         @ ''**URL**: https://notion.so/'' @ without_dashes pageId @ NL @ NL
                         @ (if truthy title then ''**New Title**: '' @ env_str title @ NL @ NL else [])
                         @ (if truthy status then ''**New Status**: '' @ env_str status @ NL @ NL else [])
                         @ (if truthy content then ''**Content added**'' @ NL @ NL else [])
                   in if truthy content
                      then (case vendor_append of
                              Inl error \<Rightarrow>
                                (Inl (wrapped ''Failed to update Notion page'' error),
                                 [(call1, True), (call2, False)])
                            | Inr u \<Rightarrow> (Inr (Content text), [(call1, True), (call2, True)]))
                      else (Inr (Content text), [(call1, True)]))))"

definition getPage_shape :: zshape where
  "getPage_shape = [(''pageId'', Required ZString)]"

definition block_text :: "block \<Rightarrow> string" where
  "block_text b = (case b of Paragraph rich_text \<Rightarrow> concat rich_text | OtherBlock \<Rightarrow> [])"

definition getPage ::
  "NotionService \<Rightarrow> thrown + notion_page_obj \<Rightarrow> thrown + block list \<Rightarrow> json
     \<Rightarrow> (exn + ToolCallResult) \<times> call_log" where
  "getPage svc vendor_retrieve vendor_list args =
     (case zparse getPage_shape args of
        Inl e \<Rightarrow> (Inl e, [])
      | Inr p \<Rightarrow>
          (let pageId = str_field p ''pageId''; call1 = pages_retrieve pageId
           in case vendor_retrieve of
                Inl error \<Rightarrow> (Inl (wrapped ''Failed to get Notion page'' error), [(call1, False)])
              | Inr response \<Rightarrow>
                  (let call2 = blocks_children_list pageId
                   in case vendor_list of
                        Inl error \<Rightarrow>
                          (Inl (wrapped ''Failed to get Notion page'' error),
                           [(call1, True), (call2, False)])
                      | Inr blocks \<Rightarrow>
                          (Inr (Content (e_page @ '' **Page Details**'' @ NL @ NL
                             @ ''**Title**: '' @ or_else (env_str (prop_Title response)) ''Untitled'' @ NL @ NL
                             @ ''**Status**: '' @ or_else (env_str (prop_Status response)) ''Unknown'' @ NL @ NL
                             @ ''**Tags**: '' @ or_else (join '', '' (page_tags response)) ''None'' @ NL @ NL
                             @ ''**URL**: '' @ page_url response @ NL @ NL
                             @ ''**Content**:'' @ NL @ join NL (map block_text blocks))),
                           [(call1, True), (call2, True)]))))"

definition listDatabasePages_shape :: zshape where
  "listDatabasePages_shape =
     [(''status'', Optional ZString), (''limit'', Default ZNumber (JNum 10))]"

definition listDatabasePages ::
  "NotionService \<Rightarrow> runtime \<Rightarrow> thrown + notion_page_obj list \<Rightarrow> json
     \<Rightarrow> (exn + ToolCallResult) \<times> call_log" where
  "listDatabasePages svc rt vendor args =
     (case zparse listDatabasePages_shape (or_empty args) of
        Inl e \<Rightarrow> (Inl e, [])
      | Inr p \<Rightarrow>
          (let status = opt_field p ''status''; limit = num_field p ''limit'';
               call = databases_query (n_databaseId svc)
                        (if truthy status then status else None) limit
           in case vendor of
                Inl error \<Rightarrow> (Inl (wrapped ''Failed to list database pages'' error), [(call, False)])
              | Inr pages \<Rightarrow>
                  (Inr (Content (e_clipboard @ '' Database pages''
                     @ (if truthy status then '' with status '' @ DQ @ env_str status @ DQ else [])
                     @ '':'' @ NL @ NL
                     @ join (NL @ NL)
                         (map (\<lambda>page. e_bullet @ '' **''
                                 @ or_else (env_str (prop_Title page)) ''Untitled'' @ ''**'' @ NL
                                 @ ''  Status: '' @ or_else (env_str (prop_Status page)) ''Unknown'' @ NL
                                 @ ''  Tags: '' @ or_else (join '', '' (page_tags page)) ''None'' @ NL
                                 @ ''  URL: '' @ page_url page @ NL
                                 @ ''  Created: ''
                                 @ (if truthy (prop_Created_Date page)
                                    then rt_strToLocaleDateString rt (env_str (prop_Created_Date page))
                                    else ''Unknown'')) pages))),
                   [(call, True)])))"

section \<open>GoogleCalendarService (src/services/github.ts from line 199, imported as services/google-calendar)\<close>

text \<open>
  The OAuth client's credentials are the connector's only mutable state. The tokens file is
  read once, at construction; a missing or unreadable file leaves the client's initial,
  empty credentials in place.
\<close>

record credentials =
  access_token :: "string option"
  refresh_token :: "string option"
  expiry_date :: "int option"

record GoogleCalendarService =
  gc_clientId :: string
  gc_clientSecret :: string
  gc_redirectUri :: string
  gc_credentials :: "credentials option"

datatype tokens_file = NoFile | Unreadable | Tokens "credentials option"

record filesystem =
  primaryPath :: tokens_file
  fallbackPath :: tokens_file

definition no_credentials :: credentials where
  "no_credentials = \<lparr>access_token = None, refresh_token = None, expiry_date = None\<rparr>"

definition loadTokens :: "tokens_file \<Rightarrow> credentials option \<Rightarrow> credentials option" where
  "loadTokens tokensFile current =
     (case tokensFile of Tokens tokens \<Rightarrow> tokens | Unreadable \<Rightarrow> current | NoFile \<Rightarrow> current)"

definition new_GoogleCalendarService :: "env \<Rightarrow> filesystem \<Rightarrow> exn + GoogleCalendarService" where
  "new_GoogleCalendarService env fs =
     (let clientId = env ''GOOGLE_CLIENT_ID''; clientSecret = env ''GOOGLE_CLIENT_SECRET'';
          redirectUri = env ''GOOGLE_REDIRECT_URI''
      in if \<not> truthy clientId \<or> \<not> truthy clientSecret \<or> \<not> truthy redirectUri
         then Inl (JsError ''Google Calendar configuration missing. Please set GOOGLE_CLIENT_ID, GOOGLE_CLIENT_SECRET, and GOOGLE_REDIRECT_URI environment variables.'')
         else (let tokensFile = (if primaryPath fs \<noteq> NoFile then primaryPath fs else fallbackPath fs)
               in Inr \<lparr>gc_clientId = env_str clientId, gc_clientSecret = env_str clientSecret,
                        gc_redirectUri = env_str redirectUri,
                        gc_credentials = loadTokens tokensFile (Some no_credentials)\<rparr>))"

text \<open>\<open>tokens.expiry_date && Date.now() >= tokens.expiry_date\<close>: an expiry of 0 is falsy.\<close>

definition token_expired :: "credentials \<Rightarrow> int \<Rightarrow> bool" where
  "token_expired tokens now =
     (case expiry_date tokens of None \<Rightarrow> False | Some d \<Rightarrow> d \<noteq> 0 \<and> d \<le> now)"

definition auth_required_message :: string where
  "auth_required_message =
     ''Google Calendar authentication required. Please run the OAuth setup first: npm run oauth-setup''"

definition refresh_failed_message :: string where
  "refresh_failed_message =
     ''Google Calendar token expired and could not be refreshed. Please re-authenticate.''"

definition ensureAuthenticated ::
  "GoogleCalendarService \<Rightarrow> int \<Rightarrow> thrown + credentials
     \<Rightarrow> (thrown + unit) \<times> GoogleCalendarService \<times> call_log" where
  "ensureAuthenticated svc now vendor_refresh =
     (case gc_credentials svc of
        None \<Rightarrow> (Inl (ErrorObj auth_required_message), svc, [])
      | Some tokens \<Rightarrow>
          if \<not> truthy (access_token tokens) then (Inl (ErrorObj auth_required_message), svc, [])
          else if token_expired tokens now
          then (case vendor_refresh of
                  Inl error \<Rightarrow>
                    (Inl (ErrorObj refresh_failed_message), svc, [(refreshAccessToken, False)])
                | Inr refreshed \<Rightarrow>
                    (Inr (), svc\<lparr>gc_credentials := Some refreshed\<rparr>, [(refreshAccessToken, True)]))
          else (Inr (), svc, []))"

text \<open>
  The opening of every operation's \<open>try\<close> block: \<open>await this.ensureAuthenticated()\<close>, then
  the one call to the calendar API. Whatever either throws reaches the operation's
  \<open>catch\<close>.
\<close>

definition authenticated_call ::
  "GoogleCalendarService \<Rightarrow> int \<Rightarrow> thrown + credentials \<Rightarrow> vendor_call \<Rightarrow> thrown + 'a
     \<Rightarrow> (thrown + 'a) \<times> GoogleCalendarService \<times> call_log" where
  "authenticated_call svc now vendor_refresh call vendor =
     (case ensureAuthenticated svc now vendor_refresh of
        (Inl error, svc', calls) \<Rightarrow> (Inl error, svc', calls)
      | (Inr u, svc', calls) \<Rightarrow> (vendor, svc', calls @ [(call, answered vendor)]))"

record gc_event =
  ev_id :: string
  summary :: string
  ev_description :: "string option"
  start_dateTime :: "string option"
  start_date :: "string option"
  end_dateTime :: "string option"
  end_date :: "string option"
  ev_attendees :: "string list option"
  htmlLink :: string

definition attendee_list :: "gc_event \<Rightarrow> string list" where
  "attendee_list ev = (case ev_attendees ev of None \<Rightarrow> [] | Some as \<Rightarrow> as)"

definition createEvent_shape :: zshape where
  "createEvent_shape =
     [(''title'', Required ZString), (''description'', Optional ZString),
      (''startTime'', Required ZString), (''endTime'', Required ZString),
      (''attendees'', Optional ZArrayOfString)]"

text \<open>The text of the \<open>catch\<close> block of \<open>createEvent\<close>: a mock event, returned as a result.\<close>

definition mock_event_text ::
  "runtime \<Rightarrow> string \<Rightarrow> string \<Rightarrow> string \<Rightarrow> string option \<Rightarrow> string list \<Rightarrow> string" where
  "mock_event_text rt ev_title startTime endTime ev_desc attendees =
     e_calendar @ '' **Mock Calendar Event Created**'' @ NL @ NL
     @ ''**Event**: '' @ ev_title @ NL @ NL
     @ ''**Start**: '' @ rt_strToLocaleString rt startTime @ NL
     @ ''**End**: '' @ rt_strToLocaleString rt endTime @ NL @ NL
     @ ''**Description**: '' @ or_else (env_str ev_desc) ''Content development deadline'' @ NL @ NL
     @ ''**Attendees**: '' @ or_else (join '', '' attendees) ''None'' @ NL @ NL
     @ ''*Note: This is a mock response. In production, complete OAuth authentication to create real calendar events.*''"

definition createEvent ::
  "GoogleCalendarService \<Rightarrow> runtime \<Rightarrow> thrown + credentials \<Rightarrow> thrown + gc_event \<Rightarrow> json
     \<Rightarrow> (exn + ToolCallResult) \<times> GoogleCalendarService \<times> call_log" where
  "createEvent svc rt vendor_refresh vendor_insert args =
     (case zparse createEvent_shape (or_empty args) of
        Inl e \<Rightarrow> (Inl e, svc, [])
      | Inr p \<Rightarrow>
          (let title = str_field p ''title''; description = opt_field p ''description'';
               startTime = str_field p ''startTime''; endTime = str_field p ''endTime'';
               attendees = strs_field p ''attendees'';
               call = events_insert title
                        (or_else (env_str description) ''Content development deadline'')
                        startTime endTime attendees
           in case authenticated_call svc (rt_now rt) vendor_refresh call vendor_insert of
                (Inl err, svc', calls) \<Rightarrow>
                  (Inr (Content (mock_event_text rt title startTime endTime description attendees)),
                   svc', calls)
              | (Inr d, svc', calls) \<Rightarrow>
                  (Inr (Content (e_check @ '' Calendar event created successfully!'' @ NL @ NL
                     @ ''**Event**: '' @ summary d @ NL @ NL
                     @ ''**Start**: '' @ rt_strToLocaleString rt (env_str (start_dateTime d)) @ NL
                     @ ''**End**: '' @ rt_strToLocaleString rt (env_str (end_dateTime d)) @ NL @ NL
                     @ ''**Description**: '' @ or_else (env_str (ev_description d)) ''No description''
                     @ NL @ NL
                     @ ''**Attendees**: '' @ or_else (join '', '' (attendee_list d)) ''None'' @ NL @ NL
                     @ ''**Event URL**: '' @ htmlLink d)),
                   svc', calls)))"

definition listEvents_shape :: zshape where
  "listEvents_shape =
     [(''timeMin'', Optional ZString), (''timeMax'', Optional ZString),
      (''maxResults'', Default ZNumber (JNum 10))]"

text \<open>\<open>error instanceof Error && error.message.includes('authentication')\<close>\<close>

definition mentions_authentication :: "thrown \<Rightarrow> bool" where
  "mentions_authentication e =
     (case e of ErrorObj m \<Rightarrow> str_includes m ''authentication'' | OtherThrown \<Rightarrow> False)"

text \<open>The mock list that \<open>listEvents\<close> returns for an authentication error.\<close>

definition mock_events_text :: "runtime \<Rightarrow> string" where
  "mock_events_text rt =
     e_calendar @ '' **Mock Calendar Events**'' @ NL @ NL
     @ e_bullet @ '' **Content Review Meeting**'' @ NL
     @ ''  Start: '' @ rt_toLocaleString rt (rt_now rt) @ NL
     @ ''  End: '' @ rt_toLocaleString rt (rt_now rt + 60 * 60 * 1000) @ NL
     @ ''  Attendees: team@example.com'' @ NL @ NL
     @ e_bullet @ '' **Publishing Deadline**'' @ NL
     @ ''  Start: '' @ rt_toLocaleString rt (rt_now rt + 24 * 60 * 60 * 1000) @ NL
     @ ''  End: '' @ rt_toLocaleString rt (rt_now rt + 24 * 60 * 60 * 1000 + 30 * 60 * 1000) @ NL
     @ ''  Attendees: None'' @ NL @ NL
     @ ''*Note: This is a mock response. In production, complete OAuth authentication to list real calendar events.*''"

definition listEvents ::
  "GoogleCalendarService \<Rightarrow> runtime \<Rightarrow> thrown + credentials \<Rightarrow> thrown + gc_event list option
     \<Rightarrow> json \<Rightarrow> (exn + ToolCallResult) \<times> GoogleCalendarService \<times> call_log" where
  "listEvents svc rt vendor_refresh vendor_list args =
     (case zparse listEvents_shape (or_empty args) of
        Inl e \<Rightarrow> (Inl e, svc, [])
      | Inr p \<Rightarrow>
          (let timeMin = opt_field p ''timeMin''; timeMax = opt_field p ''timeMax'';
               maxResults = num_field p ''maxResults''; now = rt_now rt;
               call = events_list
                        (or_else (env_str timeMin) (rt_toISOString rt now))
                        (or_else (env_str timeMax)
                           (rt_toISOString rt (now + 7 * 24 * 60 * 60 * 1000)))
                        maxResults
           in case authenticated_call svc now vendor_refresh call vendor_list of
                (Inl error, svc', calls) \<Rightarrow>
                  (if mentions_authentication error
                   then (Inr (Content (mock_events_text rt)), svc', calls)
                   else (Inl (wrapped ''Failed to list calendar events'' error), svc', calls))
              | (Inr items, svc', calls) \<Rightarrow>
                  (let events = (case items of None \<Rightarrow> [] | Some evs \<Rightarrow> evs)
                   in (Inr (Content (e_calendar @ '' Upcoming calendar events:'' @ NL @ NL
                         @ join (NL @ NL)
                             (map (\<lambda>event. e_bullet @ '' **'' @ summary event @ ''**'' @ NL
                                     @ ''  Start: ''
                                     @ rt_strToLocaleString rt
                                         (or_else (env_str (start_dateTime event)) (env_str (start_date event)))
                                     @ NL @ ''  End: ''
                                     @ rt_strToLocaleString rt
                                         (or_else (env_str (end_dateTime event)) (env_str (end_date event)))
                                     @ NL @ ''  Attendees: ''
                                     @ or_else (join '', '' (attendee_list event)) ''None'' @ NL
                                     @ ''  URL: '' @ htmlLink event) events))),
                       svc', calls))))"

definition updateEvent_shape :: zshape where
  "updateEvent_shape =
     [(''eventId'', Required ZString), (''title'', Optional ZString),
      (''description'', Optional ZString), (''startTime'', Optional ZString),
      (''endTime'', Optional ZString)]"

definition event_updateData ::
  "string option \<Rightarrow> string option \<Rightarrow> string option \<Rightarrow> string option \<Rightarrow> (string \<times> string) list" where
  "event_updateData new_title new_description new_start new_end =
     (if truthy new_title then [(''summary'', env_str new_title)] else [])
     @ (if truthy new_description then [(''description'', env_str new_description)] else [])
     @ (if truthy new_start then [(''start'', env_str new_start)] else [])
     @ (if truthy new_end then [(''end'', env_str new_end)] else [])"

definition updateEvent ::
  "GoogleCalendarService \<Rightarrow> runtime \<Rightarrow> thrown + credentials \<Rightarrow> thrown + gc_event \<Rightarrow> json
     \<Rightarrow> (exn + ToolCallResult) \<times> GoogleCalendarService \<times> call_log" where
  "updateEvent svc rt vendor_refresh vendor_update args =
     (case zparse updateEvent_shape args of
        Inl e \<Rightarrow> (Inl e, svc, [])
      | Inr p \<Rightarrow>
          (let eventId = str_field p ''eventId'';
               call = events_update eventId
                        (event_updateData (opt_field p ''title'') (opt_field p ''description'')
                           (opt_field p ''startTime'') (opt_field p ''endTime''))
           in case authenticated_call svc (rt_now rt) vendor_refresh call vendor_update of
                (Inl error, svc', calls) \<Rightarrow>
                  (Inl (wrapped ''Failed to update calendar event'' error), svc', calls)
              | (Inr d, svc', calls) \<Rightarrow>
                  (Inr (Content (e_check @ '' Calendar event updated successfully!'' @ NL @ NL
                     @ ''**Event**: '' @ summary d @ NL @ NL
                     @ ''**Start**: '' @ rt_strToLocaleString rt (env_str (start_dateTime d)) @ NL
                     @ ''**End**: '' @ rt_strToLocaleString rt (env_str (end_dateTime d)) @ NL @ NL
                     @ ''**Event URL**: '' @ htmlLink d)),
                   svc', calls)))"

definition deleteEvent_shape :: zshape where
  "deleteEvent_shape = [(''eventId'', Required ZString)]"

definition deleteEvent ::
  "GoogleCalendarService \<Rightarrow> runtime \<Rightarrow> thrown + credentials \<Rightarrow> thrown + unit \<Rightarrow> json
     \<Rightarrow> (exn + ToolCallResult) \<times> GoogleCalendarService \<times> call_log" where
  "deleteEvent svc rt vendor_refresh vendor_delete args =
     (case zparse deleteEvent_shape args of
        Inl e \<Rightarrow> (Inl e, svc, [])
      | Inr p \<Rightarrow>
          (let eventId = str_field p ''eventId''; call = events_delete eventId
           in case authenticated_call svc (rt_now rt) vendor_refresh call vendor_delete of
                (Inl error, svc', calls) \<Rightarrow>
                  (Inl (wrapped ''Failed to delete calendar event'' error), svc', calls)
              | (Inr u, svc', calls) \<Rightarrow>
                  (Inr (Content (e_check @ '' Calendar event deleted successfully!'' @ NL @ NL
                     @ ''**Event ID**: '' @ eventId)),
                   svc', calls)))"

section \<open>WebSearchService (src/services/web-search.ts)\<close>

record WebSearchService =
  enabled :: bool


text \<open>
  The DuckDuckGo answer. The source tests every field for truthiness only, so an absent
  field and an empty one are the same: the empty string, the empty list.
\<close>

record related_topic =
  Text :: string
  FirstURL :: string

record ddg_data =
  AbstractText :: string
  Heading :: string
  AbstractURL :: string
  RelatedTopics :: "related_topic list"

record search_hit =
  hit_title :: string
  hit_url :: string
  hit_snippet :: string
  hit_type :: string

definition search_shape :: zshape where
  "search_shape = [(''query'', Required ZString), (''maxResults'', Default ZNumber (JNum 5))]"

text \<open>The \<open>mockResults\<close> array of \<open>search\<close>: the two placeholder results.\<close>

definition mockResults :: "string \<Rightarrow> search_hit list" where
  "mockResults query =
     [\<lparr>hit_title = ''Search result for: '' @ query,
       hit_url = ''https://example.com/search?q='' @ encodeURIComponent query,
       hit_snippet = ''This is a sample search result for '' @ DQ @ query @ DQ
          @ ''. In a real implementation, this would contain actual web search results.'',
       hit_type = ''search_result''\<rparr>,
      \<lparr>hit_title = ''More information about: '' @ query,
       hit_url = ''https://sample.org/info/'' @ encodeURIComponent query,
       hit_snippet = ''Additional information and resources related to '' @ DQ @ query @ DQ
          @ ''. This demonstrates the web search functionality.'',
       hit_type = ''search_result''\<rparr>]"

definition instant_answer :: "ddg_data \<Rightarrow> search_hit list" where
  "instant_answer d =
     (if AbstractText d \<noteq> []
      then [\<lparr>hit_title = or_else (Heading d) ''Instant Answer'', hit_url = AbstractURL d,
              hit_snippet = AbstractText d, hit_type = ''instant_answer''\<rparr>]
      else [])"

definition relatedTopics :: "rat \<Rightarrow> nat \<Rightarrow> ddg_data \<Rightarrow> search_hit list" where
  "relatedTopics maxResults n d =
     (if RelatedTopics d \<noteq> []
      then map (\<lambda>topic. \<lparr>hit_title = or_else (before_sep '' - '' (Text topic)) ''Related Topic'',
                           hit_url = FirstURL topic, hit_snippet = Text topic,
                           hit_type = ''related_topic''\<rparr>)
             (slice0 (min (maxResults - of_nat n) 3) (RelatedTopics d))
      else [])"

text \<open>The \<open>results\<close> array of a live search, as the \<open>try\<close> block builds it.\<close>

definition live_results :: "string \<Rightarrow> rat \<Rightarrow> ddg_data \<Rightarrow> search_hit list" where
  "live_results query maxResults d =
     (let results = instant_answer d;
          results = results @ relatedTopics maxResults (length results) d
      in if of_nat (length results) < maxResults
         then results @ slice0 (maxResults - of_nat (length results)) (mockResults query)
         else results)"

definition render_hit :: "nat \<Rightarrow> search_hit \<Rightarrow> string" where
  "render_hit index r =
     show_int (int index + 1) @ ''. **'' @ hit_title r @ ''**'' @ NL
     @ ''   URL: '' @ hit_url r @ NL @ ''   '' @ hit_snippet r @ NL @ ''   Type: '' @ hit_type r"

definition render_results :: "search_hit list \<Rightarrow> string" where
  "render_results results =
     join (NL @ NL) (map (\<lambda>(index, r). render_hit index r) (enumerate 0 results))"

definition disabled_search_text :: "string \<Rightarrow> string" where
  "disabled_search_text query =
     e_glass @ '' **Mock Web Search Results for: '' @ DQ @ query @ DQ @ ''**'' @ NL @ NL
     @ e_bullet @ '' **Result 1**: Example.com - Sample search result about '' @ query @ NL
     @ e_bullet @ '' **Result 2**: Sample.org - Another relevant result for '' @ query @ NL
     @ e_bullet @ '' **Result 3**: Test.net - Additional information about '' @ query @ NL @ NL
     @ ''*Note: This is a mock response. Enable WEB_SEARCH_ENABLED=true to perform real web searches.*''"

definition error_search_text :: "string \<Rightarrow> string" where
  "error_search_text query =
     e_glass @ '' **Web Search Results for: '' @ DQ @ query @ DQ @ ''** (Mock due to error)''
     @ NL @ NL
     @ ''1. **Sample Result 1**'' @ NL @ ''   URL: https://example.com'' @ NL
     @ ''   This is a sample search result for '' @ DQ @ query @ DQ
     @ ''. The actual search encountered an error.'' @ NL
     @ ''   Type: search_result'' @ NL @ NL
     @ ''2. **Sample Result 2**'' @ NL @ ''   URL: https://sample.org'' @ NL
     @ ''   Another sample result demonstrating the search functionality.'' @ NL
     @ ''   Type: search_result''"

definition live_search_text :: "string \<Rightarrow> search_hit list \<Rightarrow> string" where
  "live_search_text query results =
     e_glass @ '' **Web Search Results for: '' @ DQ @ query @ DQ @ ''**'' @ NL @ NL
     @ render_results results"

definition ddg_call :: "string \<Rightarrow> vendor_call" where
  "ddg_call query =
     axios_get ''https://api.duckduckgo.com/''
       [(''q'', query), (''format'', ''json''), (''no_html'', ''1''), (''skip_disambig'', ''1'')]
       10000"

text \<open>
  The network is a function from the query to what the request does: it throws, or it
  answers with data. An answer so malformed that reading it throws ends in the same
  \<open>catch\<close> block as a request that throws.
\<close>

definition search ::
  "WebSearchService \<Rightarrow> (string \<Rightarrow> thrown + ddg_data) \<Rightarrow> json \<Rightarrow> (exn + ToolCallResult) \<times> call_log" where
  "search svc network args =
     (case zparse search_shape args of
        Inl e \<Rightarrow> (Inl e, [])
      | Inr p \<Rightarrow>
          (let query = str_field p ''query''; maxResults = num_field p ''maxResults''
           in if \<not> enabled svc then (Inr (Content (disabled_search_text query)), [])
              else (case network query of
                      Inl error \<Rightarrow>
                        (Inr (Content (error_search_text query)), [(ddg_call query, False)])
                    | Inr d \<Rightarrow>
                        (Inr (Content (live_search_text query (live_results query maxResults d))),
                         [(ddg_call query, True)]))))"

text \<open>
  What cheerio reads off the fetched page: the text of \<open>title\<close>, of the first \<open>h1\<close>, of
  each \<open>p, h1..h6, li\<close> element of the body in document order, and the description meta
  tag. Whether a string is a URL is the validator's test, taken as a parameter.
\<close>

record html_doc =
  title_text :: string
  h1_text :: string
  body_elements :: "string list"
  meta_description :: "string option"

definition extractContent_shape :: "(string \<Rightarrow> bool) \<Rightarrow> zshape" where
  "extractContent_shape is_url = [(''url'', Required (ZStringThat is_url))]"

definition extractContent ::
  "WebSearchService \<Rightarrow> (string \<Rightarrow> bool) \<Rightarrow> (string \<Rightarrow> thrown + html_doc) \<Rightarrow> json
     \<Rightarrow> (exn + ToolCallResult) \<times> call_log" where
  "extractContent svc is_url network args =
     (case zparse (extractContent_shape is_url) args of
        Inl e \<Rightarrow> (Inl e, [])
      | Inr p \<Rightarrow>
          (let url = str_field p ''url''
           in if \<not> enabled svc
              then (Inr (Content (e_page @ '' **Mock Content Extraction from: '' @ url @ ''**'' @ NL @ NL
                      @ ''**Title**: Sample Article Title'' @ NL @ NL @ ''**Content**:'' @ NL
                      @ ''This is a mock content extraction from the provided URL. In a real implementation, this would contain the actual content extracted from the webpage.''
                      @ NL @ NL
                      @ ''The content would include the main text, headings, and other relevant information from the page.''
                      @ NL @ NL
                      @ ''*Note: This is a mock response. Enable WEB_SEARCH_ENABLED=true to perform real content extraction.*'')),
                    [])
              else (case network url of
                      Inl error \<Rightarrow>
                        (Inr (Content (e_cross @ '' **Content Extraction Failed**'' @ NL @ NL
                           @ ''**URL**: '' @ url @ NL @ NL
                           @ ''**Error**: '' @ error_message error @ NL @ NL
                           @ ''*The content could not be extracted from this URL. This might be due to access restrictions, network issues, or the page structure.*'')),
                         [(axios_get url [] 15000, False)])
                    | Inr doc \<Rightarrow>
                        (let title = or_else (title_text doc) (or_else (h1_text doc) ''No title found'');
                             content = join (NL @ NL)
                               (take 10 (filter (\<lambda>text. 50 < length text) (map trim (body_elements doc))));
                             description = or_else (env_str (meta_description doc)) ''No description available''
                         in (Inr (Content (e_page @ '' **Content Extraction from: '' @ url @ ''**'' @ NL @ NL
                               @ ''**Title**: '' @ title @ NL @ NL
                               @ ''**Description**: '' @ description @ NL @ NL
                               @ ''**Content**:'' @ NL
                               @ or_else content ''No content could be extracted from this page.'' @ NL @ NL
                               @ ''**Word Count**: ''
                               @ show_int (int (length (split_char CHR '' '' content))) @ '' words'')),
                             [(axios_get url [] 15000, True)])))))"

definition researchTopic_shape :: zshape where
  "researchTopic_shape =
     [(''topic'', Required ZString),
      (''depth'', Default (ZEnum [''basic'', ''comprehensive'']) (JStr ''comprehensive''))]"

definition searchQueries :: "string \<Rightarrow> string \<Rightarrow> string list" where
  "searchQueries topic depth =
     (if depth = ''comprehensive''
      then [topic, topic @ '' overview'', topic @ '' latest trends'', topic @ '' best practices'',
            topic @ '' examples'']
      else [topic])"

text \<open>
  The loop \<open>for (const query of searchQueries)\<close>: one \<open>this.search({query, maxResults: 3})\<close>
  per query, its text pushed onto \<open>results\<close> with the query. A search that throws ends the
  loop.
\<close>

fun research_loop ::
  "WebSearchService \<Rightarrow> (string \<Rightarrow> thrown + ddg_data) \<Rightarrow> string list
     \<Rightarrow> (exn + (string \<times> string) list) \<times> call_log" where
  "research_loop svc network [] = (Inr [], [])"
| "research_loop svc network (query # rest) =
     (case search svc network (JObj [(''query'', JStr query), (''maxResults'', JNum 3)]) of
        (Inl e, calls) \<Rightarrow> (Inl e, calls)
      | (Inr (Content text), calls) \<Rightarrow>
          (case research_loop svc network rest of
             (Inl e, calls') \<Rightarrow> (Inl e, calls @ calls')
           | (Inr results, calls') \<Rightarrow> (Inr ((query, text) # results), calls @ calls')))"

text \<open>\<open>r.results.split('\n').slice(0, 5).join('\n')\<close>\<close>

definition first_lines :: "string \<Rightarrow> string" where
  "first_lines results = join NL (slice0 5 (split_char (CHR 0x0A) results))"

definition key_finding :: "string \<times> string \<Rightarrow> string" where
  "key_finding r = ''**'' @ fst r @ ''**:'' @ NL @ first_lines (snd r) @ ''...''"

definition key_findings :: "(string \<times> string) list \<Rightarrow> string" where
  "key_findings results = join (NL @ NL) (map key_finding results)"

definition summary_head :: "string \<Rightarrow> string \<Rightarrow> string list \<Rightarrow> string" where
  "summary_head topic depth queries =
     e_microscope @ '' **Research Summary for: '' @ DQ @ topic @ DQ @ ''**'' @ NL @ NL
     @ ''**Research Depth**: '' @ depth @ NL @ NL
     @ ''**Search Queries Used**:'' @ NL
     @ join NL (map (\<lambda>q. e_bullet @ '' '' @ q) queries) @ NL @ NL
     @ ''**Key Findings**:'' @ NL"

definition summary_tail :: string where
  "summary_tail =
     NL @ NL @ ''**Recommendations**:'' @ NL
     @ e_bullet @ '' Consider the latest trends and best practices identified'' @ NL
     @ e_bullet @ '' Review multiple sources for comprehensive understanding'' @ NL
     @ e_bullet @ '' Focus on practical examples and real-world applications''"

text \<open>
  The message of a caught error. A \<open>ZodError\<close>'s message is the JSON rendering of its
  issues; only the paths are kept here, and no caller below reaches that case
  (\<open>research_loop\<close> passes \<open>search\<close> a well-formed bag).
\<close>

definition exn_message :: "exn \<Rightarrow> string" where
  "exn_message e =
     (case e of
        JsError m \<Rightarrow> m
      | ZodError issues \<Rightarrow> join '', '' (map (\<lambda>i. case i of Issue path code \<Rightarrow> path) issues))"

definition researchTopic ::
  "WebSearchService \<Rightarrow> (string \<Rightarrow> thrown + ddg_data) \<Rightarrow> json \<Rightarrow> (exn + ToolCallResult) \<times> call_log" where
  "researchTopic svc network args =
     (case zparse researchTopic_shape args of
        Inl e \<Rightarrow> (Inl e, [])
      | Inr p \<Rightarrow>
          (let topic = str_field p ''topic''; depth = str_field p ''depth'';
               queries = searchQueries topic depth
           in case research_loop svc network queries of
                (Inl error, calls) \<Rightarrow>
                  (Inr (Content (e_cross @ '' **Research Failed**'' @ NL @ NL
                     @ ''**Topic**: '' @ topic @ NL @ NL
                     @ ''**Error**: '' @ exn_message error @ NL @ NL
                     @ ''*The research could not be completed. Please try again or check your search query.*'')),
                   calls)
              | (Inr results, calls) \<Rightarrow>
                  (Inr (Content (summary_head topic depth queries @ key_findings results @ summary_tail)),
                   calls)))"

definition validateContent_shape :: zshape where
  "validateContent_shape = [(''content'', Required ZString), (''topic'', Required ZString)]"

text \<open>
  The three \<open>Math.floor(Math.random() * n)\<close> draws are parameters: a number below 30, below
  20 and below 15.
\<close>

definition validateContent ::
  "WebSearchService \<Rightarrow> (string \<Rightarrow> thrown + ddg_data) \<Rightarrow> nat \<times> nat \<times> nat \<Rightarrow> json
     \<Rightarrow> (exn + ToolCallResult) \<times> call_log" where
  "validateContent svc network draws args =
     (case zparse validateContent_shape args of
        Inl e \<Rightarrow> (Inl e, [])
      | Inr p \<Rightarrow>
          (let topic = str_field p ''topic''
           in case search svc network
                     (JObj [(''query'', JStr (topic @ '' authoritative sources experts'')),
                            (''maxResults'', JNum 3)]) of
                (Inl error, calls) \<Rightarrow>
                  (Inr (Content (e_cross @ '' **Content Validation Failed**'' @ NL @ NL
                     @ ''**Topic**: '' @ topic @ NL @ NL
                     @ ''**Error**: '' @ exn_message error @ NL @ NL
                     @ ''*The content validation could not be completed. Please try again.*'')),
                   calls)
              | (Inr (Content sources), calls) \<Rightarrow>
                  (let accuracy = int (fst draws) + 70; completeness = int (fst (snd draws)) + 80;
                       relevance = int (snd (snd draws)) + 85
                   in (Inr (Content (e_check @ '' **Content Validation Results**'' @ NL @ NL
                         @ ''**Topic**: '' @ topic @ NL @ NL
                         @ ''**Validation Scores**:'' @ NL
                         @ e_bullet @ '' Accuracy: '' @ show_int accuracy @ ''%'' @ NL
                         @ e_bullet @ '' Completeness: '' @ show_int completeness @ ''%'' @ NL
                         @ e_bullet @ '' Relevance: '' @ show_int relevance @ ''%'' @ NL @ NL
                         @ ''**Authoritative Sources**:'' @ NL @ sources @ NL @ NL
                         @ ''**Recommendations**:'' @ NL
                         @ e_bullet @ '' ''
                         @ (if accuracy < 90 then ''Consider fact-checking with additional sources''
                            else ''Content appears accurate'') @ NL
                         @ e_bullet @ '' ''
                         @ (if completeness < 90 then ''Add more details to improve completeness''
                            else ''Content is comprehensive'') @ NL
                         @ e_bullet @ '' ''
                         @ (if relevance < 90 then ''Ensure content directly addresses the topic''
                            else ''Content is highly relevant''))),
                       calls))))"

section \<open>Every public operation of the four connectors\<close>

text \<open>
  The server constructs one instance of each connector (\<open>index.ts\<close>). To speak of every
  public operation at once, \<open>run\<close> calls the named operation of its connector with the
  argument bag; \<open>vendors\<close> fixes what each vendor endpoint does when it is called.
\<close>

record connectors =
  githubService :: GitHubService
  notionService :: NotionService
  calendarService :: GoogleCalendarService
  webSearchService :: WebSearchService

record vendors =
  v_issues_create :: "thrown + gh_item"
  v_git_getRef :: "thrown + string"
  v_git_createRef :: "thrown + unit"
  v_pulls_create :: "thrown + gh_item"
  v_issues_listForRepo :: "thrown + gh_issue list"
  v_repos_get :: "thrown + gh_repository"
  v_pages_create :: "thrown + string"
  v_notion_search :: "thrown + notion_page_obj list"
  v_pages_update :: "thrown + unit"
  v_blocks_children_append :: "thrown + unit"
  v_pages_retrieve :: "thrown + notion_page_obj"
  v_blocks_children_list :: "thrown + block list"
  v_databases_query :: "thrown + notion_page_obj list"
  v_refreshAccessToken :: "thrown + credentials"
  v_events_insert :: "thrown + gc_event"
  v_events_list :: "thrown + gc_event list option"
  v_events_update :: "thrown + gc_event"
  v_events_delete :: "thrown + unit"
  v_duckduckgo :: "string \<Rightarrow> thrown + ddg_data"
  v_fetch :: "string \<Rightarrow> thrown + html_doc"
  v_is_url :: "string \<Rightarrow> bool"
  v_random :: "nat \<times> nat \<times> nat"

datatype operation =
    GitHub_createIssue | GitHub_createBranch | GitHub_createPullRequest | GitHub_listIssues
  | GitHub_getRepositoryInfo
  | Notion_createPage | Notion_searchPages | Notion_updatePage | Notion_getPage
  | Notion_listDatabasePages
  | Calendar_createEvent | Calendar_listEvents | Calendar_updateEvent | Calendar_deleteEvent
  | Web_search | Web_extractContent | Web_researchTopic | Web_validateContent

definition forget_state ::
  "(exn + ToolCallResult) \<times> GoogleCalendarService \<times> call_log \<Rightarrow> (exn + ToolCallResult) \<times> call_log" where
  "forget_state r = (fst r, snd (snd r))"

fun run ::
  "connectors \<Rightarrow> runtime \<Rightarrow> vendors \<Rightarrow> operation \<Rightarrow> json \<Rightarrow> (exn + ToolCallResult) \<times> call_log" where
  "run c rt v GitHub_createIssue args = createIssue (githubService c) (v_issues_create v) args"
| "run c rt v GitHub_createBranch args =
     createBranch (githubService c) (v_git_getRef v) (v_git_createRef v) args"
| "run c rt v GitHub_createPullRequest args =
     createPullRequest (githubService c) (v_pulls_create v) args"
| "run c rt v GitHub_listIssues args = listIssues (githubService c) (v_issues_listForRepo v) args"
| "run c rt v GitHub_getRepositoryInfo args = getRepositoryInfo (githubService c) (v_repos_get v)"
| "run c rt v Notion_createPage args = createPage (notionService c) rt (v_pages_create v) args"
| "run c rt v Notion_searchPages args = searchPages (notionService c) rt (v_notion_search v) args"
| "run c rt v Notion_updatePage args =
     updatePage (notionService c) (v_pages_update v) (v_blocks_children_append v) args"
| "run c rt v Notion_getPage args =
     getPage (notionService c) (v_pages_retrieve v) (v_blocks_children_list v) args"
| "run c rt v Notion_listDatabasePages args =
     listDatabasePages (notionService c) rt (v_databases_query v) args"
| "run c rt v Calendar_createEvent args =
     forget_state (createEvent (calendarService c) rt (v_refreshAccessToken v) (v_events_insert v) args)"
| "run c rt v Calendar_listEvents args =
     forget_state (listEvents (calendarService c) rt (v_refreshAccessToken v) (v_events_list v) args)"
| "run c rt v Calendar_updateEvent args =
     forget_state (updateEvent (calendarService c) rt (v_refreshAccessToken v) (v_events_update v) args)"
| "run c rt v Calendar_deleteEvent args =
     forget_state (deleteEvent (calendarService c) rt (v_refreshAccessToken v) (v_events_delete v) args)"
| "run c rt v Web_search args = search (webSearchService c) (v_duckduckgo v) args"
| "run c rt v Web_extractContent args =
     extractContent (webSearchService c) (v_is_url v) (v_fetch v) args"
| "run c rt v Web_researchTopic args = researchTopic (webSearchService c) (v_duckduckgo v) args"
| "run c rt v Web_validateContent args =
     validateContent (webSearchService c) (v_duckduckgo v) (v_random v) args"

text \<open>The shape each operation declares, and the bag it parses (\<open>args = {}\<close> by default for four).\<close>

fun declared_shape :: "vendors \<Rightarrow> operation \<Rightarrow> zshape" where
  "declared_shape v GitHub_createIssue = createIssue_shape"
| "declared_shape v GitHub_createBranch = createBranch_shape"
| "declared_shape v GitHub_createPullRequest = createPullRequest_shape"
| "declared_shape v GitHub_listIssues = listIssues_shape"
| "declared_shape v GitHub_getRepositoryInfo = []"
| "declared_shape v Notion_createPage = createPage_shape"
| "declared_shape v Notion_searchPages = searchPages_shape"
| "declared_shape v Notion_updatePage = updatePage_shape"
| "declared_shape v Notion_getPage = getPage_shape"
| "declared_shape v Notion_listDatabasePages = listDatabasePages_shape"
| "declared_shape v Calendar_createEvent = createEvent_shape"
| "declared_shape v Calendar_listEvents = listEvents_shape"
| "declared_shape v Calendar_updateEvent = updateEvent_shape"
| "declared_shape v Calendar_deleteEvent = deleteEvent_shape"
| "declared_shape v Web_search = search_shape"
| "declared_shape v Web_extractContent = extractContent_shape (v_is_url v)"
| "declared_shape v Web_researchTopic = researchTopic_shape"
| "declared_shape v Web_validateContent = validateContent_shape"

definition parsed_bag :: "operation \<Rightarrow> json \<Rightarrow> json" where
  "parsed_bag opn args =
     (if opn \<in> {GitHub_listIssues, Notion_listDatabasePages, Calendar_createEvent, Calendar_listEvents}
      then or_empty args else args)"

text \<open>
  An input is validated when the operation's parse of it succeeds; \<open>getRepositoryInfo\<close>
  parses nothing.
\<close>

definition validated :: "vendors \<Rightarrow> operation \<Rightarrow> json \<Rightarrow> bool" where
  "validated v opn args =
     (if opn = GitHub_getRepositoryInfo then True
      else case zparse (declared_shape v opn) (parsed_bag opn args) of
             Inl e \<Rightarrow> False
           | Inr p \<Rightarrow> True)"

text \<open>A vendor call of the invocation failed: the log holds a call the vendor threw on.\<close>

definition vendor_call_failed :: "call_log \<Rightarrow> bool" where
  "vendor_call_failed calls = list_ex (\<lambda>entry. \<not> snd entry) calls"

text \<open>The head of the message each operation puts before the vendor's, when it re-signals.\<close>

fun failure_text :: "operation \<Rightarrow> string" where
  "failure_text GitHub_createIssue = ''Failed to create GitHub issue''"
| "failure_text GitHub_createBranch = ''Failed to create GitHub branch''"
| "failure_text GitHub_createPullRequest = ''Failed to create GitHub pull request''"
| "failure_text GitHub_listIssues = ''Failed to list GitHub issues''"
| "failure_text GitHub_getRepositoryInfo = ''Failed to get repository info''"
| "failure_text Notion_createPage = ''Failed to create Notion page''"
| "failure_text Notion_searchPages = ''Failed to search Notion pages''"
| "failure_text Notion_updatePage = ''Failed to update Notion page''"
| "failure_text Notion_getPage = ''Failed to get Notion page''"
| "failure_text Notion_listDatabasePages = ''Failed to list database pages''"
| "failure_text Calendar_listEvents = ''Failed to list calendar events''"
| "failure_text Calendar_updateEvent = ''Failed to update calendar event''"
| "failure_text Calendar_deleteEvent = ''Failed to delete calendar event''"
| "failure_text opn = []"

text \<open>The operations whose \<open>catch\<close> block always re-throws, and those whose never does.\<close>

definition rethrowing :: "operation set" where
  "rethrowing =
     {GitHub_createIssue, GitHub_createBranch, GitHub_createPullRequest, GitHub_listIssues,
      GitHub_getRepositoryInfo, Notion_createPage, Notion_searchPages, Notion_updatePage,
      Notion_getPage, Notion_listDatabasePages, Calendar_updateEvent, Calendar_deleteEvent}"

definition swallowing :: "operation set" where
  "swallowing =
     {Calendar_createEvent, Web_search, Web_extractContent, Web_researchTopic, Web_validateContent}"

section \<open>The claims' terms, stated apart from the code\<close>

text \<open>
  The first \<open>n\<close> lines of a text, a line ending at a line feed: the text up to its
  \<open>n\<close>-th line feed, that line feed left out, and the whole text when it has fewer. This
  follows the claim's words, character by character; \<open>first_lines\<close> above is the code's
  \<open>split\<close>, \<open>slice\<close> and \<open>join\<close>.
\<close>

fun leading_lines :: "nat \<Rightarrow> string \<Rightarrow> string" where
  "leading_lines 0 s = []"
| "leading_lines (Suc n) [] = []"
| "leading_lines (Suc n) (c # cs) =
     (if c = CHR 0x0A then (if n = 0 then [] else c # leading_lines n cs)
      else c # leading_lines (Suc n) cs)"

text \<open>
  A finding of the research summary with its result text cut to five lines: the query in
  bold, a line feed, the first five lines, an ellipsis. Findings are separated by an empty
  line.
\<close>

definition truncated_finding :: "string \<times> string \<Rightarrow> string" where
  "truncated_finding r = ''**'' @ fst r @ ''**:'' @ [CHR 0x0A] @ leading_lines 5 (snd r) @ ''...''"

fun truncated_findings :: "(string \<times> string) list \<Rightarrow> string" where
  "truncated_findings [] = []"
| "truncated_findings [r] = truncated_finding r"
| "truncated_findings (r # r' # rs) =
     truncated_finding r @ [CHR 0x0A, CHR 0x0A] @ truncated_findings (r' # rs)"

text \<open>
  What the vendor threw on a call of the log: \<open>vendors\<close> fixes each endpoint's answer and a
  call names its endpoint. The web requests are answered per URL (\<open>v_duckduckgo\<close>,
  \<open>v_fetch\<close>) and are left out: no operation that re-throws makes one.
\<close>

definition thrown_of :: "thrown + 'a \<Rightarrow> thrown option" where
  "thrown_of r = (case r of Inl e \<Rightarrow> Some e | Inr a \<Rightarrow> None)"

fun vendor_threw :: "vendors \<Rightarrow> vendor_call \<Rightarrow> thrown option" where
  "vendor_threw v (issues_create a b c d e) = thrown_of (v_issues_create v)"
| "vendor_threw v (git_getRef a b c) = thrown_of (v_git_getRef v)"
| "vendor_threw v (git_createRef a b c d) = thrown_of (v_git_createRef v)"
| "vendor_threw v (pulls_create a b c d e f) = thrown_of (v_pulls_create v)"
| "vendor_threw v (issues_listForRepo a b c d e) = thrown_of (v_issues_listForRepo v)"
| "vendor_threw v (repos_get a b) = thrown_of (v_repos_get v)"
| "vendor_threw v (pages_create a b c d e) = thrown_of (v_pages_create v)"
| "vendor_threw v (notion_search a) = thrown_of (v_notion_search v)"
| "vendor_threw v (pages_update a b) = thrown_of (v_pages_update v)"
| "vendor_threw v (blocks_children_append a b) = thrown_of (v_blocks_children_append v)"
| "vendor_threw v (pages_retrieve a) = thrown_of (v_pages_retrieve v)"
| "vendor_threw v (blocks_children_list a) = thrown_of (v_blocks_children_list v)"
| "vendor_threw v (databases_query a b c) = thrown_of (v_databases_query v)"
| "vendor_threw v refreshAccessToken = thrown_of (v_refreshAccessToken v)"
| "vendor_threw v (events_insert a b c d e) = thrown_of (v_events_insert v)"
| "vendor_threw v (events_list a b c) = thrown_of (v_events_list v)"
| "vendor_threw v (events_update a b) = thrown_of (v_events_update v)"
| "vendor_threw v (events_delete a) = thrown_of (v_events_delete v)"
| "vendor_threw v (axios_get a b c) = None"

section \<open>The calendar connector's four operations, with its state\<close>

text \<open>
  \<open>calendar_call\<close> is the named calendar operation with the connector's state kept: the
  result, the connector after the call, and the log.
\<close>

datatype calendar_op = CreateEvent | ListEvents | UpdateEvent | DeleteEvent

fun calendar_call ::
  "GoogleCalendarService \<Rightarrow> runtime \<Rightarrow> vendors \<Rightarrow> calendar_op \<Rightarrow> json
     \<Rightarrow> (exn + ToolCallResult) \<times> GoogleCalendarService \<times> call_log" where
  "calendar_call svc rt v CreateEvent args =
     createEvent svc rt (v_refreshAccessToken v) (v_events_insert v) args"
| "calendar_call svc rt v ListEvents args =
     listEvents svc rt (v_refreshAccessToken v) (v_events_list v) args"
| "calendar_call svc rt v UpdateEvent args =
     updateEvent svc rt (v_refreshAccessToken v) (v_events_update v) args"
| "calendar_call svc rt v DeleteEvent args =
     deleteEvent svc rt (v_refreshAccessToken v) (v_events_delete v) args"

fun calendar_shape :: "calendar_op \<Rightarrow> zshape" where
  "calendar_shape CreateEvent = createEvent_shape"
| "calendar_shape ListEvents = listEvents_shape"
| "calendar_shape UpdateEvent = updateEvent_shape"
| "calendar_shape DeleteEvent = deleteEvent_shape"

fun calendar_bag :: "calendar_op \<Rightarrow> json \<Rightarrow> json" where
  "calendar_bag CreateEvent args = or_empty args"
| "calendar_bag ListEvents args = or_empty args"
| "calendar_bag UpdateEvent args = args"
| "calendar_bag DeleteEvent args = args"

fun calendar_failure_text :: "calendar_op \<Rightarrow> string" where
  "calendar_failure_text ListEvents = ''Failed to list calendar events''"
| "calendar_failure_text UpdateEvent = ''Failed to update calendar event''"
| "calendar_failure_text DeleteEvent = ''Failed to delete calendar event''"
| "calendar_failure_text CreateEvent = []"

text \<open>The substantive calls: those to the calendar API proper.\<close>

fun is_calendar_api_call :: "vendor_call \<Rightarrow> bool" where
  "is_calendar_api_call (events_insert a b c d e) = True"
| "is_calendar_api_call (events_list a b c) = True"
| "is_calendar_api_call (events_update a b) = True"
| "is_calendar_api_call (events_delete a) = True"
| "is_calendar_api_call other = False"

section \<open>What the two Notion endpoints of updatePage do to a page\<close>

text \<open>
  A page of the workspace, as far as \<open>updatePage\<close> can touch it: its properties by name and
  its content blocks in order. By the contract of the Notion API, an answered
  \<open>pages.update\<close> sets the properties it is given and leaves the others and the blocks as
  they are, and an answered \<open>blocks.children.append\<close> adds its children after the existing
  blocks; a call that threw changed nothing. \<open>page_after\<close> applies a log to the page with the
  given id.
\<close>

record notion_page =
  page_properties :: "string \<Rightarrow> string option"
  page_blocks :: "block list"

fun apply_call :: "string \<Rightarrow> notion_page \<Rightarrow> vendor_call \<times> bool \<Rightarrow> notion_page" where
  "apply_call pid page (pages_update target props, True) =
     (if target = pid then page\<lparr>page_properties := page_properties page ++ map_of props\<rparr> else page)"
| "apply_call pid page (blocks_children_append target blocks, True) =
     (if target = pid then page\<lparr>page_blocks := page_blocks page @ blocks\<rparr> else page)"
| "apply_call pid page other = page"

definition page_after :: "string \<Rightarrow> notion_page \<Rightarrow> call_log \<Rightarrow> notion_page" where
  "page_after pid page calls = foldl (apply_call pid) page calls"

section \<open>Calendar operations in flight together\<close>

text \<open>
  The server may begin a second tool invocation while the first is suspended at an
  \<open>await\<close>. JavaScript runs each invocation without interruption from one \<open>await\<close> to the
  next, so an invocation of a calendar operation (after its bag was validated) is a
  sequence of at most three segments:
  \<^item> from its start to its first \<open>await\<close>: the checks of \<open>ensureAuthenticated\<close> on the
    shared credentials and, when they find the token expired, the call of
    \<open>refreshAccessToken\<close>; otherwise the call to the calendar API;
  \<^item> from the refresh's answer: \<open>setCredentials\<close> on the shared credentials, then the call
    to the calendar API;
  \<^item> from the calendar API's answer to the operation's return.
  Turns of the event loop between which the invocation neither reads nor writes the
  shared credentials are taken together, and the clock is held still. The connector has
  no other state: no lock and no record of a refresh in flight. A schedule names,
  segment by segment, which invocation runs next; a name that is no invocation's is
  passed over.
\<close>

datatype phase = NotStarted | AwaitingRefresh | AwaitingApi | Returned

record invocation =
  inv_phase :: phase
  saw_expired :: bool
  api_call :: vendor_call

record in_flight =
  shared_credentials :: "credentials option"
  invocations :: "invocation list"
  issued :: "(nat \<times> vendor_call) list"

definition segment :: "int \<Rightarrow> thrown + credentials \<Rightarrow> in_flight \<Rightarrow> nat \<Rightarrow> in_flight" where
  "segment now vendor_refresh w i =
     (if length (invocations w) \<le> i then w
      else
        (let t = invocations w ! i
         in case inv_phase t of
              NotStarted \<Rightarrow>
                (case shared_credentials w of
                   None \<Rightarrow> w\<lparr>invocations := (invocations w)[i := t\<lparr>inv_phase := Returned\<rparr>]\<rparr>
                 | Some tokens \<Rightarrow>
                     if \<not> truthy (access_token tokens)
                     then w\<lparr>invocations := (invocations w)[i := t\<lparr>inv_phase := Returned\<rparr>]\<rparr>
                     else if token_expired tokens now
                     then w\<lparr>invocations :=
                              (invocations w)[i := t\<lparr>inv_phase := AwaitingRefresh, saw_expired := True\<rparr>],
                            issued := issued w @ [(i, refreshAccessToken)]\<rparr>
                     else w\<lparr>invocations := (invocations w)[i := t\<lparr>inv_phase := AwaitingApi\<rparr>],
                            issued := issued w @ [(i, api_call t)]\<rparr>)
            | AwaitingRefresh \<Rightarrow>
                (case vendor_refresh of
                   Inl error \<Rightarrow> w\<lparr>invocations := (invocations w)[i := t\<lparr>inv_phase := Returned\<rparr>]\<rparr>
                 | Inr refreshed \<Rightarrow>
                     w\<lparr>shared_credentials := Some refreshed,
                       invocations := (invocations w)[i := t\<lparr>inv_phase := AwaitingApi\<rparr>],
                       issued := issued w @ [(i, api_call t)]\<rparr>)
            | AwaitingApi \<Rightarrow> w\<lparr>invocations := (invocations w)[i := t\<lparr>inv_phase := Returned\<rparr>]\<rparr>
            | Returned \<Rightarrow> w))"

definition begun :: "credentials option \<Rightarrow> vendor_call list \<Rightarrow> in_flight" where
  "begun tokens calls =
     \<lparr>shared_credentials = tokens,
      invocations = map (\<lambda>c. \<lparr>inv_phase = NotStarted, saw_expired = False, api_call = c\<rparr>) calls,
      issued = []\<rparr>"

definition interleave ::
  "int \<Rightarrow> thrown + credentials \<Rightarrow> credentials option \<Rightarrow> vendor_call list \<Rightarrow> nat list \<Rightarrow> in_flight" where
  "interleave now vendor_refresh tokens calls schedule =
     foldl (segment now vendor_refresh) (begun tokens calls) schedule"

definition refresh_calls :: "in_flight \<Rightarrow> nat" where
  "refresh_calls w = length (filter (\<lambda>entry. snd entry = refreshAccessToken) (issued w))"

definition observers :: "in_flight \<Rightarrow> nat" where
  "observers w = length (filter saw_expired (invocations w))"

text \<open>
  An invocation is well formed when its substantive call is one to the calendar API and,
  not having started, it has observed nothing.
\<close>

definition well_formed :: "invocation \<Rightarrow> bool" where
  "well_formed t =
     (is_calendar_api_call (api_call t) \<and> (inv_phase t = NotStarted \<longrightarrow> \<not> saw_expired t))"

section \<open>The workflow orchestrator\<close>

text \<open>
  Modelled from the spec: the orchestrator, \<open>ContentWorkflowService\<close> of
  \<open>services/content-workflow.ts\<close>, is imported by \<open>index.ts\<close> but is not among the source
  files. Everything in this section follows sections 3 and 4.2 of the specification: the
  step outcome and the workflow result with its overall status, and the three composite
  operations as sequences of connector calls. The connectors are what the orchestrator
  sees of them: for each operation it calls, a function from the arguments to an error or
  a result text.
\<close>

text \<open>
  Modelled from the spec: the entities of section 3. A step outcome has the step's name,
  the success flag, the result or error text, and the reference the step produced; a
  workflow result is the ordered outcomes with the overall status.
\<close>

record WorkflowStepOutcome =
  stepName :: string
  success :: bool
  detail :: string
  producedReference :: "string option"

datatype workflow_status = Complete | Partial | Failed

record WorkflowResult =
  outcomes :: "WorkflowStepOutcome list"
  status :: workflow_status



text \<open>
  Modelled from the spec: the connector operations the orchestrator calls (sections 1 and
  4.1), each from its arguments to an error or a result text; how a reference (a page,
  issue or event URL) is read out of a result text; and the fixed offset of the milestone
  reminder before the deadline.
\<close>

record orchestrated_connectors =
  call_search :: "string \<Rightarrow> exn + ToolCallResult"
  call_createPage :: "string \<Rightarrow> string \<Rightarrow> string list \<Rightarrow> exn + ToolCallResult"
  call_createIssue :: "string \<Rightarrow> string \<Rightarrow> exn + ToolCallResult"
  call_createEvent :: "string \<Rightarrow> int \<Rightarrow> exn + ToolCallResult"
  call_getPage :: "string \<Rightarrow> exn + ToolCallResult"
  call_createBranch :: "string \<Rightarrow> string \<Rightarrow> exn + ToolCallResult"
  call_createPullRequest :: "string \<Rightarrow> string \<Rightarrow> string \<Rightarrow> string \<Rightarrow> exn + ToolCallResult"
  call_updatePage :: "string \<Rightarrow> string \<Rightarrow> exn + ToolCallResult"
  reference_in :: "string \<Rightarrow> string option"
  milestone_offset :: int

text \<open>
  Modelled from the spec: the outcome recorded for a step whose connector call was made:
  the error's message, or the result text with the reference read out of it.
\<close>

definition record_step ::
  "orchestrated_connectors \<Rightarrow> string \<Rightarrow> exn + ToolCallResult \<Rightarrow> WorkflowStepOutcome" where
  "record_step conns name r =
     (case r of
        Inl e \<Rightarrow> \<lparr>stepName = name, success = False, detail = exn_message e, producedReference = None\<rparr>
      | Inr (Content t) \<Rightarrow>
          \<lparr>stepName = name, success = True, detail = t, producedReference = reference_in conns t\<rparr>)"

text \<open>
  Modelled from the spec: the outcome recorded for a step skipped because a prerequisite
  failed (section 4.2, the ordering rule): not a success, with the reason.
\<close>

definition skipped_step :: "string \<Rightarrow> string \<Rightarrow> WorkflowStepOutcome" where
  "skipped_step name reason =
     \<lparr>stepName = name, success = False, detail = ''skipped: '' @ reason, producedReference = None\<rparr>"


text \<open>
  Modelled from the spec: what a connector call answered, as a text: the error's message or
  the result text. The operations below return, next to the result, the steps whose
  connector call was made, each with what the call answered.
\<close>

definition answer_text :: "exn + ToolCallResult \<Rightarrow> string" where
  "answer_text r = (case r of Inl e \<Rightarrow> exn_message e | Inr (Content t) \<Rightarrow> t)"


text \<open>
  Modelled from the spec: Research Topic (section 4.2). One search per query of the depth,
  each a step of its own, named after its query; the findings, each result cut to its
  first five lines, documented in one page; a tracking issue referring to it. Page and
  issue are attempted whatever the searches did.
\<close>

definition search_step_name :: "string \<Rightarrow> string" where
  "search_step_name query = ''search: '' @ query"


text \<open>
  Modelled from the spec: Publish Content (section 4.2). The page is fetched; when that
  fails nothing else is attempted, and the later steps are recorded as skipped. The
  branch (the caller's, or one derived from the content id) is created; a failure saying
  the branch already exists counts as success. The pull request is opened only when the
  branch step succeeded, and is recorded as skipped otherwise. Last, the page's status is
  updated to reflect the progress: \<open>Review\<close> once the pull request exists, \<open>Draft\<close> until
  then.
\<close>

text \<open>
  Modelled from the spec: the outcome of the branch step (section 4.2, Publish Content,
  step 2): a failure because the branch already exists is a success.
\<close>

definition branch_step :: "orchestrated_connectors \<Rightarrow> string \<Rightarrow> exn + ToolCallResult \<Rightarrow> WorkflowStepOutcome" where
  "branch_step conns branchName r =
     (case r of
        Inl e \<Rightarrow>
          if str_includes (exn_message e) ''already exists''
          then \<lparr>stepName = ''create branch'', success = True, detail = exn_message e,
                producedReference = Some branchName\<rparr>
          else record_step conns ''create branch'' r
      | Inr t \<Rightarrow> record_step conns ''create branch'' r)"





section \<open>Concrete inputs\<close>

text \<open>Small concrete values on which the theorems below are exercised.\<close>

definition example_runtime :: runtime where
  "example_runtime =
     \<lparr>rt_now = 1000, rt_toISOString = show_int, rt_toLocaleString = show_int,
      rt_strToLocaleString = (\<lambda>s. s), rt_strToLocaleDateString = (\<lambda>s. s)\<rparr>"

definition example_credentials :: credentials where
  "example_credentials =
     \<lparr>access_token = Some ''ya29.a0'', refresh_token = Some ''1//0g'', expiry_date = Some 5000\<rparr>"

definition example_calendar :: "credentials option \<Rightarrow> GoogleCalendarService" where
  "example_calendar tokens =
     \<lparr>gc_clientId = ''client-id'', gc_clientSecret = ''client-secret'',
      gc_redirectUri = ''http://localhost:3000/auth/google/callback'', gc_credentials = tokens\<rparr>"

definition example_event_bag :: json where
  "example_event_bag =
     JObj [(''title'', JStr ''Deadline''), (''startTime'', JStr ''2025-03-01T00:00:00Z''),
           (''endTime'', JStr ''2025-03-01T01:00:00Z'')]"


section \<open>Verification\<close>

subsection \<open>Parsing and the research loop\<close>

lemma lookup_Cons: "lookup ((k, v) # kvs) k' = (if k = k' then v else lookup kvs k')"
  by (simp add: lookup_def)

lemma lookup_Nil: "lookup [] k = JUndefined"
  by (simp add: lookup_def)

lemma search_wellformed:
  "search svc network (JObj [(''query'', JStr q), (''maxResults'', JNum n)]) =
     (if \<not> enabled svc then (Inr (Content (disabled_search_text q)), [])
      else case network q of
             Inl error \<Rightarrow> (Inr (Content (error_search_text q)), [(ddg_call q, False)])
           | Inr d \<Rightarrow> (Inr (Content (live_search_text q (live_results q n d))), [(ddg_call q, True)]))"
  by (simp add: search_def zparse_def search_shape_def lookup_Cons lookup_Nil str_field_def num_field_def)

lemma search_wellformed_returns:
  "\<exists>t. search svc network (JObj [(''query'', JStr q), (''maxResults'', JNum n)]) =
     (Inr (Content t), if enabled svc then [(ddg_call q, \<not> isl (network q))] else [])"
  by (auto simp: search_wellformed split: sum.splits)

lemma research_loop_total:
  "\<exists>ts. list_all2 (\<lambda>q t. fst (search svc network (JObj [(''query'', JStr q), (''maxResults'', JNum 3)]))
                          = Inr (Content t)) qs ts
     \<and> research_loop svc network qs =
         (Inr (zip qs ts), if enabled svc then map (\<lambda>q. (ddg_call q, \<not> isl (network q))) qs else [])"
proof (induction qs)
  case Nil
  then show ?case by simp
next
  case (Cons q qs)
  obtain t where s: "search svc network (JObj [(''query'', JStr q), (''maxResults'', JNum 3)]) =
     (Inr (Content t), if enabled svc then [(ddg_call q, \<not> isl (network q))] else [])"
    using search_wellformed_returns by blast
  from Cons obtain ts where r:
    "list_all2 (\<lambda>q t. fst (search svc network (JObj [(''query'', JStr q), (''maxResults'', JNum 3)]))
                          = Inr (Content t)) qs ts"
    "research_loop svc network qs =
         (Inr (zip qs ts), if enabled svc then map (\<lambda>q. (ddg_call q, \<not> isl (network q))) qs else [])"
    by blast
  show ?case using s r by (intro exI[of _ "t # ts"]) simp
qed

lemma zparse_researchTopic:
  assumes "lookup kvs ''topic'' = JStr topic"
    and "lookup kvs ''depth'' = JStr d \<and> d \<in> {''basic'', ''comprehensive''} \<or> lookup kvs ''depth'' = JUndefined \<and> d = ''comprehensive''"
  shows "zparse researchTopic_shape (JObj kvs) = Inr [(''topic'', JStr topic), (''depth'', JStr d)]"
  using assms by (auto simp: zparse_def researchTopic_shape_def)

lemma researchTopic_validated:
  assumes "lookup kvs ''topic'' = JStr topic"
    and "lookup kvs ''depth'' = JStr d \<and> d \<in> {''basic'', ''comprehensive''} \<or> lookup kvs ''depth'' = JUndefined \<and> d = ''comprehensive''"
  shows "\<exists>ts. list_all2 (\<lambda>q t. fst (search svc network (JObj [(''query'', JStr q), (''maxResults'', JNum 3)]))
                          = Inr (Content t)) (searchQueries topic d) ts
     \<and> researchTopic svc network (JObj kvs) =
         (Inr (Content (summary_head topic d (searchQueries topic d)
                         @ key_findings (zip (searchQueries topic d) ts) @ summary_tail)),
          if enabled svc then map (\<lambda>q. (ddg_call q, \<not> isl (network q))) (searchQueries topic d) else [])"
proof -
  obtain ts where r:
    "list_all2 (\<lambda>q t. fst (search svc network (JObj [(''query'', JStr q), (''maxResults'', JNum 3)]))
                          = Inr (Content t)) (searchQueries topic d) ts"
    "research_loop svc network (searchQueries topic d) =
         (Inr (zip (searchQueries topic d) ts),
          if enabled svc then map (\<lambda>q. (ddg_call q, \<not> isl (network q))) (searchQueries topic d) else [])"
    using research_loop_total by blast
  have "researchTopic svc network (JObj kvs) =
         (Inr (Content (summary_head topic d (searchQueries topic d)
                         @ key_findings (zip (searchQueries topic d) ts) @ summary_tail)),
          if enabled svc then map (\<lambda>q. (ddg_call q, \<not> isl (network q))) (searchQueries topic d) else [])"
    using r(2) by (simp add: researchTopic_def zparse_researchTopic[OF assms] str_field_def lookup_Cons Let_def)
  with r(1) show ?thesis by blast
qed

subsection \<open>Lines of a result text\<close>

lemma join_Cons_Cons: "join sep ((c # l) # ls) = c # join sep (l # ls)"
  by (cases ls) simp_all

lemma split_char_nonempty: "split_char c s \<noteq> []"
  by (induction s) (auto split: list.splits)

lemma join_take_split_char:
  "join [CHR 0x0A] (take (Suc n) (split_char (CHR 0x0A) s)) = leading_lines (Suc n) s"
proof (induction s arbitrary: n)
  case Nil
  then show ?case by simp
next
  case (Cons c s)
  show ?case
  proof (cases "c = CHR 0x0A")
    case True
    show ?thesis
    proof (cases n)
      case 0
      with True show ?thesis by simp
    next
      case (Suc m)
      obtain l ls where s: "split_char (CHR 0x0A) s = l # ls"
        using split_char_nonempty[of "CHR 0x0A" s] by (cases "split_char (CHR 0x0A) s") auto
      from Cons.IH[of m] s have "join [CHR 0x0A] (l # take m ls) = leading_lines (Suc m) s" by simp
      with True Suc s show ?thesis by simp
    qed
  next
    case False
    obtain l ls where s: "split_char (CHR 0x0A) s = l # ls"
      using split_char_nonempty[of "CHR 0x0A" s] by (cases "split_char (CHR 0x0A) s") auto
    from Cons.IH[of n] s have "join [CHR 0x0A] (l # take n ls) = leading_lines (Suc n) s" by simp
    with False s show ?thesis by (simp add: join_Cons_Cons)
  qed
qed

lemma first_lines_leading_lines: "first_lines t = leading_lines 5 t"
  using join_take_split_char[of 4 t]
  by (simp add: first_lines_def slice0_def to_integer_def NL_def eval_nat_numeral)

lemma key_findings_truncated: "key_findings rs = truncated_findings rs"
  by (induction rs rule: truncated_findings.induct)
     (simp_all add: key_findings_def key_finding_def truncated_finding_def NL_def
        first_lines_leading_lines)

text \<open>What \<open>leading_lines\<close> says, read off its definition.\<close>

lemma leading_lines_whole:
  "length (filter (\<lambda>c. c = CHR 0x0A) t) < n \<Longrightarrow> leading_lines n t = t"
proof (induction n t rule: leading_lines.induct)
  case (1 s)
  then show ?case by simp
next
  case (2 n)
  then show ?case by simp
next
  case (3 n c cs)
  then show ?case by (cases n) (auto split: if_splits)
qed

lemma leading_lines_cut:
  "length (filter (\<lambda>c. c = CHR 0x0A) a) = n \<Longrightarrow> leading_lines (Suc n) (a @ CHR 0x0A # b) = a"
proof (induction a arbitrary: n)
  case Nil
  then show ?case by simp
next
  case (Cons c a)
  then show ?case by (cases n) (auto split: if_splits)
qed

subsection \<open>The queries of a research\<close>

text \<open>
  Claim C2. For every topic string, \<open>researchTopic\<close> with depth \<open>basic\<close> runs exactly one
  search, for the bare topic; with depth \<open>comprehensive\<close>, or with the depth omitted, it
  runs exactly five, in the order: the bare topic, then the topic followed by
  \<open>overview\<close>, \<open>latest trends\<close>, \<open>best practices\<close> and \<open>examples\<close>. This is stated of what
  \<open>researchTopic\<close> returns, in either mode: the summary lists exactly these queries and
  holds one finding per query, in this order, each built from the text that \<open>search\<close>
  returns for that query with \<open>maxResults: 3\<close>; and the requests made are, in live mode,
  one GET to the DuckDuckGo endpoint per query, in the same order, with the query as its
  \<open>q\<close> parameter, and none in disabled mode.
\<close>

theorem researchTopic_issues_fixed_queries:
  assumes "lookup kvs ''topic'' = JStr topic"
  shows "(lookup kvs ''depth'' = JStr ''basic'' \<longrightarrow>
           (\<exists>ts. list_all2 (\<lambda>q t. fst (search svc network (JObj [(''query'', JStr q), (''maxResults'', JNum 3)]))
                                  = Inr (Content t)) [topic] ts
              \<and> researchTopic svc network (JObj kvs) =
                  (Inr (Content (summary_head topic ''basic'' [topic]
                                  @ key_findings (zip [topic] ts) @ summary_tail)),
                   if enabled svc
                   then map (\<lambda>q. (axios_get ''https://api.duckduckgo.com/''
                                     [(''q'', q), (''format'', ''json''), (''no_html'', ''1''),
                                      (''skip_disambig'', ''1'')] 10000,
                                   \<not> isl (network q)))
                          [topic]
                   else [])))
       \<and> (lookup kvs ''depth'' = JStr ''comprehensive'' \<or> lookup kvs ''depth'' = JUndefined \<longrightarrow>
           (\<exists>ts. list_all2 (\<lambda>q t. fst (search svc network (JObj [(''query'', JStr q), (''maxResults'', JNum 3)]))
                                  = Inr (Content t))
                     [topic, topic @ '' overview'', topic @ '' latest trends'',
                      topic @ '' best practices'', topic @ '' examples''] ts
              \<and> researchTopic svc network (JObj kvs) =
                  (Inr (Content (summary_head topic ''comprehensive''
                                    [topic, topic @ '' overview'', topic @ '' latest trends'',
                                     topic @ '' best practices'', topic @ '' examples'']
                                  @ key_findings
                                      (zip [topic, topic @ '' overview'', topic @ '' latest trends'',
                                            topic @ '' best practices'', topic @ '' examples''] ts)
                                  @ summary_tail)),
                   if enabled svc
                   then map (\<lambda>q. (axios_get ''https://api.duckduckgo.com/''
                                     [(''q'', q), (''format'', ''json''), (''no_html'', ''1''),
                                      (''skip_disambig'', ''1'')] 10000,
                                   \<not> isl (network q)))
                          [topic, topic @ '' overview'', topic @ '' latest trends'',
                           topic @ '' best practices'', topic @ '' examples'']
                   else [])))"
proof (intro conjI impI)
  assume b: "lookup kvs ''depth'' = JStr ''basic''"
  have q: "searchQueries topic ''basic'' = [topic]" by (simp add: searchQueries_def)
  from researchTopic_validated[OF assms, of "''basic''" svc network] b
  show "\<exists>ts. list_all2 (\<lambda>q t. fst (search svc network (JObj [(''query'', JStr q), (''maxResults'', JNum 3)]))
                                  = Inr (Content t)) [topic] ts
              \<and> researchTopic svc network (JObj kvs) =
                  (Inr (Content (summary_head topic ''basic'' [topic]
                                  @ key_findings (zip [topic] ts) @ summary_tail)),
                   if enabled svc
                   then map (\<lambda>q. (axios_get ''https://api.duckduckgo.com/''
                                     [(''q'', q), (''format'', ''json''), (''no_html'', ''1''),
                                      (''skip_disambig'', ''1'')] 10000,
                                   \<not> isl (network q)))
                          [topic]
                   else [])"
    unfolding q ddg_call_def by simp
next
  let ?qs = "[topic, topic @ '' overview'', topic @ '' latest trends'',
                    topic @ '' best practices'', topic @ '' examples'']"
  assume c: "lookup kvs ''depth'' = JStr ''comprehensive'' \<or> lookup kvs ''depth'' = JUndefined"
  have q: "searchQueries topic ''comprehensive'' = ?qs" by (simp add: searchQueries_def)
  from researchTopic_validated[OF assms, of "''comprehensive''" svc network] c
  show "\<exists>ts. list_all2 (\<lambda>q t. fst (search svc network (JObj [(''query'', JStr q), (''maxResults'', JNum 3)]))
                                  = Inr (Content t)) ?qs ts
              \<and> researchTopic svc network (JObj kvs) =
                  (Inr (Content (summary_head topic ''comprehensive'' ?qs
                                  @ key_findings (zip ?qs ts) @ summary_tail)),
                   if enabled svc
                   then map (\<lambda>q. (axios_get ''https://api.duckduckgo.com/''
                                     [(''q'', q), (''format'', ''json''), (''no_html'', ''1''),
                                      (''skip_disambig'', ''1'')] 10000,
                                   \<not> isl (network q)))
                          ?qs
                   else [])"
    unfolding q ddg_call_def by auto
qed

theorem researchTopic_issues_fixed_queries_witness:
  "researchTopic \<lparr>enabled = False\<rparr> (\<lambda>q. Inl OtherThrown)
       (JObj [(''topic'', JStr ''AI''), (''depth'', JStr ''basic'')])
     = (Inr (Content
          ([CHR 0xF0, CHR 0x9F, CHR 0x94, CHR 0xAC] @ '' **Research Summary for: '' @ [CHR 0x22] @ ''AI''
           @ [CHR 0x22] @ ''**'' @ [CHR 0x0A, CHR 0x0A]
           @ ''**Research Depth**: basic'' @ [CHR 0x0A, CHR 0x0A]
           @ ''**Search Queries Used**:'' @ [CHR 0x0A]
           @ [CHR 0xE2, CHR 0x80, CHR 0xA2] @ '' AI'' @ [CHR 0x0A, CHR 0x0A]
           @ ''**Key Findings**:'' @ [CHR 0x0A]
           @ ''**AI**:'' @ [CHR 0x0A]
           @ [CHR 0xF0, CHR 0x9F, CHR 0x94, CHR 0x8D] @ '' **Mock Web Search Results for: '' @ [CHR 0x22]
           @ ''AI'' @ [CHR 0x22] @ ''**'' @ [CHR 0x0A, CHR 0x0A]
           @ [CHR 0xE2, CHR 0x80, CHR 0xA2] @ '' **Result 1**: Example.com - Sample search result about AI''
           @ [CHR 0x0A]
           @ [CHR 0xE2, CHR 0x80, CHR 0xA2] @ '' **Result 2**: Sample.org - Another relevant result for AI''
           @ [CHR 0x0A]
           @ [CHR 0xE2, CHR 0x80, CHR 0xA2] @ '' **Result 3**: Test.net - Additional information about AI''
           @ ''...'' @ [CHR 0x0A, CHR 0x0A]
           @ ''**Recommendations**:'' @ [CHR 0x0A]
           @ [CHR 0xE2, CHR 0x80, CHR 0xA2] @ '' Consider the latest trends and best practices identified''
           @ [CHR 0x0A]
           @ [CHR 0xE2, CHR 0x80, CHR 0xA2] @ '' Review multiple sources for comprehensive understanding''
           @ [CHR 0x0A]
           @ [CHR 0xE2, CHR 0x80, CHR 0xA2] @ '' Focus on practical examples and real-world applications'')),
        [])
   \<and> (let finding = (\<lambda>q. ''**'' @ q @ ''**:'' @ [CHR 0x0A]
            @ [CHR 0xF0, CHR 0x9F, CHR 0x94, CHR 0x8D] @ '' **Web Search Results for: '' @ [CHR 0x22] @ q
            @ [CHR 0x22] @ ''** (Mock due to error)'' @ [CHR 0x0A, CHR 0x0A]
            @ ''1. **Sample Result 1**'' @ [CHR 0x0A]
            @ ''   URL: https://example.com'' @ [CHR 0x0A]
            @ ''   This is a sample search result for '' @ [CHR 0x22] @ q @ [CHR 0x22]
            @ ''. The actual search encountered an error.'' @ ''...'');
            request = (\<lambda>q. (axios_get ''https://api.duckduckgo.com/''
                               [(''q'', q), (''format'', ''json''), (''no_html'', ''1''),
                                (''skip_disambig'', ''1'')] 10000, False))
        in researchTopic \<lparr>enabled = True\<rparr> (\<lambda>q. Inl OtherThrown) (JObj [(''topic'', JStr ''AI'')])
     = (Inr (Content
          ([CHR 0xF0, CHR 0x9F, CHR 0x94, CHR 0xAC] @ '' **Research Summary for: '' @ [CHR 0x22] @ ''AI''
           @ [CHR 0x22] @ ''**'' @ [CHR 0x0A, CHR 0x0A]
           @ ''**Research Depth**: comprehensive'' @ [CHR 0x0A, CHR 0x0A]
           @ ''**Search Queries Used**:'' @ [CHR 0x0A]
           @ [CHR 0xE2, CHR 0x80, CHR 0xA2] @ '' AI'' @ [CHR 0x0A]
           @ [CHR 0xE2, CHR 0x80, CHR 0xA2] @ '' AI overview'' @ [CHR 0x0A]
           @ [CHR 0xE2, CHR 0x80, CHR 0xA2] @ '' AI latest trends'' @ [CHR 0x0A]
           @ [CHR 0xE2, CHR 0x80, CHR 0xA2] @ '' AI best practices'' @ [CHR 0x0A]
           @ [CHR 0xE2, CHR 0x80, CHR 0xA2] @ '' AI examples'' @ [CHR 0x0A, CHR 0x0A]
           @ ''**Key Findings**:'' @ [CHR 0x0A]
           @ finding ''AI'' @ [CHR 0x0A, CHR 0x0A]
           @ finding ''AI overview'' @ [CHR 0x0A, CHR 0x0A]
           @ finding ''AI latest trends'' @ [CHR 0x0A, CHR 0x0A]
           @ finding ''AI best practices'' @ [CHR 0x0A, CHR 0x0A]
           @ finding ''AI examples'' @ [CHR 0x0A, CHR 0x0A]
           @ ''**Recommendations**:'' @ [CHR 0x0A]
           @ [CHR 0xE2, CHR 0x80, CHR 0xA2] @ '' Consider the latest trends and best practices identified''
           @ [CHR 0x0A]
           @ [CHR 0xE2, CHR 0x80, CHR 0xA2] @ '' Review multiple sources for comprehensive understanding''
           @ [CHR 0x0A]
           @ [CHR 0xE2, CHR 0x80, CHR 0xA2] @ '' Focus on practical examples and real-world applications'')),
        [request ''AI'', request ''AI overview'', request ''AI latest trends'',
         request ''AI best practices'', request ''AI examples'']))"
proof -
  have 1: "lookup [(''topic'', JStr ''AI''), (''depth'', JStr ''basic'')] ''topic'' = JStr ''AI''"
       "lookup [(''topic'', JStr ''AI''), (''depth'', JStr ''basic'')] ''depth'' = JStr ''basic''"
    by (simp_all add: lookup_def)
  have 2: "lookup [(''topic'', JStr ''AI'')] ''topic'' = JStr ''AI''"
       "lookup [(''topic'', JStr ''AI'')] ''depth'' = JStr ''comprehensive''
          \<or> lookup [(''topic'', JStr ''AI'')] ''depth'' = JUndefined"
    by (simp_all add: lookup_def)
  from researchTopic_issues_fixed_queries[OF 1(1), THEN conjunct1, THEN mp, OF 1(2),
      of "\<lparr>enabled = False\<rparr>" "\<lambda>q. Inl OtherThrown"]
  have a: "researchTopic \<lparr>enabled = False\<rparr> (\<lambda>q. Inl OtherThrown)
       (JObj [(''topic'', JStr ''AI''), (''depth'', JStr ''basic'')])
     = (Inr (Content (summary_head ''AI'' ''basic'' [''AI'']
                      @ key_findings [(''AI'', disabled_search_text ''AI'')] @ summary_tail)), [])"
    by (auto simp: list_all2_Cons1 search_wellformed)
  from researchTopic_issues_fixed_queries[OF 2(1), THEN conjunct2, THEN mp, OF 2(2),
      of "\<lparr>enabled = True\<rparr>" "\<lambda>q. Inl OtherThrown"]
  have b: "researchTopic \<lparr>enabled = True\<rparr> (\<lambda>q. Inl OtherThrown) (JObj [(''topic'', JStr ''AI'')])
     = (Inr (Content (summary_head ''AI'' ''comprehensive''
                        [''AI'', ''AI overview'', ''AI latest trends'', ''AI best practices'', ''AI examples'']
                      @ key_findings
                          [(''AI'', error_search_text ''AI''),
                           (''AI overview'', error_search_text ''AI overview''),
                           (''AI latest trends'', error_search_text ''AI latest trends''),
                           (''AI best practices'', error_search_text ''AI best practices''),
                           (''AI examples'', error_search_text ''AI examples'')]
                      @ summary_tail)),
        map (\<lambda>q. (axios_get ''https://api.duckduckgo.com/''
                               [(''q'', q), (''format'', ''json''), (''no_html'', ''1''),
                                (''skip_disambig'', ''1'')] 10000, False))
          [''AI'', ''AI overview'', ''AI latest trends'', ''AI best practices'', ''AI examples''])"
    by (auto simp: list_all2_Cons1 search_wellformed)
  show ?thesis
    unfolding a b Let_def
    by (simp add: summary_head_def key_findings_truncated truncated_finding_def summary_tail_def
        disabled_search_text_def error_search_text_def eval_nat_numeral
        NL_def DQ_def e_microscope_def e_bullet_def e_glass_def)
qed

subsection \<open>The findings of a research summary\<close>

text \<open>
  Claim C9. In the research summary every query's result text is included cut to its first
  five lines, however long the search result is: the summary that \<open>researchTopic\<close> returns
  is its head, then one finding per query, in order and separated by empty lines, then its
  tail; and each finding is the query in bold, a line feed, the first five lines of the text
  that \<open>search\<close> returned for the query (\<open>leading_lines 5\<close>: the text up to its fifth line
  feed, the whole text when it has fewer), and an ellipsis.
\<close>

theorem research_summary_truncates_each_result:
  assumes "lookup kvs ''topic'' = JStr topic"
    and "lookup kvs ''depth'' = JStr depth \<and> depth \<in> {''basic'', ''comprehensive''}
         \<or> lookup kvs ''depth'' = JUndefined \<and> depth = ''comprehensive''"
  shows "let queries =
           (if depth = ''comprehensive''
            then [topic, topic @ '' overview'', topic @ '' latest trends'',
                  topic @ '' best practices'', topic @ '' examples'']
            else [topic])
         in \<exists>ts. list_all2 (\<lambda>q t. fst (search svc network
                                            (JObj [(''query'', JStr q), (''maxResults'', JNum 3)]))
                                     = Inr (Content t)) queries ts
              \<and> fst (researchTopic svc network (JObj kvs)) =
                  Inr (Content (summary_head topic depth queries
                                @ truncated_findings (zip queries ts) @ summary_tail))"
proof -
  from researchTopic_validated[OF assms, of svc network]
  obtain ts where r:
    "list_all2 (\<lambda>q t. fst (search svc network (JObj [(''query'', JStr q), (''maxResults'', JNum 3)]))
                          = Inr (Content t)) (searchQueries topic depth) ts"
    "fst (researchTopic svc network (JObj kvs)) =
         Inr (Content (summary_head topic depth (searchQueries topic depth)
                         @ key_findings (zip (searchQueries topic depth) ts) @ summary_tail))"
    by auto
  then show ?thesis
    unfolding Let_def key_findings_truncated searchQueries_def by blast
qed

theorem research_summary_truncates_each_result_witness:
  "fst (researchTopic \<lparr>enabled = True\<rparr> (\<lambda>q. Inl OtherThrown)
         (JObj [(''topic'', JStr ''AI''), (''depth'', JStr ''basic'')]))
     = Inr (Content
          ([CHR 0xF0, CHR 0x9F, CHR 0x94, CHR 0xAC] @ '' **Research Summary for: '' @ [CHR 0x22] @ ''AI''
           @ [CHR 0x22] @ ''**'' @ [CHR 0x0A, CHR 0x0A]
           @ ''**Research Depth**: basic'' @ [CHR 0x0A, CHR 0x0A]
           @ ''**Search Queries Used**:'' @ [CHR 0x0A]
           @ [CHR 0xE2, CHR 0x80, CHR 0xA2] @ '' AI'' @ [CHR 0x0A, CHR 0x0A]
           @ ''**Key Findings**:'' @ [CHR 0x0A]
           @ ''**AI**:'' @ [CHR 0x0A]
           @ [CHR 0xF0, CHR 0x9F, CHR 0x94, CHR 0x8D] @ '' **Web Search Results for: '' @ [CHR 0x22]
           @ ''AI'' @ [CHR 0x22] @ ''** (Mock due to error)'' @ [CHR 0x0A]
           @ [CHR 0x0A]
           @ ''1. **Sample Result 1**'' @ [CHR 0x0A]
           @ ''   URL: https://example.com'' @ [CHR 0x0A]
           @ ''   This is a sample search result for '' @ [CHR 0x22] @ ''AI'' @ [CHR 0x22]
           @ ''. The actual search encountered an error.''
           @ ''...'' @ [CHR 0x0A, CHR 0x0A]
           @ ''**Recommendations**:'' @ [CHR 0x0A]
           @ [CHR 0xE2, CHR 0x80, CHR 0xA2] @ '' Consider the latest trends and best practices identified''
           @ [CHR 0x0A]
           @ [CHR 0xE2, CHR 0x80, CHR 0xA2] @ '' Review multiple sources for comprehensive understanding''
           @ [CHR 0x0A]
           @ [CHR 0xE2, CHR 0x80, CHR 0xA2] @ '' Focus on practical examples and real-world applications''))
   \<and> search \<lparr>enabled = True\<rparr> (\<lambda>q. Inl OtherThrown) (JObj [(''query'', JStr ''AI''), (''maxResults'', JNum 3)])
     = (Inr (Content
          ([CHR 0xF0, CHR 0x9F, CHR 0x94, CHR 0x8D] @ '' **Web Search Results for: '' @ [CHR 0x22]
           @ ''AI'' @ [CHR 0x22] @ ''** (Mock due to error)'' @ [CHR 0x0A]
           @ [CHR 0x0A]
           @ ''1. **Sample Result 1**'' @ [CHR 0x0A]
           @ ''   URL: https://example.com'' @ [CHR 0x0A]
           @ ''   This is a sample search result for '' @ [CHR 0x22] @ ''AI'' @ [CHR 0x22]
           @ ''. The actual search encountered an error.'' @ [CHR 0x0A]
           @ ''   Type: search_result'' @ [CHR 0x0A]
           @ [CHR 0x0A]
           @ ''2. **Sample Result 2**'' @ [CHR 0x0A]
           @ ''   URL: https://sample.org'' @ [CHR 0x0A]
           @ ''   Another sample result demonstrating the search functionality.'' @ [CHR 0x0A]
           @ ''   Type: search_result'')),
        [(axios_get ''https://api.duckduckgo.com/''
            [(''q'', ''AI''), (''format'', ''json''), (''no_html'', ''1''), (''skip_disambig'', ''1'')]
            10000, False)])"
proof -
  have 1: "lookup [(''topic'', JStr ''AI''), (''depth'', JStr ''basic'')] ''topic'' = JStr ''AI''"
    by (simp add: lookup_def)
  have 2: "lookup [(''topic'', JStr ''AI''), (''depth'', JStr ''basic'')] ''depth'' = JStr ''basic''
             \<and> ''basic'' \<in> {''basic'', ''comprehensive''}
           \<or> lookup [(''topic'', JStr ''AI''), (''depth'', JStr ''basic'')] ''depth'' = JUndefined
             \<and> ''basic'' = ''comprehensive''"
    by (simp add: lookup_def)
  have s: "search \<lparr>enabled = True\<rparr> (\<lambda>q. Inl OtherThrown)
             (JObj [(''query'', JStr ''AI''), (''maxResults'', JNum 3)])
           = (Inr (Content (error_search_text ''AI'')), [(ddg_call ''AI'', False)])"
    by (simp add: search_wellformed)
  from research_summary_truncates_each_result[OF 1 2, of "\<lparr>enabled = True\<rparr>" "\<lambda>q. Inl OtherThrown"]
  have a: "fst (researchTopic \<lparr>enabled = True\<rparr> (\<lambda>q. Inl OtherThrown)
         (JObj [(''topic'', JStr ''AI''), (''depth'', JStr ''basic'')]))
     = Inr (Content (summary_head ''AI'' ''basic'' [''AI'']
                     @ truncated_findings [(''AI'', error_search_text ''AI'')] @ summary_tail))"
    by (auto simp: Let_def list_all2_Cons1 s)
  show ?thesis
    unfolding a s
    by (simp add: summary_head_def truncated_finding_def summary_tail_def error_search_text_def
        ddg_call_def eval_nat_numeral NL_def DQ_def e_microscope_def e_bullet_def e_glass_def)
qed

subsection \<open>Validation comes first\<close>

lemma parse_fields_issue:
  "(k, f) \<in> set shape \<Longrightarrow> parse_field f (lookup kvs k) = Inl c \<Longrightarrow> fst (parse_fields shape kvs) \<noteq> []"
  by (induction shape) (auto split: prod.splits sum.splits)

lemma zparse_field_issue:
  assumes "(k, f) \<in> set shape" and "parse_field f (lookup kvs k) = Inl c"
  shows "\<exists>issues. zparse shape (JObj kvs) = Inl (ZodError issues)"
proof -
  from parse_fields_issue[OF assms] show ?thesis
    by (cases "parse_fields shape kvs") (auto simp: zparse_def split: list.splits)
qed

lemma check_type_undefined: "check_type t JUndefined \<noteq> None"
  by (cases t) auto

lemma required_missing_issue:
  "is_required f \<Longrightarrow> \<exists>c. parse_field f JUndefined = Inl c"
  using check_type_undefined by (cases f) (auto split: option.splits)

lemma wrong_type_issue:
  "v \<noteq> JUndefined \<Longrightarrow> \<not> has_js_type (field_type f) v \<Longrightarrow> \<exists>c. parse_field f v = Inl c"
proof -
  assume v: "v \<noteq> JUndefined" and h: "\<not> has_js_type (field_type f) v"
  have "check_type (field_type f) v \<noteq> None"
    using h by (cases "field_type f"; cases v) auto
  then show ?thesis using v by (cases f) (auto split: option.splits)
qed

lemma outside_enum_issue:
  "outside_enum (field_type f) v \<Longrightarrow> \<exists>c. parse_field f v = Inl c"
proof -
  assume h: "outside_enum (field_type f) v"
  then obtain vs s where e: "field_type f = ZEnum vs" "v = JStr s" "s \<notin> set vs"
    by (cases "field_type f"; cases v) auto
  then show ?thesis by (cases f) auto
qed

lemma shape_mismatch_zparse:
  assumes "shape_mismatch shape args"
  shows "\<exists>issues. zparse shape args = Inl (ZodError issues)"
proof -
  from assms obtain kvs where a: "args = JObj kvs"
    by (cases args) (auto simp: shape_mismatch_def required_field_missing_def
        field_of_wrong_type_def value_outside_enum_def)
  from assms a obtain k f c where "(k, f) \<in> set shape" "parse_field f (lookup kvs k) = Inl c"
    unfolding shape_mismatch_def required_field_missing_def field_of_wrong_type_def
      value_outside_enum_def list_ex_iff
    using required_missing_issue wrong_type_issue outside_enum_issue
    by (auto; metis)
  with a show ?thesis using zparse_field_issue by blast
qed

text \<open>
  Claim C8. For every public operation of a connector, when the argument bag does not match
  the shape the operation declares (a required field is missing, a field has the wrong
  type, or a value lies outside a declared enumeration) the operation throws the
  validator's error, and the invocation's log of vendor calls is empty: nothing was called
  before the throw, and nothing after.
\<close>

theorem invalid_bag_throws_before_any_vendor_call:
  assumes "shape_mismatch (declared_shape v opn) (parsed_bag opn args)"
  shows "\<exists>issues. run c rt v opn args = (Inl (ZodError issues), [])"
proof -
  from shape_mismatch_zparse[OF assms]
  obtain issues where z: "zparse (declared_shape v opn) (parsed_bag opn args) = Inl (ZodError issues)"
    by blast
  have "opn \<noteq> GitHub_getRepositoryInfo"
    using assms by (auto simp: shape_mismatch_def required_field_missing_def
        field_of_wrong_type_def value_outside_enum_def split: json.splits)
  then have "run c rt v opn args = (Inl (ZodError issues), [])"
    using z
    by (cases opn)
       (simp_all add: parsed_bag_def createIssue_def createBranch_def createPullRequest_def
          listIssues_def createPage_def searchPages_def updatePage_def getPage_def
          listDatabasePages_def createEvent_def listEvents_def updateEvent_def deleteEvent_def
          search_def extractContent_def researchTopic_def validateContent_def forget_state_def)
  then show ?thesis by blast
qed


theorem invalid_bag_throws_before_any_vendor_call_witness:
  "\<forall>c rt v.
     (\<exists>issues. run c rt v GitHub_createIssue (JObj [(''body'', JStr ''text'')])
        = (Inl (ZodError issues), []))
     \<and> (\<exists>issues. run c rt v Web_search (JObj [(''query'', JNum 7)])
        = (Inl (ZodError issues), []))
     \<and> (\<exists>issues. run c rt v Notion_updatePage
           (JObj [(''pageId'', JStr ''p1''), (''status'', JStr ''Archived'')])
        = (Inl (ZodError issues), []))"
proof (intro allI conjI)
  fix c rt v
  have "shape_mismatch (declared_shape v GitHub_createIssue)
          (parsed_bag GitHub_createIssue (JObj [(''body'', JStr ''text'')]))"
    by (simp add: shape_mismatch_def required_field_missing_def parsed_bag_def
        createIssue_shape_def lookup_def)
  then show "\<exists>issues. run c rt v GitHub_createIssue (JObj [(''body'', JStr ''text'')])
        = (Inl (ZodError issues), [])"
    by (rule invalid_bag_throws_before_any_vendor_call)
  have "shape_mismatch (declared_shape v Web_search)
          (parsed_bag Web_search (JObj [(''query'', JNum 7)]))"
    by (simp add: shape_mismatch_def field_of_wrong_type_def parsed_bag_def
        search_shape_def lookup_def)
  then show "\<exists>issues. run c rt v Web_search (JObj [(''query'', JNum 7)])
        = (Inl (ZodError issues), [])"
    by (rule invalid_bag_throws_before_any_vendor_call)
  have "shape_mismatch (declared_shape v Notion_updatePage)
          (parsed_bag Notion_updatePage
             (JObj [(''pageId'', JStr ''p1''), (''status'', JStr ''Archived'')]))"
    by (simp add: shape_mismatch_def value_outside_enum_def parsed_bag_def
        updatePage_shape_def lookup_def)
  then show "\<exists>issues. run c rt v Notion_updatePage
           (JObj [(''pageId'', JStr ''p1''), (''status'', JStr ''Archived'')])
        = (Inl (ZodError issues), [])"
    by (rule invalid_bag_throws_before_any_vendor_call)
qed

subsection \<open>What a failed vendor call becomes\<close>

lemma validated_parsed:
  "validated v opn args \<Longrightarrow> opn \<noteq> GitHub_getRepositoryInfo \<Longrightarrow>
     \<exists>p. zparse (declared_shape v opn) (parsed_bag opn args) = Inr p"
  by (auto simp: validated_def split: sum.splits)

lemma github_rethrows:
  assumes "validated v opn args" and "vendor_call_failed (snd (run c rt v opn args))"
    and "opn \<in> {GitHub_createIssue, GitHub_createBranch, GitHub_createPullRequest,
                 GitHub_listIssues, GitHub_getRepositoryInfo}"
  shows "\<exists>e. \<not> snd (last (snd (run c rt v opn args)))
             \<and> list_all snd (butlast (snd (run c rt v opn args)))
             \<and> fst (last (snd (run c rt v opn args))) \<noteq> refreshAccessToken
             \<and> vendor_threw v (fst (last (snd (run c rt v opn args)))) = Some e
             \<and> fst (run c rt v opn args) = Inl (wrapped (failure_text opn) e)"
proof (cases "opn = GitHub_getRepositoryInfo")
  case True
  with assms(2) show ?thesis
    by (auto simp: vendor_call_failed_def getRepositoryInfo_def Let_def thrown_of_def split: sum.splits)
next
  case False
  from validated_parsed[OF assms(1) False] obtain p where
    "zparse (declared_shape v opn) (parsed_bag opn args) = Inr p" by blast
  with assms(2,3) False show ?thesis
    by (auto simp: vendor_call_failed_def parsed_bag_def createIssue_def createBranch_def
        createPullRequest_def listIssues_def Let_def thrown_of_def
        split: sum.splits)
qed

lemma notion_rethrows:
  assumes "validated v opn args" and "vendor_call_failed (snd (run c rt v opn args))"
    and "opn \<in> {Notion_createPage, Notion_searchPages, Notion_updatePage, Notion_getPage,
                 Notion_listDatabasePages}"
  shows "\<exists>e. \<not> snd (last (snd (run c rt v opn args)))
             \<and> list_all snd (butlast (snd (run c rt v opn args)))
             \<and> fst (last (snd (run c rt v opn args))) \<noteq> refreshAccessToken
             \<and> vendor_threw v (fst (last (snd (run c rt v opn args)))) = Some e
             \<and> fst (run c rt v opn args) = Inl (wrapped (failure_text opn) e)"
proof -
  from assms(3) have "opn \<noteq> GitHub_getRepositoryInfo" by auto
  from validated_parsed[OF assms(1) this] obtain p where
    "zparse (declared_shape v opn) (parsed_bag opn args) = Inr p" by blast
  with assms(2,3) show ?thesis
    by (auto simp: vendor_call_failed_def parsed_bag_def createPage_def searchPages_def
        updatePage_def getPage_def listDatabasePages_def Let_def thrown_of_def
        split: sum.splits if_splits)
qed

lemma not_answered: "(\<not> answered r) = (\<exists>e. r = Inl e)"
  by (cases r) auto

text \<open>
  A calendar operation whose log holds a failed call: either the refresh threw, and the
  \<open>catch\<close> block receives the fixed refresh error; or the calendar API threw, and it receives
  the vendor's.
\<close>

lemma authenticated_call_cases:
  assumes "authenticated_call svc now vr call vendor = (r, svc', calls)"
    and "vendor_call_failed calls"
  shows "(\<exists>e'. vr = Inl e' \<and> r = Inl (ErrorObj refresh_failed_message)
            \<and> calls = [(refreshAccessToken, False)])
       \<or> (\<exists>e. vendor = Inl e \<and> r = Inl e
            \<and> (calls = [(call, False)] \<or> calls = [(refreshAccessToken, True), (call, False)]))"
  using assms
  by (auto simp: authenticated_call_def ensureAuthenticated_def vendor_call_failed_def not_answered
      split: option.splits if_splits sum.splits prod.splits)

lemma calendar_rethrows:
  assumes "validated v opn args" and "vendor_call_failed (snd (run c rt v opn args))"
    and "opn \<in> {Calendar_updateEvent, Calendar_deleteEvent}"
  shows "\<exists>e. \<not> snd (last (snd (run c rt v opn args)))
             \<and> list_all snd (butlast (snd (run c rt v opn args)))
             \<and> vendor_threw v (fst (last (snd (run c rt v opn args)))) = Some e
             \<and> fst (run c rt v opn args) =
                 Inl (wrapped (failure_text opn)
                        (if fst (last (snd (run c rt v opn args))) = refreshAccessToken
                         then ErrorObj refresh_failed_message else e))"
proof -
  from assms(3) have "opn \<noteq> GitHub_getRepositoryInfo" by auto
  from validated_parsed[OF assms(1) this] obtain p where
    z: "zparse (declared_shape v opn) (parsed_bag opn args) = Inr p" by blast
  from assms(3) show ?thesis
  proof (elim insertE emptyE)
    assume o: "opn = Calendar_updateEvent"
    let ?call = "events_update (str_field p ''eventId'')
           (event_updateData (opt_field p ''title'') (opt_field p ''description'')
              (opt_field p ''startTime'') (opt_field p ''endTime''))"
    obtain r svc' calls where a: "authenticated_call (calendarService c) (rt_now rt) (v_refreshAccessToken v)
        ?call (v_events_update v) = (r, svc', calls)"
      by (metis prod_cases3)
    with z o assms(2) have f: "vendor_call_failed calls"
      by (auto simp: updateEvent_def parsed_bag_def forget_state_def Let_def split: sum.splits)
    from a z o have s: "snd (run c rt v opn args) = calls"
      by (auto simp: updateEvent_def parsed_bag_def forget_state_def Let_def split: sum.splits)
    from authenticated_call_cases[OF a f] a z o show ?thesis
      unfolding s
      by (auto simp: updateEvent_def parsed_bag_def forget_state_def Let_def thrown_of_def)
  next
    assume o: "opn = Calendar_deleteEvent"
    let ?call = "events_delete (str_field p ''eventId'')"
    obtain r svc' calls where a: "authenticated_call (calendarService c) (rt_now rt) (v_refreshAccessToken v)
        ?call (v_events_delete v) = (r, svc', calls)"
      by (metis prod_cases3)
    with z o assms(2) have f: "vendor_call_failed calls"
      by (auto simp: deleteEvent_def parsed_bag_def forget_state_def Let_def split: sum.splits)
    from a z o have s: "snd (run c rt v opn args) = calls"
      by (auto simp: deleteEvent_def parsed_bag_def forget_state_def Let_def split: sum.splits)
    from authenticated_call_cases[OF a f] a z o show ?thesis
      unfolding s
      by (auto simp: deleteEvent_def parsed_bag_def forget_state_def Let_def thrown_of_def)
  qed
qed

lemma swallowing_returns_content:
  assumes "validated v opn args" and "opn \<in> swallowing"
  shows "\<exists>t. fst (run c rt v opn args) = Inr (Content t)"
proof -
  from assms(2) have "opn \<noteq> GitHub_getRepositoryInfo" by (auto simp: swallowing_def)
  from validated_parsed[OF assms(1) this] obtain p where
    "zparse (declared_shape v opn) (parsed_bag opn args) = Inr p" by blast
  with assms(2) show ?thesis
    by (auto simp: swallowing_def parsed_bag_def createEvent_def search_def extractContent_def
        researchTopic_def validateContent_def forget_state_def Let_def
        split: sum.splits prod.splits ToolCallResult.splits)
qed

lemma createEvent_on_failure:
  assumes "validated v Calendar_createEvent args"
    and "vendor_call_failed (snd (run c rt v Calendar_createEvent args))"
  shows "\<exists>p. zparse createEvent_shape (or_empty args) = Inr p
     \<and> fst (run c rt v Calendar_createEvent args) =
         Inr (Content (mock_event_text rt (str_field p ''title'') (str_field p ''startTime'')
                         (str_field p ''endTime'') (opt_field p ''description'')
                         (strs_field p ''attendees'')))"
proof -
  from validated_parsed[OF assms(1)] obtain p where
    z: "zparse createEvent_shape (or_empty args) = Inr p" by (auto simp: parsed_bag_def)
  let ?call = "events_insert (str_field p ''title'')
                 (or_else (env_str (opt_field p ''description'')) ''Content development deadline'')
                 (str_field p ''startTime'') (str_field p ''endTime'') (strs_field p ''attendees'')"
  obtain r svc' calls where a: "authenticated_call (calendarService c) (rt_now rt)
      (v_refreshAccessToken v) ?call (v_events_insert v) = (r, svc', calls)"
    by (metis prod_cases3)
  with z assms(2) have "vendor_call_failed calls"
    by (auto simp: createEvent_def forget_state_def Let_def split: sum.splits)
  from authenticated_call_cases[OF a this] obtain e where "r = Inl e" by blast
  with a z show ?thesis
    by (auto simp: createEvent_def forget_state_def Let_def)
qed

lemma search_on_failure:
  assumes "validated v Web_search args"
    and "vendor_call_failed (snd (run c rt v Web_search args))"
  shows "\<exists>p. zparse search_shape args = Inr p
     \<and> fst (run c rt v Web_search args) = Inr (Content (error_search_text (str_field p ''query'')))"
proof -
  from validated_parsed[OF assms(1)] obtain p where
    z: "zparse search_shape args = Inr p" by (auto simp: parsed_bag_def)
  with assms(2) show ?thesis
    by (auto simp: search_def vendor_call_failed_def Let_def split: sum.splits if_splits)
qed

lemma listEvents_on_failure:
  assumes "validated v Calendar_listEvents args"
    and "vendor_call_failed (snd (run c rt v Calendar_listEvents args))"
  shows "\<exists>e. \<not> snd (last (snd (run c rt v Calendar_listEvents args)))
     \<and> list_all snd (butlast (snd (run c rt v Calendar_listEvents args)))
     \<and> vendor_threw v (fst (last (snd (run c rt v Calendar_listEvents args)))) = Some e
     \<and> fst (run c rt v Calendar_listEvents args) =
         (if fst (last (snd (run c rt v Calendar_listEvents args))) \<noteq> refreshAccessToken
             \<and> mentions_authentication e
          then Inr (Content (mock_events_text rt))
          else Inl (wrapped (failure_text Calendar_listEvents)
                      (if fst (last (snd (run c rt v Calendar_listEvents args))) = refreshAccessToken
                       then ErrorObj refresh_failed_message else e)))"
proof -
  from validated_parsed[OF assms(1)] obtain p where
    z: "zparse listEvents_shape (or_empty args) = Inr p" by (auto simp: parsed_bag_def)
  let ?call = "events_list
                 (or_else (env_str (opt_field p ''timeMin'')) (rt_toISOString rt (rt_now rt)))
                 (or_else (env_str (opt_field p ''timeMax''))
                    (rt_toISOString rt (rt_now rt + 7 * 24 * 60 * 60 * 1000)))
                 (num_field p ''maxResults'')"
  obtain r svc' calls where a: "authenticated_call (calendarService c) (rt_now rt)
      (v_refreshAccessToken v) ?call (v_events_list v) = (r, svc', calls)"
    by (metis prod_cases3)
  with z assms(2) have f: "vendor_call_failed calls"
    by (auto simp: listEvents_def forget_state_def Let_def split: sum.splits if_splits)
  from a z have s: "snd (run c rt v Calendar_listEvents args) = calls"
    by (auto simp: listEvents_def forget_state_def Let_def split: sum.splits)
  have n: "\<not> mentions_authentication (ErrorObj refresh_failed_message)"
    by (simp add: mentions_authentication_def refresh_failed_message_def)
  from authenticated_call_cases[OF a f] a z n show ?thesis
    unfolding s
    by (auto simp: listEvents_def forget_state_def Let_def thrown_of_def)
qed

lemma refresh_failure_not_authentication:
  "\<not> mentions_authentication (ErrorObj refresh_failed_message)"
  by (simp add: mentions_authentication_def refresh_failed_message_def)

lemma auth_required_is_authentication:
  "mentions_authentication (ErrorObj auth_required_message)"
  by (simp add: mentions_authentication_def auth_required_message_def)

text \<open>
  Claim C3, as amended. For every public operation and every validated input, when a vendor
  call of the invocation fails, the log ends with the failed call, every call before it
  having answered, and:
  each GitHub and Notion operation, and the calendar's \<open>updateEvent\<close> and \<open>deleteEvent\<close>,
  throw an error whose message is the operation's own failure text, a colon, and the message
  of what the vendor threw on the failed call (\<open>Unknown error\<close> when that is not an
  \<open>Error\<close>), except that when the failed call is the calendar's token refresh the vendor's
  message is dropped and the fixed text \<open>Google Calendar token expired and could not be
  refreshed. Please re-authenticate.\<close> follows the colon;
  the calendar's \<open>createEvent\<close> and the four web-search operations return a
  \<open>{content: [...]}\<close> result instead, \<open>createEvent\<close> its mock event and \<open>search\<close> its
  \<open>Mock due to error\<close> text;
  and \<open>listEvents\<close> returns its mock list when the calendar API's error is an \<open>Error\<close>
  whose message contains \<open>authentication\<close>, and throws the wrapped error, as \<open>updateEvent\<close>
  does, otherwise.
\<close>

theorem vendor_failure_rethrown_or_swallowed:
  assumes "validated v opn args" and "vendor_call_failed (snd (run c rt v opn args))"
  shows "let result = fst (run c rt v opn args);
             calls = snd (run c rt v opn args);
             failed = fst (last calls);
             follows = (\<lambda>e. if failed = refreshAccessToken
                             then ''Google Calendar token expired and could not be refreshed. Please re-authenticate.''
                             else (case e of ErrorObj m \<Rightarrow> m | OtherThrown \<Rightarrow> ''Unknown error''))
         in (opn \<in> rethrowing \<longrightarrow>
               (\<exists>e. \<not> snd (last calls) \<and> list_all snd (butlast calls)
                  \<and> vendor_threw v failed = Some e
                  \<and> result = Inl (JsError (failure_text opn @ '': '' @ follows e))))
          \<and> (opn \<in> swallowing \<longrightarrow> (\<exists>t. result = Inr (Content t)))
          \<and> (opn = Calendar_createEvent \<longrightarrow>
               (\<exists>p. zparse createEvent_shape (or_empty args) = Inr p
                  \<and> result =
                      Inr (Content (mock_event_text rt (str_field p ''title'') (str_field p ''startTime'')
                                      (str_field p ''endTime'') (opt_field p ''description'')
                                      (strs_field p ''attendees'')))))
          \<and> (opn = Web_search \<longrightarrow>
               (\<exists>p. zparse search_shape args = Inr p
                  \<and> result = Inr (Content (error_search_text (str_field p ''query'')))))
          \<and> (opn = Calendar_listEvents \<longrightarrow>
               (\<exists>e. \<not> snd (last calls) \<and> list_all snd (butlast calls)
                  \<and> vendor_threw v failed = Some e
                  \<and> result =
                      (if failed \<noteq> refreshAccessToken
                          \<and> (\<exists>m. e = ErrorObj m \<and> str_includes m ''authentication'')
                       then Inr (Content (mock_events_text rt))
                       else Inl (JsError (failure_text opn @ '': '' @ follows e)))))"
proof -
  have m: "\<And>e. mentions_authentication e = (\<exists>m. e = ErrorObj m \<and> str_includes m ''authentication'')"
    by (auto simp: mentions_authentication_def split: thrown.splits)
  have 1: "opn \<in> rethrowing \<Longrightarrow>
              \<exists>e. \<not> snd (last (snd (run c rt v opn args)))
                 \<and> list_all snd (butlast (snd (run c rt v opn args)))
                 \<and> vendor_threw v (fst (last (snd (run c rt v opn args)))) = Some e
                 \<and> fst (run c rt v opn args) =
                     Inl (wrapped (failure_text opn)
                            (if fst (last (snd (run c rt v opn args))) = refreshAccessToken
                             then ErrorObj refresh_failed_message else e))"
  proof -
    assume "opn \<in> rethrowing"
    then consider
        "opn \<in> {GitHub_createIssue, GitHub_createBranch, GitHub_createPullRequest,
                 GitHub_listIssues, GitHub_getRepositoryInfo}"
      | "opn \<in> {Notion_createPage, Notion_searchPages, Notion_updatePage, Notion_getPage,
                 Notion_listDatabasePages}"
      | "opn \<in> {Calendar_updateEvent, Calendar_deleteEvent}"
      unfolding rethrowing_def by blast
    then show ?thesis
    proof cases
      case 1
      from github_rethrows[OF assms 1] show ?thesis by auto
    next
      case 2
      from notion_rethrows[OF assms 2] show ?thesis by auto
    next
      case 3
      from calendar_rethrows[OF assms 3] show ?thesis .
    qed
  qed
  have 2: "opn \<in> swallowing \<Longrightarrow> \<exists>t. fst (run c rt v opn args) = Inr (Content t)"
    using swallowing_returns_content[OF assms(1)] by blast
  have 3: "opn = Calendar_createEvent \<Longrightarrow>
             \<exists>p. zparse createEvent_shape (or_empty args) = Inr p
                \<and> fst (run c rt v opn args) =
                    Inr (Content (mock_event_text rt (str_field p ''title'') (str_field p ''startTime'')
                                    (str_field p ''endTime'') (opt_field p ''description'')
                                    (strs_field p ''attendees'')))"
    using createEvent_on_failure assms by blast
  have 4: "opn = Web_search \<Longrightarrow>
             \<exists>p. zparse search_shape args = Inr p
                \<and> fst (run c rt v opn args) = Inr (Content (error_search_text (str_field p ''query'')))"
    using search_on_failure assms by blast
  have 5: "opn = Calendar_listEvents \<Longrightarrow>
             \<exists>e. \<not> snd (last (snd (run c rt v opn args)))
                \<and> list_all snd (butlast (snd (run c rt v opn args)))
                \<and> vendor_threw v (fst (last (snd (run c rt v opn args)))) = Some e
                \<and> fst (run c rt v opn args) =
                    (if fst (last (snd (run c rt v opn args))) \<noteq> refreshAccessToken
                        \<and> mentions_authentication e
                     then Inr (Content (mock_events_text rt))
                     else Inl (wrapped (failure_text opn)
                                 (if fst (last (snd (run c rt v opn args))) = refreshAccessToken
                                  then ErrorObj refresh_failed_message else e)))"
    using listEvents_on_failure assms by blast
  have w: "\<And>what e failed. wrapped what (if failed = refreshAccessToken then ErrorObj refresh_failed_message else e)
      = JsError (what @ '': '' @
          (if failed = refreshAccessToken
           then ''Google Calendar token expired and could not be refreshed. Please re-authenticate.''
           else (case e of ErrorObj m \<Rightarrow> m | OtherThrown \<Rightarrow> ''Unknown error'')))"
    by (simp add: wrapped_def error_message_def refresh_failed_message_def)
  show ?thesis
    unfolding Let_def
    using 1 2 3 4 5 unfolding w m by (intro conjI impI) blast+
qed

text \<open>
  Claim C3 as stated fails: with valid credentials and a validated bag, the calendar API
  throws on \<open>events.insert\<close>, and \<open>createEvent\<close> returns the mock event as a normal
  result.
\<close>

theorem createEvent_swallows_vendor_failure:
  "createEvent (example_calendar (Some example_credentials)) example_runtime (Inl OtherThrown)
       (Inl (ErrorObj ''Calendar API unavailable'')) example_event_bag
     = (Inr (Content
          ([CHR 0xF0, CHR 0x9F, CHR 0x93, CHR 0x85] @ '' **Mock Calendar Event Created**''
           @ [CHR 0x0A, CHR 0x0A]
           @ ''**Event**: Deadline'' @ [CHR 0x0A, CHR 0x0A]
           @ ''**Start**: 2025-03-01T00:00:00Z'' @ [CHR 0x0A]
           @ ''**End**: 2025-03-01T01:00:00Z'' @ [CHR 0x0A, CHR 0x0A]
           @ ''**Description**: Content development deadline'' @ [CHR 0x0A, CHR 0x0A]
           @ ''**Attendees**: None'' @ [CHR 0x0A, CHR 0x0A]
           @ ''*Note: This is a mock response. In production, complete OAuth authentication to create real calendar events.*'')),
        example_calendar (Some example_credentials),
        [(events_insert ''Deadline'' ''Content development deadline'' ''2025-03-01T00:00:00Z''
            ''2025-03-01T01:00:00Z'' [], False)])"
  by (simp add: createEvent_def example_event_bag_def or_empty_def zparse_def createEvent_shape_def
      lookup_def str_field_def opt_field_def strs_field_def authenticated_call_def
      ensureAuthenticated_def example_calendar_def example_credentials_def example_runtime_def
      truthy_def token_expired_def or_else_def env_str_def Let_def mock_event_text_def
      NL_def e_calendar_def)

theorem vendor_failure_rethrown_or_swallowed_witness:
  "\<forall>c rt v.
     run c rt
         (v\<lparr>v_issues_create := Inl (ErrorObj ''API rate limit exceeded'')\<rparr>)
         GitHub_createIssue (JObj [(''title'', JStr ''Draft''), (''body'', JStr ''Outline'')])
       = (Inl (JsError ''Failed to create GitHub issue: API rate limit exceeded''),
          [(issues_create (gh_owner (githubService c)) (gh_repo (githubService c)) ''Draft'' ''Outline'' [''content''], False)])
     \<and> run c rt
         (v\<lparr>v_pages_update := Inr (), v_blocks_children_append := Inl OtherThrown\<rparr>)
         Notion_updatePage (JObj [(''pageId'', JStr ''p1''), (''content'', JStr ''More'')])
       = (Inl (JsError ''Failed to update Notion page: Unknown error''),
          [(pages_update ''p1'' [], True), (blocks_children_append ''p1'' [Paragraph [''More'']], False)])
     \<and> run (c\<lparr>calendarService := example_calendar (Some (example_credentials\<lparr>expiry_date := Some 500\<rparr>))\<rparr>) example_runtime
         (v\<lparr>v_refreshAccessToken := Inl (ErrorObj ''invalid_grant'')\<rparr>)
         Calendar_updateEvent (JObj [(''eventId'', JStr ''ev1''), (''title'', JStr ''Moved'')])
       = (Inl (JsError ''Failed to update calendar event: Google Calendar token expired and could not be refreshed. Please re-authenticate.''),
          [(refreshAccessToken, False)])
     \<and> run (c\<lparr>calendarService := example_calendar (Some example_credentials)\<rparr>) example_runtime
         (v\<lparr>v_events_delete := Inl (ErrorObj ''Not Found'')\<rparr>)
         Calendar_deleteEvent (JObj [(''eventId'', JStr ''ev1'')])
       = (Inl (JsError ''Failed to delete calendar event: Not Found''),
          [(events_delete ''ev1'', False)])
     \<and> run (c\<lparr>calendarService := example_calendar (Some example_credentials)\<rparr>) example_runtime
         (v\<lparr>v_events_list := Inl (ErrorObj ''Quota exceeded'')\<rparr>)
         Calendar_listEvents (JObj [(''maxResults'', JNum 3), (''timeMin'', JStr ''2025-03-01T00:00:00Z''), (''timeMax'', JStr ''2025-03-08T00:00:00Z'')])
       = (Inl (JsError ''Failed to list calendar events: Quota exceeded''),
          [(events_list ''2025-03-01T00:00:00Z'' ''2025-03-08T00:00:00Z'' 3, False)])
     \<and> run (c\<lparr>calendarService := example_calendar (Some example_credentials)\<rparr>)
           \<lparr>rt_now = 1000, rt_toISOString = (\<lambda>ms. ''iso''),
            rt_toLocaleString =
              (\<lambda>ms. if ms = 1000 then ''T'' else if ms = 3601000 then ''T + 1h''
                    else if ms = 86401000 then ''T + 24h'' else if ms = 88201000 then ''T + 24h30m''
                    else ''other''),
            rt_strToLocaleString = (\<lambda>s. s), rt_strToLocaleDateString = (\<lambda>s. s)\<rparr>
         (v\<lparr>v_events_list := Inl (ErrorObj ''Invalid authentication credentials'')\<rparr>)
         Calendar_listEvents (JObj [(''maxResults'', JNum 3), (''timeMin'', JStr ''2025-03-01T00:00:00Z''), (''timeMax'', JStr ''2025-03-08T00:00:00Z'')])
       = (Inr (Content
            ([CHR 0xF0, CHR 0x9F, CHR 0x93, CHR 0x85] @ '' **Mock Calendar Events**''
             @ [CHR 0x0A, CHR 0x0A]
             @ [CHR 0xE2, CHR 0x80, CHR 0xA2] @ '' **Content Review Meeting**'' @ [CHR 0x0A]
             @ ''  Start: T'' @ [CHR 0x0A]
             @ ''  End: T + 1h'' @ [CHR 0x0A]
             @ ''  Attendees: team@example.com'' @ [CHR 0x0A, CHR 0x0A]
             @ [CHR 0xE2, CHR 0x80, CHR 0xA2] @ '' **Publishing Deadline**'' @ [CHR 0x0A]
             @ ''  Start: T + 24h'' @ [CHR 0x0A]
             @ ''  End: T + 24h30m'' @ [CHR 0x0A]
             @ ''  Attendees: None'' @ [CHR 0x0A, CHR 0x0A]
             @ ''*Note: This is a mock response. In production, complete OAuth authentication to list real calendar events.*'')),
          [(events_list ''2025-03-01T00:00:00Z'' ''2025-03-08T00:00:00Z'' 3, False)])
     \<and> run (c\<lparr>calendarService := example_calendar (Some (example_credentials\<lparr>expiry_date := Some 500\<rparr>))\<rparr>) example_runtime
         (v\<lparr>v_refreshAccessToken := Inl (ErrorObj ''invalid_grant'')\<rparr>)
         Calendar_createEvent example_event_bag
       = (Inr (Content
            ([CHR 0xF0, CHR 0x9F, CHR 0x93, CHR 0x85] @ '' **Mock Calendar Event Created**''
             @ [CHR 0x0A, CHR 0x0A]
             @ ''**Event**: Deadline'' @ [CHR 0x0A, CHR 0x0A]
             @ ''**Start**: 2025-03-01T00:00:00Z'' @ [CHR 0x0A]
             @ ''**End**: 2025-03-01T01:00:00Z'' @ [CHR 0x0A, CHR 0x0A]
             @ ''**Description**: Content development deadline'' @ [CHR 0x0A, CHR 0x0A]
             @ ''**Attendees**: None'' @ [CHR 0x0A, CHR 0x0A]
             @ ''*Note: This is a mock response. In production, complete OAuth authentication to create real calendar events.*'')),
          [(refreshAccessToken, False)])
     \<and> run (c\<lparr>webSearchService := \<lparr>enabled = True\<rparr>\<rparr>) rt
         (v\<lparr>v_duckduckgo := (\<lambda>q. Inl OtherThrown)\<rparr>)
         Web_search (JObj [(''query'', JStr ''AI'')])
       = (Inr (Content
            ([CHR 0xF0, CHR 0x9F, CHR 0x94, CHR 0x8D] @ '' **Web Search Results for: '' @ [CHR 0x22]
             @ ''AI'' @ [CHR 0x22] @ ''** (Mock due to error)'' @ [CHR 0x0A, CHR 0x0A]
             @ ''1. **Sample Result 1**'' @ [CHR 0x0A]
             @ ''   URL: https://example.com'' @ [CHR 0x0A]
             @ ''   This is a sample search result for '' @ [CHR 0x22] @ ''AI'' @ [CHR 0x22]
             @ ''. The actual search encountered an error.'' @ [CHR 0x0A]
             @ ''   Type: search_result'' @ [CHR 0x0A, CHR 0x0A]
             @ ''2. **Sample Result 2**'' @ [CHR 0x0A]
             @ ''   URL: https://sample.org'' @ [CHR 0x0A]
             @ ''   Another sample result demonstrating the search functionality.'' @ [CHR 0x0A]
             @ ''   Type: search_result'')),
          [(axios_get ''https://api.duckduckgo.com/''
              [(''q'', ''AI''), (''format'', ''json''), (''no_html'', ''1''), (''skip_disambig'', ''1'')]
              10000, False)])"
proof (intro allI conjI)
  fix c :: connectors and rt :: runtime and v :: vendors
  note defs = validated_def parsed_bag_def zparse_def lookup_def str_field_def opt_field_def
    num_field_def Let_def or_empty_def forget_state_def
    authenticated_call_def ensureAuthenticated_def example_calendar_def example_credentials_def
    example_runtime_def truthy_def token_expired_def
  {
    let ?c = "c"
    let ?rt = "rt"
    let ?v = "v\<lparr>v_issues_create := Inl (ErrorObj ''API rate limit exceeded'')\<rparr>"
    let ?args = "JObj [(''title'', JStr ''Draft''), (''body'', JStr ''Outline'')]"
    have 1: "validated ?v GitHub_createIssue ?args"
      by (simp add: defs createIssue_shape_def)
    have l: "snd (run ?c ?rt ?v GitHub_createIssue ?args) = [(issues_create (gh_owner (githubService c)) (gh_repo (githubService c)) ''Draft'' ''Outline'' [''content''], False)]"
      by (simp add: defs createIssue_def createIssue_shape_def strs_field_def)
    have 2: "vendor_call_failed (snd (run ?c ?rt ?v GitHub_createIssue ?args))"
      unfolding l by (simp add: vendor_call_failed_def)
    have 3: "GitHub_createIssue \<in> rethrowing" by (simp add: rethrowing_def)
    from vendor_failure_rethrown_or_swallowed[OF 1 2, unfolded Let_def l, THEN conjunct1, THEN mp, OF 3]
    have "fst (run ?c ?rt ?v GitHub_createIssue ?args) = Inl (JsError ''Failed to create GitHub issue: API rate limit exceeded'')"
      by (auto simp: thrown_of_def)
    with l show "run ?c ?rt ?v GitHub_createIssue ?args = (Inl (JsError ''Failed to create GitHub issue: API rate limit exceeded''), [(issues_create (gh_owner (githubService c)) (gh_repo (githubService c)) ''Draft'' ''Outline'' [''content''], False)])"
      by (simp add: prod_eq_iff)
  }
  {
    let ?c = "c"
    let ?rt = "rt"
    let ?v = "v\<lparr>v_pages_update := Inr (), v_blocks_children_append := Inl OtherThrown\<rparr>"
    let ?args = "JObj [(''pageId'', JStr ''p1''), (''content'', JStr ''More'')]"
    have 1: "validated ?v Notion_updatePage ?args"
      by (simp add: defs updatePage_shape_def)
    have l: "snd (run ?c ?rt ?v Notion_updatePage ?args) = [(pages_update ''p1'' [], True), (blocks_children_append ''p1'' [Paragraph [''More'']], False)]"
      by (simp add: defs updatePage_def updatePage_shape_def updateData_def paragraph_block_def env_str_def)
    have 2: "vendor_call_failed (snd (run ?c ?rt ?v Notion_updatePage ?args))"
      unfolding l by (simp add: vendor_call_failed_def)
    have 3: "Notion_updatePage \<in> rethrowing" by (simp add: rethrowing_def)
    from vendor_failure_rethrown_or_swallowed[OF 1 2, unfolded Let_def l, THEN conjunct1, THEN mp, OF 3]
    have "fst (run ?c ?rt ?v Notion_updatePage ?args) = Inl (JsError ''Failed to update Notion page: Unknown error'')"
      by (auto simp: thrown_of_def)
    with l show "run ?c ?rt ?v Notion_updatePage ?args = (Inl (JsError ''Failed to update Notion page: Unknown error''), [(pages_update ''p1'' [], True), (blocks_children_append ''p1'' [Paragraph [''More'']], False)])"
      by (simp add: prod_eq_iff)
  }
  {
    let ?c = "c\<lparr>calendarService := example_calendar (Some (example_credentials\<lparr>expiry_date := Some 500\<rparr>))\<rparr>"
    let ?rt = "example_runtime"
    let ?v = "v\<lparr>v_refreshAccessToken := Inl (ErrorObj ''invalid_grant'')\<rparr>"
    let ?args = "JObj [(''eventId'', JStr ''ev1''), (''title'', JStr ''Moved'')]"
    have 1: "validated ?v Calendar_updateEvent ?args"
      by (simp add: defs updateEvent_shape_def)
    have l: "snd (run ?c ?rt ?v Calendar_updateEvent ?args) = [(refreshAccessToken, False)]"
      by (simp add: defs updateEvent_def updateEvent_shape_def)
    have 2: "vendor_call_failed (snd (run ?c ?rt ?v Calendar_updateEvent ?args))"
      unfolding l by (simp add: vendor_call_failed_def)
    have 3: "Calendar_updateEvent \<in> rethrowing" by (simp add: rethrowing_def)
    from vendor_failure_rethrown_or_swallowed[OF 1 2, unfolded Let_def l, THEN conjunct1, THEN mp, OF 3]
    have "fst (run ?c ?rt ?v Calendar_updateEvent ?args) = Inl (JsError ''Failed to update calendar event: Google Calendar token expired and could not be refreshed. Please re-authenticate.'')"
      by (auto simp: thrown_of_def)
    with l show "run ?c ?rt ?v Calendar_updateEvent ?args = (Inl (JsError ''Failed to update calendar event: Google Calendar token expired and could not be refreshed. Please re-authenticate.''), [(refreshAccessToken, False)])"
      by (simp add: prod_eq_iff)
  }
  {
    let ?c = "c\<lparr>calendarService := example_calendar (Some example_credentials)\<rparr>"
    let ?rt = "example_runtime"
    let ?v = "v\<lparr>v_events_delete := Inl (ErrorObj ''Not Found'')\<rparr>"
    let ?args = "JObj [(''eventId'', JStr ''ev1'')]"
    have 1: "validated ?v Calendar_deleteEvent ?args"
      by (simp add: defs deleteEvent_shape_def)
    have l: "snd (run ?c ?rt ?v Calendar_deleteEvent ?args) = [(events_delete ''ev1'', False)]"
      by (simp add: defs deleteEvent_def deleteEvent_shape_def)
    have 2: "vendor_call_failed (snd (run ?c ?rt ?v Calendar_deleteEvent ?args))"
      unfolding l by (simp add: vendor_call_failed_def)
    have 3: "Calendar_deleteEvent \<in> rethrowing" by (simp add: rethrowing_def)
    from vendor_failure_rethrown_or_swallowed[OF 1 2, unfolded Let_def l, THEN conjunct1, THEN mp, OF 3]
    have "fst (run ?c ?rt ?v Calendar_deleteEvent ?args) = Inl (JsError ''Failed to delete calendar event: Not Found'')"
      by (auto simp: thrown_of_def)
    with l show "run ?c ?rt ?v Calendar_deleteEvent ?args = (Inl (JsError ''Failed to delete calendar event: Not Found''), [(events_delete ''ev1'', False)])"
      by (simp add: prod_eq_iff)
  }
  {
    let ?c = "c\<lparr>calendarService := example_calendar (Some example_credentials)\<rparr>"
    let ?rt = "example_runtime"
    let ?v = "v\<lparr>v_events_list := Inl (ErrorObj ''Quota exceeded'')\<rparr>"
    let ?args = "JObj [(''maxResults'', JNum 3), (''timeMin'', JStr ''2025-03-01T00:00:00Z''), (''timeMax'', JStr ''2025-03-08T00:00:00Z'')]"
    have 1: "validated ?v Calendar_listEvents ?args"
      by (simp add: defs listEvents_shape_def)
    have l: "snd (run ?c ?rt ?v Calendar_listEvents ?args) = [(events_list ''2025-03-01T00:00:00Z'' ''2025-03-08T00:00:00Z'' 3, False)]"
      by (simp add: defs listEvents_def listEvents_shape_def mentions_authentication_def or_else_def env_str_def)
    have 2: "vendor_call_failed (snd (run ?c ?rt ?v Calendar_listEvents ?args))"
      unfolding l by (simp add: vendor_call_failed_def)
    from vendor_failure_rethrown_or_swallowed[OF 1 2, unfolded Let_def l, THEN conjunct2, THEN conjunct2, THEN conjunct2, THEN conjunct2, THEN mp, OF refl]
    have "fst (run ?c ?rt ?v Calendar_listEvents ?args) = Inl (JsError ''Failed to list calendar events: Quota exceeded'')"
      by (auto simp: thrown_of_def)
    with l show "run ?c ?rt ?v Calendar_listEvents ?args = (Inl (JsError ''Failed to list calendar events: Quota exceeded''), [(events_list ''2025-03-01T00:00:00Z'' ''2025-03-08T00:00:00Z'' 3, False)])"
      by (simp add: prod_eq_iff)
  }
  {
    let ?c = "c\<lparr>calendarService := example_calendar (Some example_credentials)\<rparr>"
    let ?rt = "\<lparr>rt_now = 1000, rt_toISOString = (\<lambda>ms. ''iso''),
            rt_toLocaleString =
              (\<lambda>ms. if ms = 1000 then ''T'' else if ms = 3601000 then ''T + 1h''
                    else if ms = 86401000 then ''T + 24h'' else if ms = 88201000 then ''T + 24h30m''
                    else ''other''),
            rt_strToLocaleString = (\<lambda>s. s), rt_strToLocaleDateString = (\<lambda>s. s)\<rparr>"
    let ?v = "v\<lparr>v_events_list := Inl (ErrorObj ''Invalid authentication credentials'')\<rparr>"
    let ?args = "JObj [(''maxResults'', JNum 3), (''timeMin'', JStr ''2025-03-01T00:00:00Z''), (''timeMax'', JStr ''2025-03-08T00:00:00Z'')]"
    have 1: "validated ?v Calendar_listEvents ?args"
      by (simp add: defs listEvents_shape_def)
    have l: "snd (run ?c ?rt ?v Calendar_listEvents ?args) = [(events_list ''2025-03-01T00:00:00Z'' ''2025-03-08T00:00:00Z'' 3, False)]"
      by (simp add: defs listEvents_def listEvents_shape_def mentions_authentication_def or_else_def env_str_def)
    have 2: "vendor_call_failed (snd (run ?c ?rt ?v Calendar_listEvents ?args))"
      unfolding l by (simp add: vendor_call_failed_def)
    from vendor_failure_rethrown_or_swallowed[OF 1 2, unfolded Let_def l, THEN conjunct2, THEN conjunct2, THEN conjunct2, THEN conjunct2, THEN mp, OF refl]
    have "fst (run ?c ?rt ?v Calendar_listEvents ?args) = Inr (Content
            ([CHR 0xF0, CHR 0x9F, CHR 0x93, CHR 0x85] @ '' **Mock Calendar Events**''
             @ [CHR 0x0A, CHR 0x0A]
             @ [CHR 0xE2, CHR 0x80, CHR 0xA2] @ '' **Content Review Meeting**'' @ [CHR 0x0A]
             @ ''  Start: T'' @ [CHR 0x0A]
             @ ''  End: T + 1h'' @ [CHR 0x0A]
             @ ''  Attendees: team@example.com'' @ [CHR 0x0A, CHR 0x0A]
             @ [CHR 0xE2, CHR 0x80, CHR 0xA2] @ '' **Publishing Deadline**'' @ [CHR 0x0A]
             @ ''  Start: T + 24h'' @ [CHR 0x0A]
             @ ''  End: T + 24h30m'' @ [CHR 0x0A]
             @ ''  Attendees: None'' @ [CHR 0x0A, CHR 0x0A]
             @ ''*Note: This is a mock response. In production, complete OAuth authentication to list real calendar events.*''))"
      by (auto simp: thrown_of_def mock_events_text_def NL_def e_calendar_def e_bullet_def)
    with l show "run ?c ?rt ?v Calendar_listEvents ?args = (Inr (Content
            ([CHR 0xF0, CHR 0x9F, CHR 0x93, CHR 0x85] @ '' **Mock Calendar Events**''
             @ [CHR 0x0A, CHR 0x0A]
             @ [CHR 0xE2, CHR 0x80, CHR 0xA2] @ '' **Content Review Meeting**'' @ [CHR 0x0A]
             @ ''  Start: T'' @ [CHR 0x0A]
             @ ''  End: T + 1h'' @ [CHR 0x0A]
             @ ''  Attendees: team@example.com'' @ [CHR 0x0A, CHR 0x0A]
             @ [CHR 0xE2, CHR 0x80, CHR 0xA2] @ '' **Publishing Deadline**'' @ [CHR 0x0A]
             @ ''  Start: T + 24h'' @ [CHR 0x0A]
             @ ''  End: T + 24h30m'' @ [CHR 0x0A]
             @ ''  Attendees: None'' @ [CHR 0x0A, CHR 0x0A]
             @ ''*Note: This is a mock response. In production, complete OAuth authentication to list real calendar events.*'')), [(events_list ''2025-03-01T00:00:00Z'' ''2025-03-08T00:00:00Z'' 3, False)])"
      by (simp add: prod_eq_iff)
  }
  {
    let ?c = "c\<lparr>calendarService := example_calendar (Some (example_credentials\<lparr>expiry_date := Some 500\<rparr>))\<rparr>"
    let ?rt = "example_runtime"
    let ?v = "v\<lparr>v_refreshAccessToken := Inl (ErrorObj ''invalid_grant'')\<rparr>"
    let ?args = "example_event_bag"
    have 1: "validated ?v Calendar_createEvent ?args"
      by (simp add: defs createEvent_shape_def example_event_bag_def)
    have l: "snd (run ?c ?rt ?v Calendar_createEvent ?args) = [(refreshAccessToken, False)]"
      by (simp add: defs createEvent_def createEvent_shape_def example_event_bag_def)
    have 2: "vendor_call_failed (snd (run ?c ?rt ?v Calendar_createEvent ?args))"
      unfolding l by (simp add: vendor_call_failed_def)
    from vendor_failure_rethrown_or_swallowed[OF 1 2, unfolded Let_def l, THEN conjunct2, THEN conjunct2,
        THEN conjunct1, THEN mp, OF refl]
    have "fst (run ?c ?rt ?v Calendar_createEvent ?args) = Inr (Content
            ([CHR 0xF0, CHR 0x9F, CHR 0x93, CHR 0x85] @ '' **Mock Calendar Event Created**''
             @ [CHR 0x0A, CHR 0x0A]
             @ ''**Event**: Deadline'' @ [CHR 0x0A, CHR 0x0A]
             @ ''**Start**: 2025-03-01T00:00:00Z'' @ [CHR 0x0A]
             @ ''**End**: 2025-03-01T01:00:00Z'' @ [CHR 0x0A, CHR 0x0A]
             @ ''**Description**: Content development deadline'' @ [CHR 0x0A, CHR 0x0A]
             @ ''**Attendees**: None'' @ [CHR 0x0A, CHR 0x0A]
             @ ''*Note: This is a mock response. In production, complete OAuth authentication to create real calendar events.*''))"
      by (auto simp: createEvent_shape_def example_event_bag_def zparse_def or_empty_def lookup_def
          str_field_def opt_field_def strs_field_def mock_event_text_def example_runtime_def
          or_else_def env_str_def NL_def e_calendar_def)
    with l show "run ?c ?rt ?v Calendar_createEvent ?args = (Inr (Content
            ([CHR 0xF0, CHR 0x9F, CHR 0x93, CHR 0x85] @ '' **Mock Calendar Event Created**''
             @ [CHR 0x0A, CHR 0x0A]
             @ ''**Event**: Deadline'' @ [CHR 0x0A, CHR 0x0A]
             @ ''**Start**: 2025-03-01T00:00:00Z'' @ [CHR 0x0A]
             @ ''**End**: 2025-03-01T01:00:00Z'' @ [CHR 0x0A, CHR 0x0A]
             @ ''**Description**: Content development deadline'' @ [CHR 0x0A, CHR 0x0A]
             @ ''**Attendees**: None'' @ [CHR 0x0A, CHR 0x0A]
             @ ''*Note: This is a mock response. In production, complete OAuth authentication to create real calendar events.*'')), [(refreshAccessToken, False)])"
      by (simp add: prod_eq_iff)
  }
  {
    let ?c = "c\<lparr>webSearchService := \<lparr>enabled = True\<rparr>\<rparr>"
    let ?rt = "rt"
    let ?v = "v\<lparr>v_duckduckgo := (\<lambda>q. Inl OtherThrown)\<rparr>"
    let ?args = "JObj [(''query'', JStr ''AI'')]"
    have 1: "validated ?v Web_search ?args"
      by (simp add: defs search_shape_def)
    have l: "snd (run ?c ?rt ?v Web_search ?args) = [(axios_get ''https://api.duckduckgo.com/''
              [(''q'', ''AI''), (''format'', ''json''), (''no_html'', ''1''), (''skip_disambig'', ''1'')]
              10000, False)]"
      by (simp add: defs search_def search_shape_def ddg_call_def)
    have 2: "vendor_call_failed (snd (run ?c ?rt ?v Web_search ?args))"
      unfolding l by (simp add: vendor_call_failed_def)
    from vendor_failure_rethrown_or_swallowed[OF 1 2, unfolded Let_def l, THEN conjunct2, THEN conjunct2, THEN conjunct2, THEN conjunct1, THEN mp, OF refl]
    have "fst (run ?c ?rt ?v Web_search ?args) = Inr (Content
            ([CHR 0xF0, CHR 0x9F, CHR 0x94, CHR 0x8D] @ '' **Web Search Results for: '' @ [CHR 0x22]
             @ ''AI'' @ [CHR 0x22] @ ''** (Mock due to error)'' @ [CHR 0x0A, CHR 0x0A]
             @ ''1. **Sample Result 1**'' @ [CHR 0x0A]
             @ ''   URL: https://example.com'' @ [CHR 0x0A]
             @ ''   This is a sample search result for '' @ [CHR 0x22] @ ''AI'' @ [CHR 0x22]
             @ ''. The actual search encountered an error.'' @ [CHR 0x0A]
             @ ''   Type: search_result'' @ [CHR 0x0A, CHR 0x0A]
             @ ''2. **Sample Result 2**'' @ [CHR 0x0A]
             @ ''   URL: https://sample.org'' @ [CHR 0x0A]
             @ ''   Another sample result demonstrating the search functionality.'' @ [CHR 0x0A]
             @ ''   Type: search_result''))"
      by (auto simp: search_shape_def zparse_def lookup_def str_field_def error_search_text_def NL_def DQ_def e_glass_def)
    with l show "run ?c ?rt ?v Web_search ?args = (Inr (Content
            ([CHR 0xF0, CHR 0x9F, CHR 0x94, CHR 0x8D] @ '' **Web Search Results for: '' @ [CHR 0x22]
             @ ''AI'' @ [CHR 0x22] @ ''** (Mock due to error)'' @ [CHR 0x0A, CHR 0x0A]
             @ ''1. **Sample Result 1**'' @ [CHR 0x0A]
             @ ''   URL: https://example.com'' @ [CHR 0x0A]
             @ ''   This is a sample search result for '' @ [CHR 0x22] @ ''AI'' @ [CHR 0x22]
             @ ''. The actual search encountered an error.'' @ [CHR 0x0A]
             @ ''   Type: search_result'' @ [CHR 0x0A, CHR 0x0A]
             @ ''2. **Sample Result 2**'' @ [CHR 0x0A]
             @ ''   URL: https://sample.org'' @ [CHR 0x0A]
             @ ''   Another sample result demonstrating the search functionality.'' @ [CHR 0x0A]
             @ ''   Type: search_result'')), [(axios_get ''https://api.duckduckgo.com/''
              [(''q'', ''AI''), (''format'', ''json''), (''no_html'', ''1''), (''skip_disambig'', ''1'')]
              10000, False)])"
      by (simp add: prod_eq_iff)
  }
qed

subsection \<open>Construction\<close>

lemma truthy_iff: "truthy x = (\<exists>s. x = Some s \<and> s \<noteq> [])"
  by (cases x) (auto simp: truthy_def)

lemma not_truthy_iff: "(\<not> truthy x) = (x = None \<or> x = Some [])"
  by (cases x) (auto simp: truthy_def)

text \<open>
  Claim C7. The constructor of the GitHub, the Notion and the calendar connector throws a
  configuration error when one of its required variables is absent, and constructs the
  connector, holding the configured values, when each of them is present; for the calendar
  connector this holds whatever the tokens file is. A variable is absent when it is unset
  or set to the empty string: the guards are \<open>!token || !owner || !repo\<close> and the like, and
  tell the two apart no more than the error messages (\<open>configuration missing\<close>) do.
\<close>

theorem constructors_fail_fast:
  "((\<exists>k \<in> {''GITHUB_TOKEN'', ''GITHUB_OWNER'', ''GITHUB_REPO''}. env k = None \<or> env k = Some [])
      \<longrightarrow> (\<exists>m. new_GitHubService env = Inl (JsError m)))
   \<and> ((\<forall>k \<in> {''GITHUB_TOKEN'', ''GITHUB_OWNER'', ''GITHUB_REPO''}. \<exists>s. env k = Some s \<and> s \<noteq> [])
      \<longrightarrow> new_GitHubService env =
            Inr \<lparr>gh_token = env_str (env ''GITHUB_TOKEN''), gh_owner = env_str (env ''GITHUB_OWNER''),
                 gh_repo = env_str (env ''GITHUB_REPO'')\<rparr>)
   \<and> ((\<exists>k \<in> {''NOTION_TOKEN'', ''NOTION_DATABASE_ID''}. env k = None \<or> env k = Some [])
      \<longrightarrow> (\<exists>m. new_NotionService env = Inl (JsError m)))
   \<and> ((\<forall>k \<in> {''NOTION_TOKEN'', ''NOTION_DATABASE_ID''}. \<exists>s. env k = Some s \<and> s \<noteq> [])
      \<longrightarrow> new_NotionService env =
            Inr \<lparr>n_token = env_str (env ''NOTION_TOKEN''),
                 n_databaseId = env_str (env ''NOTION_DATABASE_ID'')\<rparr>)
   \<and> ((\<exists>k \<in> {''GOOGLE_CLIENT_ID'', ''GOOGLE_CLIENT_SECRET'', ''GOOGLE_REDIRECT_URI''}.
          env k = None \<or> env k = Some [])
      \<longrightarrow> (\<exists>m. new_GoogleCalendarService env fs = Inl (JsError m)))
   \<and> ((\<forall>k \<in> {''GOOGLE_CLIENT_ID'', ''GOOGLE_CLIENT_SECRET'', ''GOOGLE_REDIRECT_URI''}.
          \<exists>s. env k = Some s \<and> s \<noteq> [])
      \<longrightarrow> (\<exists>tokens. new_GoogleCalendarService env fs =
            Inr \<lparr>gc_clientId = env_str (env ''GOOGLE_CLIENT_ID''),
                 gc_clientSecret = env_str (env ''GOOGLE_CLIENT_SECRET''),
                 gc_redirectUri = env_str (env ''GOOGLE_REDIRECT_URI''),
                 gc_credentials = tokens\<rparr>))"
proof (intro conjI impI)
  assume "\<exists>k \<in> {''GITHUB_TOKEN'', ''GITHUB_OWNER'', ''GITHUB_REPO''}. env k = None \<or> env k = Some []"
  then show "\<exists>m. new_GitHubService env = Inl (JsError m)"
    by (auto simp: new_GitHubService_def not_truthy_iff)
next
  assume "\<forall>k \<in> {''GITHUB_TOKEN'', ''GITHUB_OWNER'', ''GITHUB_REPO''}. \<exists>s. env k = Some s \<and> s \<noteq> []"
  then show "new_GitHubService env =
            Inr \<lparr>gh_token = env_str (env ''GITHUB_TOKEN''), gh_owner = env_str (env ''GITHUB_OWNER''),
                 gh_repo = env_str (env ''GITHUB_REPO'')\<rparr>"
    by (auto simp: new_GitHubService_def truthy_iff Let_def)
next
  assume "\<exists>k \<in> {''NOTION_TOKEN'', ''NOTION_DATABASE_ID''}. env k = None \<or> env k = Some []"
  then show "\<exists>m. new_NotionService env = Inl (JsError m)"
    by (auto simp: new_NotionService_def not_truthy_iff)
next
  assume "\<forall>k \<in> {''NOTION_TOKEN'', ''NOTION_DATABASE_ID''}. \<exists>s. env k = Some s \<and> s \<noteq> []"
  then show "new_NotionService env =
            Inr \<lparr>n_token = env_str (env ''NOTION_TOKEN''),
                 n_databaseId = env_str (env ''NOTION_DATABASE_ID'')\<rparr>"
    by (auto simp: new_NotionService_def truthy_iff Let_def)
next
  assume "\<exists>k \<in> {''GOOGLE_CLIENT_ID'', ''GOOGLE_CLIENT_SECRET'', ''GOOGLE_REDIRECT_URI''}.
          env k = None \<or> env k = Some []"
  then show "\<exists>m. new_GoogleCalendarService env fs = Inl (JsError m)"
    by (auto simp: new_GoogleCalendarService_def not_truthy_iff)
next
  assume "\<forall>k \<in> {''GOOGLE_CLIENT_ID'', ''GOOGLE_CLIENT_SECRET'', ''GOOGLE_REDIRECT_URI''}.
          \<exists>s. env k = Some s \<and> s \<noteq> []"
  then show "\<exists>tokens. new_GoogleCalendarService env fs =
            Inr \<lparr>gc_clientId = env_str (env ''GOOGLE_CLIENT_ID''),
                 gc_clientSecret = env_str (env ''GOOGLE_CLIENT_SECRET''),
                 gc_redirectUri = env_str (env ''GOOGLE_REDIRECT_URI''),
                 gc_credentials = tokens\<rparr>"
    by (auto simp: new_GoogleCalendarService_def truthy_iff Let_def)
qed

theorem constructors_fail_fast_witness:
  "(\<exists>m. new_GitHubService (map_of [(''GITHUB_TOKEN'', ''ghp_1''), (''GITHUB_REPO'', ''site'')])
       = Inl (JsError m))
   \<and> new_NotionService (map_of [(''NOTION_TOKEN'', ''secret_1''), (''NOTION_DATABASE_ID'', ''db1'')])
       = Inr \<lparr>n_token = ''secret_1'', n_databaseId = ''db1''\<rparr>
   \<and> (\<exists>tokens. new_GoogleCalendarService
         (map_of [(''GOOGLE_CLIENT_ID'', ''id''), (''GOOGLE_CLIENT_SECRET'', ''s''),
                  (''GOOGLE_REDIRECT_URI'', ''http://localhost:3000/auth/google/callback'')])
         \<lparr>primaryPath = NoFile, fallbackPath = NoFile\<rparr>
       = Inr \<lparr>gc_clientId = ''id'', gc_clientSecret = ''s'',
              gc_redirectUri = ''http://localhost:3000/auth/google/callback'',
              gc_credentials = tokens\<rparr>)"
proof -
  let ?e1 = "map_of [(''GITHUB_TOKEN'', ''ghp_1''), (''GITHUB_REPO'', ''site'')]"
  let ?e2 = "map_of [(''NOTION_TOKEN'', ''secret_1''), (''NOTION_DATABASE_ID'', ''db1'')]"
  let ?e3 = "map_of [(''GOOGLE_CLIENT_ID'', ''id''), (''GOOGLE_CLIENT_SECRET'', ''s''),
                  (''GOOGLE_REDIRECT_URI'', ''http://localhost:3000/auth/google/callback'')]"
  have 1: "\<exists>k \<in> {''GITHUB_TOKEN'', ''GITHUB_OWNER'', ''GITHUB_REPO''}. ?e1 k = None \<or> ?e1 k = Some []"
    by simp
  have 2: "\<forall>k \<in> {''NOTION_TOKEN'', ''NOTION_DATABASE_ID''}. \<exists>s. ?e2 k = Some s \<and> s \<noteq> []"
    by simp
  have 3: "\<forall>k \<in> {''GOOGLE_CLIENT_ID'', ''GOOGLE_CLIENT_SECRET'', ''GOOGLE_REDIRECT_URI''}.
          \<exists>s. ?e3 k = Some s \<and> s \<noteq> []"
    by simp
  note a = constructors_fail_fast[of ?e1, THEN conjunct1, THEN mp, OF 1]
  note b = constructors_fail_fast[of ?e2, THEN conjunct2, THEN conjunct2, THEN conjunct2,
      THEN conjunct1, THEN mp, OF 2]
  note c = constructors_fail_fast[of ?e3 "\<lparr>primaryPath = NoFile, fallbackPath = NoFile\<rparr>",
      THEN conjunct2, THEN conjunct2, THEN conjunct2, THEN conjunct2, THEN conjunct2, THEN mp, OF 3]
  from a b c show ?thesis by (simp add: env_str_def)
qed

text \<open>
  The empty string on its own: all three GitHub variables are set, \<open>GITHUB_TOKEN\<close> to the
  empty string, and the constructor throws its \<open>configuration missing\<close> error.
\<close>

lemma empty_token_is_missing_configuration:
  "new_GitHubService
        (map_of [(''GITHUB_TOKEN'', []), (''GITHUB_OWNER'', ''octo''), (''GITHUB_REPO'', ''site'')])
      = Inl (JsError ''GitHub configuration missing. Please set GITHUB_TOKEN, GITHUB_OWNER, and GITHUB_REPO environment variables.'')"
  by (simp add: new_GitHubService_def truthy_def)

subsection \<open>The calendar connector's credentials\<close>

lemma authenticated_call_refreshes:
  assumes "gc_credentials svc = Some tokens" and "truthy (access_token tokens)"
    and "token_expired tokens now" and "vr = Inr fresh"
  shows "authenticated_call svc now vr call vendor =
           (vendor, svc\<lparr>gc_credentials := Some fresh\<rparr>,
            [(refreshAccessToken, True), (call, answered vendor)])"
  using assms by (simp add: authenticated_call_def ensureAuthenticated_def)

lemma authenticated_call_without_token:
  assumes "gc_credentials svc = None
           \<or> (\<exists>tokens. gc_credentials svc = Some tokens \<and> \<not> truthy (access_token tokens))"
  shows "authenticated_call svc now vr call vendor = (Inl (ErrorObj auth_required_message), svc, [])"
  using assms by (auto simp: authenticated_call_def ensureAuthenticated_def)

lemma auth_required_names_bootstrap:
  "str_includes auth_required_message ''npm run oauth-setup''"
  by (simp add: auth_required_message_def)

text \<open>An expiry of 0 is never taken for expired: no refresh, whatever the clock says.\<close>

lemma zero_expiry_triggers_no_refresh:
  "snd (snd (deleteEvent (example_calendar (Some (example_credentials\<lparr>expiry_date := Some 0\<rparr>)))
               example_runtime (Inr example_credentials) (Inr ())
               (JObj [(''eventId'', JStr ''ev1'')])))
     = [(events_delete ''ev1'', True)]"
  by (simp add: deleteEvent_def zparse_def deleteEvent_shape_def lookup_def str_field_def
      authenticated_call_def ensureAuthenticated_def example_calendar_def example_credentials_def
      example_runtime_def truthy_def token_expired_def Let_def)

text \<open>
  Claim C6, as amended. For each of the four calendar operations and every validated input:
  a call made while the loaded credentials hold an access token and a non-zero
  \<open>expiry_date\<close> not later than the current time, with the refresh answering, logs
  exactly one refresh call, answered, and after it exactly one call to the calendar API,
  and stores the refreshed credentials. A call made with no loaded access token issues no
  call at all (neither refresh nor calendar API); \<open>updateEvent\<close> and \<open>deleteEvent\<close> then
  throw their failure text followed by the authentication-required message, which names
  the bootstrap step \<open>npm run oauth-setup\<close>, while \<open>createEvent\<close> returns its mock event
  and \<open>listEvents\<close> its mock list as normal results.
\<close>

theorem calendar_refresh_and_missing_token:
  assumes "zparse (calendar_shape opn) (calendar_bag opn args) = Inr p"
  shows "(gc_credentials svc = Some tokens \<and> truthy (access_token tokens)
            \<and> expiry_date tokens = Some d \<and> d \<noteq> 0 \<and> d \<le> rt_now rt
            \<and> v_refreshAccessToken v = Inr fresh
          \<longrightarrow> (\<exists>call ok. snd (snd (calendar_call svc rt v opn args))
                              = [(refreshAccessToken, True), (call, ok)]
                 \<and> is_calendar_api_call call
                 \<and> gc_credentials (fst (snd (calendar_call svc rt v opn args))) = Some fresh))
       \<and> (gc_credentials svc = None
            \<or> (\<exists>loaded. gc_credentials svc = Some loaded \<and> \<not> truthy (access_token loaded))
          \<longrightarrow> snd (snd (calendar_call svc rt v opn args)) = []
              \<and> (opn \<in> {UpdateEvent, DeleteEvent} \<longrightarrow>
                   fst (calendar_call svc rt v opn args)
                     = Inl (wrapped (calendar_failure_text opn) (ErrorObj auth_required_message)))
              \<and> (opn = CreateEvent \<longrightarrow>
                   fst (calendar_call svc rt v opn args)
                     = Inr (Content (mock_event_text rt (str_field p ''title'')
                          (str_field p ''startTime'') (str_field p ''endTime'')
                          (opt_field p ''description'') (strs_field p ''attendees''))))
              \<and> (opn = ListEvents \<longrightarrow>
                   fst (calendar_call svc rt v opn args) = Inr (Content (mock_events_text rt))))
       \<and> str_includes auth_required_message ''npm run oauth-setup''"
proof (intro conjI impI)
  assume a: "gc_credentials svc = Some tokens \<and> truthy (access_token tokens)
            \<and> expiry_date tokens = Some d \<and> d \<noteq> 0 \<and> d \<le> rt_now rt
            \<and> v_refreshAccessToken v = Inr fresh"
  then have e: "token_expired tokens (rt_now rt)" by (simp add: token_expired_def)
  from a have c: "gc_credentials svc = Some tokens" "truthy (access_token tokens)" by simp_all
  note r = authenticated_call_refreshes[OF c e refl, of fresh]
  show "\<exists>call ok. snd (snd (calendar_call svc rt v opn args))
                              = [(refreshAccessToken, True), (call, ok)]
                 \<and> is_calendar_api_call call
                 \<and> gc_credentials (fst (snd (calendar_call svc rt v opn args))) = Some fresh"
    using assms a
    by (cases opn)
       (auto simp: createEvent_def listEvents_def updateEvent_def deleteEvent_def r Let_def
          split: sum.splits)
next
  assume n: "gc_credentials svc = None
            \<or> (\<exists>loaded. gc_credentials svc = Some loaded \<and> \<not> truthy (access_token loaded))"
  note w = authenticated_call_without_token[OF n]
  show "snd (snd (calendar_call svc rt v opn args)) = []"
    using assms
    by (cases opn)
       (simp_all add: createEvent_def listEvents_def updateEvent_def deleteEvent_def w Let_def
          auth_required_is_authentication)
  show "fst (calendar_call svc rt v opn args)
          = Inl (wrapped (calendar_failure_text opn) (ErrorObj auth_required_message))"
    if "opn \<in> {UpdateEvent, DeleteEvent}"
    using assms that by (auto simp: updateEvent_def deleteEvent_def w Let_def)
  show "fst (calendar_call svc rt v opn args)
          = Inr (Content (mock_event_text rt (str_field p ''title'')
                          (str_field p ''startTime'') (str_field p ''endTime'')
                          (opt_field p ''description'') (strs_field p ''attendees'')))"
    if "opn = CreateEvent"
    using assms that by (simp add: createEvent_def w Let_def)
  show "fst (calendar_call svc rt v opn args) = Inr (Content (mock_events_text rt))"
    if "opn = ListEvents"
    using assms that
    by (simp add: listEvents_def w Let_def auth_required_is_authentication)
next
  show "str_includes auth_required_message ''npm run oauth-setup''"
    by (rule auth_required_names_bootstrap)
qed

text \<open>
  Claim C6 as stated fails in its second half: with no access token loaded,
  \<open>createEvent\<close> does not fail; it returns the mock event, with no call issued.
\<close>

theorem createEvent_without_token_returns_mock:
  "createEvent (example_calendar (Some no_credentials)) example_runtime (Inl OtherThrown)
       (Inl OtherThrown) example_event_bag
     = (Inr (Content (mock_event_text example_runtime ''Deadline'' ''2025-03-01T00:00:00Z''
                        ''2025-03-01T01:00:00Z'' None [])),
        example_calendar (Some no_credentials), [])"
  by (simp add: createEvent_def example_event_bag_def or_empty_def zparse_def createEvent_shape_def
      lookup_def str_field_def opt_field_def strs_field_def authenticated_call_def
      ensureAuthenticated_def example_calendar_def no_credentials_def example_runtime_def
      truthy_def Let_def)


theorem calendar_refresh_and_missing_token_witness:
  "\<forall>v.
     (\<exists>call ok.
        snd (snd (calendar_call (example_calendar (Some (example_credentials\<lparr>expiry_date := Some 500\<rparr>)))
                    example_runtime (v\<lparr>v_refreshAccessToken := Inr example_credentials\<rparr>)
                    DeleteEvent (JObj [(''eventId'', JStr ''ev1'')])))
          = [(refreshAccessToken, True), (call, ok)]
        \<and> is_calendar_api_call call
        \<and> gc_credentials
             (fst (snd (calendar_call (example_calendar (Some (example_credentials\<lparr>expiry_date := Some 500\<rparr>)))
                          example_runtime (v\<lparr>v_refreshAccessToken := Inr example_credentials\<rparr>)
                          DeleteEvent (JObj [(''eventId'', JStr ''ev1'')]))))
            = Some example_credentials)
     \<and> snd (snd (calendar_call (example_calendar None) example_runtime v UpdateEvent
                    (JObj [(''eventId'', JStr ''ev1'')]))) = []
     \<and> fst (calendar_call (example_calendar None) example_runtime v UpdateEvent
               (JObj [(''eventId'', JStr ''ev1'')]))
         = Inl (wrapped (calendar_failure_text UpdateEvent) (ErrorObj auth_required_message))"
proof (intro allI conjI)
  fix v :: vendors
  let ?svc = "example_calendar (Some (example_credentials\<lparr>expiry_date := Some 500\<rparr>))"
  let ?v = "v\<lparr>v_refreshAccessToken := Inr example_credentials\<rparr>"
  let ?bag = "JObj [(''eventId'', JStr ''ev1'')]"
  have z1: "zparse (calendar_shape DeleteEvent) (calendar_bag DeleteEvent ?bag)
              = Inr [(''eventId'', JStr ''ev1'')]"
    by (simp add: zparse_def deleteEvent_shape_def lookup_def)
  have h1: "gc_credentials ?svc = Some (example_credentials\<lparr>expiry_date := Some 500\<rparr>)
            \<and> truthy (access_token (example_credentials\<lparr>expiry_date := Some 500\<rparr>))
            \<and> expiry_date (example_credentials\<lparr>expiry_date := Some 500\<rparr>) = Some 500
            \<and> (500::int) \<noteq> 0 \<and> 500 \<le> rt_now example_runtime
            \<and> v_refreshAccessToken ?v = Inr example_credentials"
    by (simp add: example_calendar_def example_credentials_def example_runtime_def truthy_def)
  from calendar_refresh_and_missing_token[OF z1, THEN conjunct1, THEN mp, OF h1]
  show "\<exists>call ok.
        snd (snd (calendar_call ?svc example_runtime ?v DeleteEvent ?bag))
          = [(refreshAccessToken, True), (call, ok)]
        \<and> is_calendar_api_call call
        \<and> gc_credentials (fst (snd (calendar_call ?svc example_runtime ?v DeleteEvent ?bag)))
            = Some example_credentials" .
  have z2: "zparse (calendar_shape UpdateEvent) (calendar_bag UpdateEvent ?bag)
              = Inr [(''eventId'', JStr ''ev1''), (''title'', JUndefined),
                     (''description'', JUndefined), (''startTime'', JUndefined),
                     (''endTime'', JUndefined)]"
    by (simp add: zparse_def updateEvent_shape_def lookup_def)
  have h2: "gc_credentials (example_calendar None) = None
            \<or> (\<exists>loaded. gc_credentials (example_calendar None) = Some loaded
                 \<and> \<not> truthy (access_token loaded))"
    by (simp add: example_calendar_def)
  note m = calendar_refresh_and_missing_token[OF z2, THEN conjunct2, THEN conjunct1, THEN mp, OF h2,
      of example_runtime v]
  from m show "snd (snd (calendar_call (example_calendar None) example_runtime v UpdateEvent ?bag)) = []"
    by (rule conjunct1)
  from m show "fst (calendar_call (example_calendar None) example_runtime v UpdateEvent ?bag)
         = Inl (wrapped (calendar_failure_text UpdateEvent) (ErrorObj auth_required_message))"
    by simp
qed

subsection \<open>The two modes of the research connector\<close>









subsection \<open>The frame of updatePage\<close>

lemma zparse_updatePage:
  assumes "zparse updatePage_shape (JObj kvs) = Inr p"
  shows "p = [(''pageId'', lookup kvs ''pageId''), (''title'', lookup kvs ''title''),
              (''content'', lookup kvs ''content''), (''status'', lookup kvs ''status'')]"
  using assms
  by (auto simp: zparse_def updatePage_shape_def split: option.splits if_splits sum.splits list.splits)

lemma zparse_object: "zparse shape args = Inr p \<Longrightarrow> \<exists>kvs. args = JObj kvs"
  by (cases args) (auto simp: zparse_def)

lemma map_of_updateData_other:
  "k \<noteq> ''Title'' \<Longrightarrow> k \<noteq> ''Status'' \<Longrightarrow> map_of (updateData a b) k = None"
  by (simp add: updateData_def)

lemma updatePage_fields:
  assumes "zparse updatePage_shape (JObj kvs) = Inr p"
  shows "str_field p ''pageId'' = str_field kvs ''pageId''"
    and "opt_field p ''title'' = opt_field kvs ''title''"
    and "opt_field p ''content'' = opt_field kvs ''content''"
    and "opt_field p ''status'' = opt_field kvs ''status''"
  unfolding zparse_updatePage[OF assms]
  by (simp_all add: str_field_def opt_field_def lookup_def)

text \<open>
  Claim C10. For every validated input to \<open>updatePage\<close>, whatever the vendor does, the
  existing content blocks of the page are never deleted or replaced: the page's blocks
  after the call are its blocks before it, followed by the one new paragraph block holding
  the supplied content when the content is non-empty and both calls were answered, and
  by nothing otherwise. No property other than \<open>Title\<close> and \<open>Status\<close> is changed, and no
  other page is. When no title, no status and no content is supplied (or they are empty),
  the page is left exactly as it was, and the call returns a success result as soon as
  the page update itself is answered.
\<close>

theorem updatePage_only_appends:
  assumes "zparse updatePage_shape (JObj kvs) = Inr p"
  shows "page_blocks (page_after (str_field kvs ''pageId'') page (snd (updatePage svc vu va (JObj kvs))))
           = page_blocks page
             @ (if truthy (opt_field kvs ''content'') \<and> answered vu \<and> answered va
                then [paragraph_block (env_str (opt_field kvs ''content''))] else [])
       \<and> (\<forall>k. k \<noteq> ''Title'' \<and> k \<noteq> ''Status'' \<longrightarrow>
             page_properties (page_after (str_field kvs ''pageId'') page
                                (snd (updatePage svc vu va (JObj kvs)))) k
               = page_properties page k)
       \<and> (\<forall>other. other \<noteq> str_field kvs ''pageId'' \<longrightarrow>
             page_after other page (snd (updatePage svc vu va (JObj kvs))) = page)
       \<and> (\<not> truthy (opt_field kvs ''title'') \<and> \<not> truthy (opt_field kvs ''status'')
            \<and> \<not> truthy (opt_field kvs ''content'') \<longrightarrow>
             page_after (str_field kvs ''pageId'') page (snd (updatePage svc vu va (JObj kvs))) = page
             \<and> (answered vu \<longrightarrow> (\<exists>t. fst (updatePage svc vu va (JObj kvs)) = Inr (Content t))))"
  unfolding updatePage_fields[OF assms, symmetric]
  using assms
  by (cases vu; cases va)
     (auto simp: updatePage_def page_after_def Let_def map_add_def map_of_updateData_other
        updateData_def split: option.splits)

theorem updatePage_only_appends_witness:
  "page_blocks (page_after ''p1'' \<lparr>page_properties = Map.empty, page_blocks = [Paragraph [''Intro'']]\<rparr>
       (snd (updatePage \<lparr>n_token = ''secret_1'', n_databaseId = ''db1''\<rparr> (Inr ()) (Inr ())
               (JObj [(''pageId'', JStr ''p1''), (''content'', JStr ''More'')]))))
     = [Paragraph [''Intro''], Paragraph [''More'']]
   \<and> page_after ''p1'' \<lparr>page_properties = Map.empty, page_blocks = [Paragraph [''Intro'']]\<rparr>
       (snd (updatePage \<lparr>n_token = ''secret_1'', n_databaseId = ''db1''\<rparr> (Inr ()) (Inr ()) (JObj [(''pageId'', JStr ''p1'')])))
     = \<lparr>page_properties = Map.empty, page_blocks = [Paragraph [''Intro'']]\<rparr>"
proof -
  let ?page = "\<lparr>page_properties = Map.empty, page_blocks = [Paragraph [''Intro'']]\<rparr>"
  let ?k1 = "[(''pageId'', JStr ''p1''), (''content'', JStr ''More'')]"
  let ?k2 = "[(''pageId'', JStr ''p1'')]"
  have z1: "zparse updatePage_shape (JObj ?k1)
      = Inr [(''pageId'', JStr ''p1''), (''title'', JUndefined), (''content'', JStr ''More''),
             (''status'', JUndefined)]"
    by (simp add: zparse_def updatePage_shape_def lookup_def)
  have z2: "zparse updatePage_shape (JObj ?k2)
      = Inr [(''pageId'', JStr ''p1''), (''title'', JUndefined), (''content'', JUndefined),
             (''status'', JUndefined)]"
    by (simp add: zparse_def updatePage_shape_def lookup_def)
  have f1: "str_field ?k1 ''pageId'' = ''p1''" "opt_field ?k1 ''content'' = Some ''More''"
    by (simp_all add: str_field_def opt_field_def lookup_def)
  have f2: "str_field ?k2 ''pageId'' = ''p1''"
    "\<not> truthy (opt_field ?k2 ''title'') \<and> \<not> truthy (opt_field ?k2 ''status'')
       \<and> \<not> truthy (opt_field ?k2 ''content'')"
    by (simp_all add: str_field_def opt_field_def lookup_def truthy_def)
  from updatePage_only_appends[OF z1, of ?page "\<lparr>n_token = ''secret_1'', n_databaseId = ''db1''\<rparr>" "Inr ()" "Inr ()", THEN conjunct1]
  have a: "page_blocks (page_after ''p1'' ?page (snd (updatePage \<lparr>n_token = ''secret_1'', n_databaseId = ''db1''\<rparr> (Inr ()) (Inr ()) (JObj ?k1))))
     = [Paragraph [''Intro''], Paragraph [''More'']]"
    by (simp add: f1 truthy_def env_str_def paragraph_block_def)
  from updatePage_only_appends[OF z2, of ?page "\<lparr>n_token = ''secret_1'', n_databaseId = ''db1''\<rparr>" "Inr ()" "Inr ()", THEN conjunct2, THEN conjunct2,
      THEN conjunct2, THEN mp, OF f2(2), THEN conjunct1]
  have b: "page_after ''p1'' ?page (snd (updatePage \<lparr>n_token = ''secret_1'', n_databaseId = ''db1''\<rparr> (Inr ()) (Inr ()) (JObj ?k2))) = ?page"
    by (simp add: f2(1))
  from a b show ?thesis by (rule conjI)
qed

subsection \<open>Concurrent calendar operations\<close>

lemma filter_update_same:
  "i < length xs \<Longrightarrow> P y = P (xs ! i) \<Longrightarrow> length (filter P (xs[i := y])) = length (filter P xs)"
proof -
  assume i: "i < length xs" and p: "P y = P (xs ! i)"
  have "xs[i := y] = take i xs @ y # drop (Suc i) xs" using i by (rule upd_conv_take_nth_drop)
  moreover have "xs = take i xs @ xs ! i # drop (Suc i) xs" using i by (rule id_take_nth_drop)
  ultimately have "length (filter P (xs[i := y])) = length (filter P (take i xs @ y # drop (Suc i) xs))"
    and "length (filter P xs) = length (filter P (take i xs @ xs ! i # drop (Suc i) xs))"
    by simp_all
  with p show ?thesis by simp
qed

lemma filter_update_gain:
  "i < length xs \<Longrightarrow> P y \<Longrightarrow> \<not> P (xs ! i) \<Longrightarrow>
     length (filter P (xs[i := y])) = Suc (length (filter P xs))"
proof -
  assume i: "i < length xs" and p: "P y" "\<not> P (xs ! i)"
  have "xs[i := y] = take i xs @ y # drop (Suc i) xs" using i by (rule upd_conv_take_nth_drop)
  moreover have "xs = take i xs @ xs ! i # drop (Suc i) xs" using i by (rule id_take_nth_drop)
  ultimately have "length (filter P (xs[i := y])) = length (filter P (take i xs @ y # drop (Suc i) xs))"
    and "length (filter P xs) = length (filter P (take i xs @ xs ! i # drop (Suc i) xs))"
    by simp_all
  with p show ?thesis by simp
qed

lemma api_call_not_refresh: "is_calendar_api_call c \<Longrightarrow> c \<noteq> refreshAccessToken"
  by auto

lemma list_all_update: "list_all Q xs \<Longrightarrow> Q y \<Longrightarrow> list_all Q (xs[i := y])"
  using set_update_subset_insert[of xs i y] by (auto simp: list_all_iff)

lemma well_formed_segment:
  assumes "list_all well_formed (invocations w)"
  shows "list_all well_formed (invocations (segment now vr w i))"
proof (cases "length (invocations w) \<le> i")
  case True
  then show ?thesis using assms by (simp add: segment_def)
next
  case False
  then have "invocations w ! i \<in> set (invocations w)" by simp
  with assms have t: "well_formed (invocations w ! i)" by (simp add: list_all_iff)
  then have u: "well_formed ((invocations w ! i)\<lparr>inv_phase := Returned\<rparr>)"
    "well_formed ((invocations w ! i)\<lparr>inv_phase := AwaitingApi\<rparr>)"
    "well_formed ((invocations w ! i)\<lparr>inv_phase := AwaitingRefresh, saw_expired := True\<rparr>)"
    by (simp_all add: well_formed_def)
  show ?thesis
    using False assms u
    by (simp add: segment_def Let_def list_all_update split: phase.splits option.splits sum.splits)
qed

lemma counted_segment:
  assumes "list_all well_formed (invocations w)" and "refresh_calls w = observers w"
  shows "refresh_calls (segment now vr w i) = observers (segment now vr w i)"
proof (cases "length (invocations w) \<le> i")
  case True
  then show ?thesis using assms by (simp add: segment_def)
next
  case False
  then have i: "i < length (invocations w)" by simp
  let ?t = "invocations w ! i"
  from i assms(1) have wf: "well_formed ?t" by (simp add: list_all_iff)
  then have nr: "api_call ?t \<noteq> refreshAccessToken"
    by (simp add: well_formed_def api_call_not_refresh)
  from assms(2) have cnt: "length (filter (\<lambda>entry. snd entry = refreshAccessToken) (issued w))
      = length (filter saw_expired (invocations w))"
    by (simp add: refresh_calls_def observers_def)
  show ?thesis
  proof (cases "inv_phase ?t")
    case NotStarted
    with wf have nse: "\<not> saw_expired ?t" by (simp add: well_formed_def)
    have same: "\<And>ph. length (filter saw_expired ((invocations w)[i := ?t\<lparr>inv_phase := ph\<rparr>]))
        = length (filter saw_expired (invocations w))"
      using i by (simp add: filter_update_same)
    have gain: "length (filter saw_expired
          ((invocations w)[i := ?t\<lparr>inv_phase := AwaitingRefresh, saw_expired := True\<rparr>]))
        = Suc (length (filter saw_expired (invocations w)))"
      using i nse by (simp add: filter_update_gain)
    show ?thesis
      using i NotStarted nr cnt same gain
      by (simp add: segment_def Let_def refresh_calls_def observers_def split: option.splits)
  next
    case AwaitingRefresh
    have same: "\<And>ph. length (filter saw_expired ((invocations w)[i := ?t\<lparr>inv_phase := ph\<rparr>]))
        = length (filter saw_expired (invocations w))"
      using i by (simp add: filter_update_same)
    show ?thesis
      using i AwaitingRefresh nr cnt same
      by (simp add: segment_def Let_def refresh_calls_def observers_def split: sum.splits)
  next
    case AwaitingApi
    have same: "\<And>ph. length (filter saw_expired ((invocations w)[i := ?t\<lparr>inv_phase := ph\<rparr>]))
        = length (filter saw_expired (invocations w))"
      using i by (simp add: filter_update_same)
    show ?thesis
      using i AwaitingApi nr cnt same
      by (simp add: segment_def Let_def refresh_calls_def observers_def)
  next
    case Returned
    then show ?thesis using i assms by (simp add: segment_def Let_def refresh_calls_def observers_def)
  qed
qed

lemma counted_foldl:
  "list_all well_formed (invocations w) \<Longrightarrow> refresh_calls w = observers w \<Longrightarrow>
     refresh_calls (foldl (segment now vr) w schedule) = observers (foldl (segment now vr) w schedule)"
  by (induction schedule arbitrary: w) (simp_all add: well_formed_segment counted_segment)

lemma begun_well_formed:
  "list_all is_calendar_api_call calls \<Longrightarrow> list_all well_formed (invocations (begun tokens calls))"
  by (simp add: begun_def list_all_iff well_formed_def)

lemma begun_counted: "refresh_calls (begun tokens calls) = observers (begun tokens calls)"
  by (simp add: begun_def refresh_calls_def observers_def filter_empty_conv)

lemma length_invocations_segment: "length (invocations (segment now vr w i)) = length (invocations w)"
  by (auto simp: segment_def Let_def split: phase.splits option.splits sum.splits)

lemma length_invocations_foldl:
  "length (invocations (foldl (segment now vr) w schedule)) = length (invocations w)"
  by (induction schedule arbitrary: w) (simp_all add: length_invocations_segment)


text \<open>An invocation running alone issues the calls of the sequential model, in the same order.\<close>

lemma alone_as_sequential:
  "map snd (issued (interleave now vr (gc_credentials svc) [call] [0, 0, 0]))
     = map fst (snd (snd (authenticated_call svc now vr call vendor)))"
  by (auto simp: interleave_def begun_def segment_def Let_def authenticated_call_def
      ensureAuthenticated_def split: option.splits sum.splits)

text \<open>
  Claim C5, as amended. The connector has no critical section around the token refresh:
  under every schedule of any number of calendar operations in flight together, the
  number of refresh calls issued is the number of operations that observed the token
  expired, each issuing its own. In particular, when two concurrent operations have both
  observed it, two refresh calls have been issued; the second caller does not wait for
  the refresh in flight.
\<close>

theorem every_observer_issues_its_own_refresh:
  assumes "list_all is_calendar_api_call calls"
  shows "refresh_calls (interleave now vr tokens calls schedule)
           = observers (interleave now vr tokens calls schedule)
       \<and> (length calls = 2
            \<and> list_all saw_expired (invocations (interleave now vr tokens calls schedule))
          \<longrightarrow> refresh_calls (interleave now vr tokens calls schedule) = 2)"
proof -
  let ?w = "interleave now vr tokens calls schedule"
  have c: "refresh_calls ?w = observers ?w"
    unfolding interleave_def
    by (rule counted_foldl[OF begun_well_formed[OF assms] begun_counted])
  have l: "length (invocations ?w) = length calls"
    by (simp add: interleave_def length_invocations_foldl begun_def)
  have "observers ?w = 2" if "length calls = 2" "list_all saw_expired (invocations ?w)"
  proof -
    from that(2) have "filter saw_expired (invocations ?w) = invocations ?w"
      by (simp add: list_all_iff)
    with l that(1) show ?thesis by (simp add: observers_def)
  qed
  with c show ?thesis by simp
qed

text \<open>
  Claim C5 as stated fails: two operations start one after the other while the token is
  expired, the second before the first one's refresh has answered. Both observe the
  expired token, and the connector issues two refresh calls.
\<close>

theorem two_calls_two_refreshes:
  "issued (interleave 1000 (Inr example_credentials)
             (Some (example_credentials\<lparr>expiry_date := Some 500\<rparr>))
             [events_delete ''ev1'', events_delete ''ev2''] [0, 1])
     = [(0, refreshAccessToken), (1, refreshAccessToken)]
   \<and> map saw_expired
       (invocations (interleave 1000 (Inr example_credentials)
                       (Some (example_credentials\<lparr>expiry_date := Some 500\<rparr>))
                       [events_delete ''ev1'', events_delete ''ev2''] [0, 1]))
     = [True, True]
   \<and> refresh_calls (interleave 1000 (Inr example_credentials)
                      (Some (example_credentials\<lparr>expiry_date := Some 500\<rparr>))
                      [events_delete ''ev1'', events_delete ''ev2''] [0, 1]) = 2"
  by (simp add: interleave_def begun_def segment_def Let_def example_credentials_def truthy_def
      token_expired_def refresh_calls_def)

theorem every_observer_issues_its_own_refresh_witness:
  "refresh_calls (interleave 1000 (Inr example_credentials)
                    (Some (example_credentials\<lparr>expiry_date := Some 500\<rparr>))
                    [events_delete ''ev1'', events_delete ''ev2''] [0, 1, 0, 1, 0, 1]) = 2"
proof -
  let ?w = "interleave 1000 (Inr example_credentials)
                    (Some (example_credentials\<lparr>expiry_date := Some 500\<rparr>))
                    [events_delete ''ev1'', events_delete ''ev2''] [0, 1, 0, 1, 0, 1]"
  have 1: "list_all is_calendar_api_call [events_delete ''ev1'', events_delete ''ev2'']" by simp
  have 2: "length [events_delete ''ev1'', events_delete ''ev2''] = 2
           \<and> list_all saw_expired (invocations ?w)"
    by (simp add: interleave_def begun_def segment_def Let_def example_credentials_def truthy_def
        token_expired_def)
  from every_observer_issues_its_own_refresh[OF 1, THEN conjunct2, THEN mp, OF 2]
  show ?thesis .
qed

subsection \<open>The workflow result\<close>

lemma stepName_record_step [simp]: "stepName (record_step conns name r) = name"
  by (auto simp: record_step_def split: sum.splits ToolCallResult.splits)

lemma stepName_skipped_step [simp]: "stepName (skipped_step name reason) = name"
  by (simp add: skipped_step_def)

lemma success_skipped_step [simp]: "\<not> success (skipped_step name reason)"
  by (simp add: skipped_step_def)

lemma stepName_branch_step [simp]: "stepName (branch_step conns b r) = ''create branch''"
  by (auto simp: branch_step_def split: sum.splits)

lemma detail_record_step [simp]: "detail (record_step conns name r) = answer_text r"
  by (auto simp: record_step_def answer_text_def split: sum.splits ToolCallResult.splits)

lemma detail_branch_step [simp]: "detail (branch_step conns b r) = answer_text r"
  by (auto simp: branch_step_def answer_text_def split: sum.splits)



lemma search_step_name_inj: "inj search_step_name"
  by (simp add: inj_on_def search_step_name_def)








end
